theory Spec2Isabelle
  imports Complex_Main "HOL-Library.AList"
begin

section \<open>Values shared by the modules\<close>

text \<open>
  JavaScript numbers that the program only ever uses as integers (scores, accuracy,
  counters) are \<open>int\<close> or \<open>nat\<close>; clock readings and elevations are \<open>rat\<close>, with the
  arithmetic taken exactly. A property that may be missing from an object is an
  \<open>option\<close>, \<open>None\<close> standing for \<open>undefined\<close>. A handler that runs into a
  \<open>TypeError\<close> stops where it is: the mutations made so far stay, so its outcome is
  \<open>Thrown\<close> with the state at that point.
\<close>

datatype 'a outcome = Done 'a | Thrown 'a

fun state_of :: "'a outcome \<Rightarrow> 'a" where
  "state_of (Done s) = s"
| "state_of (Thrown s) = s"

fun and_then :: "'a outcome \<Rightarrow> ('a \<Rightarrow> 'a outcome) \<Rightarrow> 'a outcome" where
  "and_then (Done s) f = f s"
| "and_then (Thrown s) f = Thrown s"

text \<open>Truthiness of an optional number, as an \<open>if (x)\<close> or \<open>x && ...\<close> tests it.\<close>

fun truthy_num :: "int option \<Rightarrow> bool" where
  "truthy_num None = False"
| "truthy_num (Some n) = (n \<noteq> 0)"

text \<open>Relational operators with a possibly \<open>undefined\<close> left operand: \<open>undefined\<close>
  converts to \<open>NaN\<close>, and every comparison with \<open>NaN\<close> is false.\<close>

fun js_lt :: "int option \<Rightarrow> int \<Rightarrow> bool" where
  "js_lt None b = False"
| "js_lt (Some a) b = (a < b)"

fun js_gt :: "int option \<Rightarrow> int \<Rightarrow> bool" where
  "js_gt None b = False"
| "js_gt (Some a) b = (a > b)"

fun js_le :: "int option \<Rightarrow> int \<Rightarrow> bool" where
  "js_le None b = False"
| "js_le (Some a) b = (a \<le> b)"

fun js_ge :: "int option \<Rightarrow> int \<Rightarrow> bool" where
  "js_ge None b = False"
| "js_ge (Some a) b = (a \<ge> b)"

section \<open>Player profile and badge system\<close>

text \<open>An entry of \<open>playerData.completedSimulations\<close>. Every field but \<open>completed\<close>
  may be missing.\<close>

record sim_entry =
  sim_completed :: bool
  sim_score :: "int option"
  sim_timeBonus :: "int option"
  sim_accuracy :: "int option"
  sim_completedAt :: "string option"
  sim_timeElapsed :: "int option"

text \<open>\<open>playerData\<close> of \<open>DisasterSimGame\<close>. The object \<open>completedSimulations\<close> is an
  association list in insertion order; assigning to a key replaces the value in place
  or appends the key, which is \<open>AList.update\<close>.\<close>

record playerData =
  totalScore :: int
  level :: int
  badges :: "string list"
  completedSimulations :: "(string \<times> sim_entry) list"

definition initialPlayerData :: playerData where
  "initialPlayerData =
     \<lparr>totalScore = 0, level = 1, badges = [], completedSimulations = []\<rparr>"

text \<open>The \<open>requirements\<close> object of a badge; a missing number is \<open>None\<close>, a missing
  flag is \<open>False\<close>.\<close>

record requirements =
  req_completeSimulation :: "string option"
  req_minScore :: "int option"
  req_maxTime :: "int option"
  req_completeAllSimulations :: bool
  req_totalScore :: "int option"
  req_completeAnyIn :: "int option"
  req_perfectAccuracy :: bool
  req_evacuateAll :: bool
  req_completeTutorials :: "int option"

definition no_requirements :: requirements where
  "no_requirements =
     \<lparr>req_completeSimulation = None, req_minScore = None, req_maxTime = None,
      req_completeAllSimulations = False, req_totalScore = None, req_completeAnyIn = None,
      req_perfectAccuracy = False, req_evacuateAll = False, req_completeTutorials = None\<rparr>"

record badge =
  badge_id :: string
  badge_name :: string
  description :: string
  requirements :: requirements

text \<open>\<open>BadgeSystem.badges\<close>, keyed by badge id (the icons are left out).\<close>

definition BadgeSystem_badges :: "(string \<times> badge) list" where
  "BadgeSystem_badges =
    [(''earthquake'', \<lparr>badge_id = ''earthquake'', badge_name = ''Earthquake Expert'',
        description = ''Master of earthquake response protocols'',
        requirements = no_requirements\<lparr>req_completeSimulation := Some ''earthquake'',
          req_minScore := Some 500, req_maxTime := Some 900\<rparr>\<rparr>),
     (''landslide'', \<lparr>badge_id = ''landslide'', badge_name = ''Landslide Guardian'',
        description = ''Expert in landslide safety measures'',
        requirements = no_requirements\<lparr>req_completeSimulation := Some ''landslide'',
          req_minScore := Some 600, req_maxTime := Some 1200\<rparr>\<rparr>),
     (''flood'', \<lparr>badge_id = ''flood'', badge_name = ''Flood Hero'',
        description = ''Champion of flood emergency response'',
        requirements = no_requirements\<lparr>req_completeSimulation := Some ''flood'',
          req_minScore := Some 700, req_maxTime := Some 1500\<rparr>\<rparr>),
     (''master'', \<lparr>badge_id = ''master'', badge_name = ''Disaster Master'',
        description = ''Complete all simulations with excellence'',
        requirements = no_requirements\<lparr>req_completeAllSimulations := True,
          req_totalScore := Some 2000\<rparr>\<rparr>),
     (''speedRunner'', \<lparr>badge_id = ''speedRunner'', badge_name = ''Quick Response'',
        description = ''Complete any simulation in record time'',
        requirements = no_requirements\<lparr>req_completeAnyIn := Some 300\<rparr>\<rparr>),
     (''perfectionist'', \<lparr>badge_id = ''perfectionist'', badge_name = ''Perfect Score'',
        description = ''Achieve 100% accuracy in any simulation'',
        requirements = no_requirements\<lparr>req_perfectAccuracy := True\<rparr>\<rparr>),
     (''lifeSaver'', \<lparr>badge_id = ''lifeSaver'', badge_name = ''Life Saver'',
        description = ''Successfully evacuate all people in a simulation'',
        requirements = no_requirements\<lparr>req_evacuateAll := True\<rparr>\<rparr>),
     (''educator'', \<lparr>badge_id = ''educator'', badge_name = ''Disaster Educator'',
        description = ''Share knowledge by completing tutorial mode'',
        requirements = no_requirements\<lparr>req_completeTutorials := Some 3\<rparr>\<rparr>)]"

text \<open>\<open>getBadgeForDisaster\<close> is \<open>this.badges[disasterType]\<close>, here for the names of the
  table. (The property read also finds the names that every object inherits, such as
  \<open>constructor\<close>; no session reports one of them as its disaster, and they are not
  modelled.)\<close>

definition getBadgeForDisaster :: "string \<Rightarrow> badge option" where
  "getBadgeForDisaster disasterType = map_of BadgeSystem_badges disasterType"

text \<open>The five blocks of \<open>checkBadgeRequirements\<close>, each true when the block executes
  \<open>return false\<close>.\<close>

definition completeSimulation_fails :: "requirements \<Rightarrow> playerData \<Rightarrow> bool" where
  "completeSimulation_fails req playerStats =
     (case req_completeSimulation req of
        None \<Rightarrow> False
      | Some d \<Rightarrow>
          if d = [] then False
          else (case map_of (completedSimulations playerStats) d of
                  None \<Rightarrow> True
                | Some simulation \<Rightarrow>
                    if \<not> sim_completed simulation then True
                    else if truthy_num (req_minScore req)
                            \<and> js_lt (sim_score simulation) (the (req_minScore req)) then True
                    else if truthy_num (req_maxTime req)
                            \<and> js_gt (sim_timeElapsed simulation) (the (req_maxTime req)) then True
                    else False))"

definition completeAll_fails :: "requirements \<Rightarrow> playerData \<Rightarrow> bool" where
  "completeAll_fails req playerStats =
     (if req_completeAllSimulations req then
        \<not> list_all (\<lambda>sim. case map_of (completedSimulations playerStats) sim of
                               None \<Rightarrow> False | Some e \<Rightarrow> sim_completed e)
             [''earthquake'', ''landslide'', ''flood'']
      else False)"

definition totalScore_fails :: "requirements \<Rightarrow> playerData \<Rightarrow> bool" where
  "totalScore_fails req playerStats =
     (truthy_num (req_totalScore req) \<and> totalScore playerStats < the (req_totalScore req))"

definition completeAnyIn_fails :: "requirements \<Rightarrow> playerData \<Rightarrow> bool" where
  "completeAnyIn_fails req playerStats =
     (if truthy_num (req_completeAnyIn req) then
        \<not> list_ex (\<lambda>sim. js_le (sim_timeElapsed sim) (the (req_completeAnyIn req)))
             (map snd (completedSimulations playerStats))
      else False)"

definition perfectAccuracy_fails :: "requirements \<Rightarrow> playerData \<Rightarrow> bool" where
  "perfectAccuracy_fails req playerStats =
     (if req_perfectAccuracy req then
        \<not> list_ex (\<lambda>sim. js_ge (sim_accuracy sim) 100)
             (map snd (completedSimulations playerStats))
      else False)"

definition checkRequirements :: "requirements \<Rightarrow> playerData \<Rightarrow> bool" where
  "checkRequirements req playerStats =
     (if completeSimulation_fails req playerStats then False
      else if completeAll_fails req playerStats then False
      else if totalScore_fails req playerStats then False
      else if completeAnyIn_fails req playerStats then False
      else if perfectAccuracy_fails req playerStats then False
      else True)"

definition checkBadgeRequirements :: "string \<Rightarrow> playerData \<Rightarrow> bool" where
  "checkBadgeRequirements badgeId playerStats =
     (case map_of BadgeSystem_badges badgeId of
        None \<Rightarrow> False
      | Some b \<Rightarrow> checkRequirements (requirements b) playerStats)"

section \<open>The parent controller\<close>

text \<open>The result record a session reports to \<open>DisasterSimGame.completeSimulation\<close>.\<close>

record results =
  r_disaster :: string
  r_score :: int
  r_timeBonus :: int
  r_accuracy :: int

text \<open>\<open>DisasterSimGame.completeSimulation\<close> on the player data; \<open>completedAt\<close> is the
  ISO time stamp of the call. The badge modal, saving and the UI refresh do not change
  the player data. \<open>badge.id\<close> throws when the badge system has no badge for the
  disaster; the updates made before stay.\<close>

definition completeSimulation :: "string \<Rightarrow> results \<Rightarrow> playerData \<Rightarrow> playerData outcome" where
  "completeSimulation completedAt res pd =
     (let pd1 = pd\<lparr>totalScore := totalScore pd + (r_score res + r_timeBonus res)\<rparr>;
          pd2 = pd1\<lparr>completedSimulations :=
                   AList.update (r_disaster res)
                     \<lparr>sim_completed = True, sim_score = Some (r_score res),
                      sim_timeBonus = Some (r_timeBonus res),
                      sim_accuracy = Some (r_accuracy res),
                      sim_completedAt = Some completedAt, sim_timeElapsed = None\<rparr>
                     (completedSimulations pd1)\<rparr>;
          newLevel = totalScore pd2 div 1000 + 1;
          pd3 = (if newLevel > level pd2 then pd2\<lparr>level := newLevel\<rparr> else pd2)
      in case getBadgeForDisaster (r_disaster res) of
           None \<Rightarrow> Thrown pd3
         | Some b \<Rightarrow>
             let pd4 = (if badge_id b \<notin> set (badges pd3)
                        then pd3\<lparr>badges := badges pd3 @ [badge_id b]\<rparr> else pd3);
                 completedAll = list_all (\<lambda>d. map_of (completedSimulations pd4) d \<noteq> None)
                                  [''earthquake'', ''landslide'', ''flood''];
                 pd5 = (if completedAll \<and> ''master'' \<notin> set (badges pd4)
                        then pd4\<lparr>badges := badges pd4 @ [''master'']\<rparr> else pd4)
             in Done pd5)"

text \<open>Profiles whose entries were written by \<open>completeSimulation\<close> only, starting from
  the constructor's player data.\<close>

inductive written_by_controller :: "playerData \<Rightarrow> bool" where
  initial: "written_by_controller initialPlayerData"
| complete: "written_by_controller pd \<Longrightarrow>
     written_by_controller (state_of (completeSimulation completedAt res pd))"

text \<open>The test of \<open>completeSimulation\<close> for the master badge: every disaster has an entry.\<close>

definition allDisasters_completed :: "playerData \<Rightarrow> bool" where
  "allDisasters_completed pd =
     list_all (\<lambda>d. map_of (completedSimulations pd) d \<noteq> None)
       [''earthquake'', ''landslide'', ''flood'']"

text \<open>What an earthquake session reports when the player does nothing and the phases run
  out after 225 seconds: no base score, time bonus 50, accuracy bonus 200.\<close>

definition slow_earthquake_results :: results where
  "slow_earthquake_results =
     \<lparr>r_disaster = ''earthquake'', r_score = 250, r_timeBonus = 50, r_accuracy = 100\<rparr>"

section \<open>Strings, identifiers and array lookups\<close>

text \<open>Decimal rendering of an array index, as a template literal does it.\<close>

fun digit_char :: "nat \<Rightarrow> char" where
  "digit_char d = char_of (48 + d)"

fun show_nat :: "nat \<Rightarrow> string" where
  "show_nat n = (if n < 10 then [digit_char n] else show_nat (n div 10) @ [digit_char (n mod 10)])"

declare show_nat.simps [simp del]

text \<open>\<open>String.prototype.split\<close> with a one-character separator.\<close>

fun split :: "char \<Rightarrow> string \<Rightarrow> string list" where
  "split sep [] = [[]]"
| "split sep (c # cs) =
     (if c = sep then [] # split sep cs
      else (case split sep cs of
              [] \<Rightarrow> [[c]]
            | w # ws \<Rightarrow> (c # w) # ws))"

text \<open>\<open>parseInt\<close> with no radix argument: leading white space is skipped, a sign is
  read, a prefix \<open>0x\<close> or \<open>0X\<close> selects radix 16, and the longest run of digits of the
  radix is the value; with no digit the result is \<open>NaN\<close>, here \<open>None\<close>.\<close>

definition is_whitespace :: "char \<Rightarrow> bool" where
  "is_whitespace c = (of_char c \<in> {9, 10, 11, 12, 13, 32 :: nat})"

definition digit_value :: "char \<Rightarrow> nat option" where
  "digit_value c =
     (let n = (of_char c :: nat)
      in if 48 \<le> n \<and> n \<le> 57 then Some (n - 48)
         else if 97 \<le> n \<and> n \<le> 122 then Some (n - 87)
         else if 65 \<le> n \<and> n \<le> 90 then Some (n - 55)
         else None)"

fun digits_prefix :: "nat \<Rightarrow> string \<Rightarrow> nat list" where
  "digits_prefix R [] = []"
| "digits_prefix R (c # cs) =
     (case digit_value c of
        None \<Rightarrow> []
      | Some d \<Rightarrow> if d < R then d # digits_prefix R cs else [])"

definition parseInt :: "string \<Rightarrow> int option" where
  "parseInt str =
     (let s1 = dropWhile is_whitespace str;
          sgn_rest = (case s1 of
                        [] \<Rightarrow> (1 :: int, [])
                      | c # cs \<Rightarrow> if c = CHR ''-'' then (- 1, cs)
                                 else if c = CHR ''+'' then (1, cs) else (1, s1));
          s2 = snd sgn_rest;
          hex = (take 2 s2 = ''0x'' \<or> take 2 s2 = ''0X'');
          R = (if hex then 16 else 10 :: nat);
          ds = digits_prefix R (if hex then drop 2 s2 else s2)
      in if ds = [] then None
         else Some (fst sgn_rest * int (foldl (\<lambda>a d. a * R + d) 0 ds)))"

text \<open>\<open>parseInt(id.split('_')[1])\<close>; a missing second part is \<open>undefined\<close>, which parses
  to \<open>NaN\<close>.\<close>

definition index_of_id :: "string \<Rightarrow> int option" where
  "index_of_id ident =
     (case split (CHR ''_'') ident of
        _ # part # _ \<Rightarrow> parseInt part
      | _ \<Rightarrow> None)"

text \<open>\<open>array[index]\<close> for such an index: the position read, or \<open>None\<close> when the read
  gives \<open>undefined\<close>.\<close>

definition element_at :: "'a list \<Rightarrow> int option \<Rightarrow> nat option" where
  "element_at xs ix =
     (case ix of
        None \<Rightarrow> None
      | Some i \<Rightarrow> if 0 \<le> i \<and> nat i < length xs then Some (nat i) else None)"

section \<open>What a session shares with its host\<close>

text \<open>Items and drop zones of the drag-and-drop panel.\<close>

record drag_item =
  item_id :: string
  item_label :: string
  item_type :: string

record drop_zone =
  zone_id :: string
  zone_label :: string
  accepts :: "string list"

text \<open>The callbacks a session attaches to the buttons of the instruction panel.\<close>

datatype action =
    HideInstructions
  | StartEarthquakePhase
  | StartEvacuationPhase
  | ShowWarningInterface
  | SimulateLandslide
  | Restart
  | ReturnToMenu
  | StartFloodPhase
  | StartRescuePhase
  | ReportResults results

text \<open>The calls a session makes on its host and the messages it puts on the page, in
  order. Of an instruction panel the title and the buttons are kept.\<close>

datatype ui_call =
    UpdateProgress rat
  | ShowInstructions string "(string \<times> action) list"
  | HideInstructionsCall
  | ShowDragDropPanel "drag_item list" "drop_zone list"
  | HideDragDropPanel
  | ShowFeedback string
  | AchievementMessage string
  | ErrorMessage string
  | HintMessage string

text \<open>The delayed callbacks of the three sessions: \<open>setTimeout\<close> closures with what they
  capture, and the animation-frame loops of the flood.\<close>

datatype callback =
    PhaseTimer nat
  | EvacuateIfNeeded nat
  | StudentExited nat
  | CompleteEarly
  | AutoActivateWarning
  | StaggeredEvacuation nat
  | ResidentSheltered nat nat
  | BoatLoaded nat nat
  | BoatArrived nat nat
  | SupplyDispatch nat
  | SupplyDelivered nat nat
  | RaiseWater
  | RecedeWater

record phase =
  phase_name :: string
  duration :: rat

text \<open>The fields the three sessions have in common. \<open>objectives\<close> is the object of named
  flags in key order; \<open>timers\<close> are the pending callbacks with the time they are due
  (milliseconds on the clock of \<open>performance.now\<close>), in the order they were set.\<close>

record session =
  currentPhase :: nat
  score :: int
  startTime :: rat
  accuracy :: int
  mistakes :: nat
  objectives :: "(string \<times> bool) list"
  timers :: "(rat \<times> callback) list"
  ui :: "ui_call list"

text \<open>What a handler reads from outside the session: the clock, the distances from the
  object at hand to each safe zone or evacuation centre, by its position in the list (for
  \<open>position.distanceTo\<close>), and which of
  the methods that sessions call but the repository's host and engine do not define
  are there.\<close>

record env =
  now :: rat
  distances :: "nat \<Rightarrow> rat"
  has_showFeedback :: bool
  has_returnToMenu :: bool
  has_clearScene :: bool

text \<open>The host and engine as the repository defines them: \<open>DisasterSimGame\<close> has no
  \<open>showFeedback\<close> and no \<open>returnToMenu\<close>, \<open>GameEngine\<close> no \<open>clearScene\<close>.\<close>

definition repository_env :: "rat \<Rightarrow> (nat \<Rightarrow> rat) \<Rightarrow> env" where
  "repository_env t ds =
     \<lparr>now = t, distances = ds, has_showFeedback = False, has_returnToMenu = False,
      has_clearScene = False\<rparr>"

definition call :: "ui_call \<Rightarrow> 'a session_scheme \<Rightarrow> 'a session_scheme" where
  "call c s = s\<lparr>ui := ui s @ [c]\<rparr>"

definition setTimeout :: "env \<Rightarrow> callback \<Rightarrow> rat \<Rightarrow> 'a session_scheme \<Rightarrow> 'a session_scheme" where
  "setTimeout e cb delay s = s\<lparr>timers := timers s @ [(now e + delay, cb)]\<rparr>"

definition set_objective :: "string \<Rightarrow> 'a session_scheme \<Rightarrow> 'a session_scheme" where
  "set_objective k s = s\<lparr>objectives := AList.update k True (objectives s)\<rparr>"

definition clear_objectives :: "'a session_scheme \<Rightarrow> 'a session_scheme" where
  "clear_objectives s = s\<lparr>objectives := map (\<lambda>(k, v). (k, False)) (objectives s)\<rparr>"

text \<open>\<open>Object.values(this.objectives).filter(Boolean).length\<close>.\<close>

definition objectiveCount :: "'a session_scheme \<Rightarrow> nat" where
  "objectiveCount s = length (filter (\<lambda>v. v) (map snd (objectives s)))"

text \<open>\<open>game.showFeedback\<close>, called by the landslide session only.\<close>

definition showFeedback :: "env \<Rightarrow> string \<Rightarrow> 'a session_scheme \<Rightarrow> 'a session_scheme outcome" where
  "showFeedback e title s =
     (if has_showFeedback e then Done (call (ShowFeedback title) s) else Thrown s)"

text \<open>The phase timers among pending callbacks, each with its due time and the phase
  index it captured; and those of a session.\<close>

definition phase_entries :: "(rat \<times> callback) list \<Rightarrow> (rat \<times> nat) list" where
  "phase_entries ts =
     concat (map (\<lambda>(due, cb). case cb of PhaseTimer i \<Rightarrow> [(due, i)] | _ \<Rightarrow> []) ts)"

definition phaseTimers :: "'a session_scheme \<Rightarrow> (rat \<times> nat) list" where
  "phaseTimers s = phase_entries (timers s)"

text \<open>At most one phase timer is pending, and it holds the current phase index.\<close>

definition one_timer_pending :: "'a session_scheme \<Rightarrow> bool" where
  "one_timer_pending s =
     (case phaseTimers s of
        [] \<Rightarrow> True
      | [(due, i)] \<Rightarrow> i = currentPhase s
      | _ \<Rightarrow> False)"

text \<open>Taking the \<open>k\<close>-th pending callback off the list, when it fires.\<close>

definition take_timer :: "nat \<Rightarrow> 'a session_scheme \<Rightarrow> 'a session_scheme" where
  "take_timer k s = s\<lparr>timers := take k (timers s) @ drop (Suc k) (timers s)\<rparr>"

text \<open>The search loop of \<open>findNearestSafeZone\<close> and \<open>findNearestEvacuationCenter\<close>
  over \<open>n\<close> places: a place replaces the best so far when it is admissible and strictly
  nearer.\<close>

definition nearest :: "(nat \<Rightarrow> bool) \<Rightarrow> (nat \<Rightarrow> rat) \<Rightarrow> nat \<Rightarrow> nat option" where
  "nearest ok distance n =
     fold (\<lambda>i best. if ok i \<and> (case best of None \<Rightarrow> True | Some j \<Rightarrow> distance i < distance j)
                       then Some i else best)
       [0 ..< n] None"

text \<open>\<open>Math.round\<close>.\<close>

definition js_round :: "rat \<Rightarrow> int" where
  "js_round x = \<lfloor>x + 1 / 2\<rfloor>"

section \<open>Arithmetic on clock readings\<close>

text \<open>A JavaScript number is an IEEE 754 double: zero or \<open>m * 2^e\<close> with an integer
  \<open>m\<close> of at most 53 bits and \<open>e\<close> from \<open>-1074\<close> on. An arithmetic operation gives the
  exact result rounded to the nearest double, a tie going to the even \<open>m\<close>. \<open>binade x\<close>
  is the \<open>k\<close> with \<open>2^k \<le> x < 2^(k + 1)\<close> for a positive \<open>x\<close>; the spacing of the doubles
  around \<open>x\<close> is \<open>2^(k - 52)\<close>, and \<open>2^(-1074)\<close> below \<open>2^(-1022)\<close>. A result of magnitude
  \<open>2^1024\<close> or more is \<open>Infinity\<close> in the code and is not modelled: the theorems that
  depend on this arithmetic are stated for clock readings that stay below.\<close>

fun bit_length :: "nat \<Rightarrow> nat" where
  "bit_length n = (if n = 0 then 0 else Suc (bit_length (n div 2)))"

declare bit_length.simps [simp del]

definition pow2 :: "int \<Rightarrow> rat" where
  "pow2 k = (if 0 \<le> k then 2 ^ nat k else 1 / 2 ^ nat (- k))"

definition binade :: "rat \<Rightarrow> int" where
  "binade x = (if 1 \<le> x then int (bit_length (nat \<lfloor>x\<rfloor>)) - 1
               else - int (bit_length (nat \<lceil>1 / x\<rceil> - 1)))"

definition round_half_even :: "rat \<Rightarrow> int" where
  "round_half_even x =
     (let f = \<lfloor>x\<rfloor>; r = x - of_int f
      in if r < 1 / 2 then f else if 1 / 2 < r then f + 1 else if even f then f else f + 1)"

definition to_double :: "rat \<Rightarrow> rat" where
  "to_double x =
     (if x = 0 then 0
      else let e = max (binade \<bar>x\<bar>) (- 1022) - 52
           in of_int (round_half_even (x / pow2 e)) * pow2 e)"

text \<open>The operators \<open>-\<close>, \<open>/\<close> and \<open>*\<close> of the code on numbers that need not be
  integers.\<close>

definition double_sub :: "rat \<Rightarrow> rat \<Rightarrow> rat" where
  "double_sub a b = to_double (a - b)"

definition double_div :: "rat \<Rightarrow> rat \<Rightarrow> rat" where
  "double_div a b = to_double (a / b)"

definition double_mul :: "rat \<Rightarrow> rat \<Rightarrow> rat" where
  "double_mul a b = to_double (a * b)"

section \<open>Earthquake session\<close>

text \<open>Of a student the two status flags are kept. Of the desks only their number
  matters (\<open>this.desks[i]\<close> is there or not). Scene construction, lighting, sound and
  \<open>engine.moveObject\<close> animations are presentation: they return and leave the session's
  fields alone.\<close>

record student =
  safe :: bool
  evacuated :: bool

record EarthquakeSimulation = session +
  students :: "student list"
  desks :: nat
  phaseStartTime :: rat
  isEarthquakeActive :: bool
  evacuatedStudents :: nat

definition eq_maxMistakes :: nat where
  "eq_maxMistakes = 3"

definition eq_totalStudents :: nat where
  "eq_totalStudents = 8"

definition eq_phases :: "phase list" where
  "eq_phases =
     [\<lparr>phase_name = ''preparation'', duration = 30000\<rparr>,
      \<lparr>phase_name = ''earthquake'', duration = 45000\<rparr>,
      \<lparr>phase_name = ''aftermath'', duration = 60000\<rparr>,
      \<lparr>phase_name = ''evacuation'', duration = 90000\<rparr>]"

text \<open>The constructor.\<close>

definition EarthquakeSimulation_new :: EarthquakeSimulation where
  "EarthquakeSimulation_new =
     \<lparr>currentPhase = 0, score = 0, startTime = 0, accuracy = 100, mistakes = 0,
      objectives = [(''dropCoverHold'', False), (''stayCalm'', False),
                    (''checkInjuries'', False), (''evacuateSafely'', False),
                    (''assembleAtSafePoint'', False)],
      timers = [], ui = [],
      students = [], desks = 0, phaseStartTime = 0, isEarthquakeActive = False,
      evacuatedStudents = 0\<rparr>"

text \<open>\<open>createClassroomScene\<close>: four rows of two desks, then one student per desk.\<close>

definition createClassroomScene :: "EarthquakeSimulation \<Rightarrow> EarthquakeSimulation" where
  "createClassroomScene s =
     s\<lparr>desks := desks s + 8,
       students := students s @ replicate eq_totalStudents \<lparr>safe = False, evacuated = False\<rparr>\<rparr>"

record eq_score =
  eq_baseScore :: int
  eq_timeBonus :: int
  eq_accuracyBonus :: int
  eq_objectiveBonus :: int
  eq_total :: int
  eq_timeElapsed :: int
  eq_accuracy :: int
  eq_objectives :: "(string \<times> bool) list"

text \<open>\<open>calculateFinalScore\<close>. The clock readings are doubles and need not be integers,
  so the elapsed seconds and the time bonus are computed with the operations on doubles,
  each of which rounds. The score, the accuracy and the counts are integers, on which the
  code's arithmetic is exact as long as they stay below \<open>2^53\<close>.\<close>

definition eq_calculateFinalScore :: "env \<Rightarrow> EarthquakeSimulation \<Rightarrow> eq_score" where
  "eq_calculateFinalScore e s =
     (let timeElapsed = double_div (double_sub (now e) (startTime s)) 1000;
          baseScore = score s;
          maxTime = 300;
          timeBonus = max 0 \<lfloor>double_mul (double_div (double_sub maxTime timeElapsed) maxTime) 200\<rfloor>;
          accuracyBonus = \<lfloor>(of_int (accuracy s) :: rat) * 2\<rfloor>;
          objectiveCount = int (objectiveCount s);
          objectiveBonus = objectiveCount * 100
      in \<lparr>eq_baseScore = baseScore, eq_timeBonus = timeBonus, eq_accuracyBonus = accuracyBonus,
          eq_objectiveBonus = objectiveBonus,
          eq_total = baseScore + timeBonus + accuracyBonus + objectiveBonus,
          eq_timeElapsed = \<lfloor>timeElapsed\<rfloor>, eq_accuracy = accuracy s,
          eq_objectives = objectives s\<rparr>)"

definition eq_completeSimulation :: "env \<Rightarrow> EarthquakeSimulation \<Rightarrow> EarthquakeSimulation" where
  "eq_completeSimulation e s =
     (let res = eq_calculateFinalScore e s
      in call (ShowInstructions ''Earthquake Simulation Complete!''
                 [(''View Results'',
                   ReportResults \<lparr>r_disaster = ''earthquake'', r_score = eq_total res,
                                  r_timeBonus = eq_timeBonus res, r_accuracy = eq_accuracy res\<rparr>)])
           (call (UpdateProgress 100) s))"

definition eq_showEducationalInfo :: "string \<Rightarrow> EarthquakeSimulation \<Rightarrow> EarthquakeSimulation" where
  "eq_showEducationalInfo title s = call (ShowInstructions title [(''Got it!'', HideInstructions)]) s"

definition startPreparationPhase :: "EarthquakeSimulation \<Rightarrow> EarthquakeSimulation" where
  "startPreparationPhase s =
     call (ShowInstructions ''Phase 1: Preparation'' [(''Continue'', HideInstructions)]) s"

definition showEarthquakeInstructions :: "EarthquakeSimulation \<Rightarrow> EarthquakeSimulation" where
  "showEarthquakeInstructions s =
     call (ShowInstructions ''EARTHQUAKE HAPPENING NOW!'' [(''Take Action!'', StartEarthquakePhase)]) s"

definition startAftermathPhase :: "EarthquakeSimulation \<Rightarrow> EarthquakeSimulation" where
  "startAftermathPhase s =
     call (ShowInstructions ''Phase 3: Immediate Aftermath'' [(''Assess Situation'', HideInstructions)])
       (call HideDragDropPanel (s\<lparr>isEarthquakeActive := False\<rparr>))"

definition showEvacuationInstructions :: "EarthquakeSimulation \<Rightarrow> EarthquakeSimulation" where
  "showEvacuationInstructions s =
     call (ShowInstructions ''Phase 4: Safe Evacuation'' [(''Begin Evacuation'', StartEvacuationPhase)]) s"

definition eq_startPhase :: "env \<Rightarrow> nat \<Rightarrow> EarthquakeSimulation \<Rightarrow> EarthquakeSimulation" where
  "eq_startPhase e phaseIndex s =
     (if phaseIndex \<ge> length eq_phases then eq_completeSimulation e s
      else
        let s1 = s\<lparr>currentPhase := phaseIndex, phaseStartTime := now e\<rparr>;
            ph = eq_phases ! phaseIndex;
            s2 = call (UpdateProgress (of_nat phaseIndex / of_nat (length eq_phases) * 100)) s1;
            s3 = (if phase_name ph = ''preparation'' then startPreparationPhase s2
                  else if phase_name ph = ''earthquake'' then showEarthquakeInstructions s2
                  else if phase_name ph = ''aftermath'' then startAftermathPhase s2
                  else if phase_name ph = ''evacuation'' then showEvacuationInstructions s2
                  else s2)
        in setTimeout e (PhaseTimer phaseIndex) (duration ph) s3)"

text \<open>The body of the timer that \<open>startPhase\<close> sets, with the phase index it captured.\<close>

definition eq_phaseTimer :: "env \<Rightarrow> nat \<Rightarrow> EarthquakeSimulation \<Rightarrow> EarthquakeSimulation" where
  "eq_phaseTimer e phaseIndex s =
     (if currentPhase s = phaseIndex then eq_startPhase e (phaseIndex + 1) s else s)"

definition eq_showWelcomeInstructions :: "EarthquakeSimulation \<Rightarrow> EarthquakeSimulation" where
  "eq_showWelcomeInstructions s =
     call (ShowInstructions ''Welcome to Earthquake Response Training''
             [(''Start Training'', HideInstructions)]) s"

definition eq_start :: "env \<Rightarrow> EarthquakeSimulation \<Rightarrow> EarthquakeSimulation" where
  "eq_start e s =
     eq_showWelcomeInstructions (eq_startPhase e 0 (createClassroomScene (s\<lparr>startTime := now e\<rparr>)))"

definition showDropCoverHoldInterface :: "EarthquakeSimulation \<Rightarrow> EarthquakeSimulation" where
  "showDropCoverHoldInterface s =
     call (ShowDragDropPanel
             (map (\<lambda>index. \<lparr>item_id = ''student_'' @ show_nat index,
                             item_label = ''Student '' @ show_nat (index + 1),
                             item_type = ''person''\<rparr>) [0 ..< length (students s)])
             (map (\<lambda>index. \<lparr>zone_id = ''desk_'' @ show_nat index,
                             zone_label = ''Under Desk '' @ show_nat (index + 1),
                             accepts = [''person'']\<rparr>) [0 ..< desks s])) s"

definition startEarthquakePhase :: "EarthquakeSimulation \<Rightarrow> EarthquakeSimulation" where
  "startEarthquakePhase s =
     showDropCoverHoldInterface ((call HideInstructionsCall s)\<lparr>isEarthquakeActive := True\<rparr>)"

definition onCorrectDrop :: "string \<Rightarrow> string \<Rightarrow> EarthquakeSimulation \<Rightarrow> EarthquakeSimulation" where
  "onCorrectDrop studentId deskId s =
     (let studentIndex = index_of_id studentId;
          deskIndex = index_of_id deskId
      in case (element_at (students s) studentIndex, element_at (replicate (desks s) ()) deskIndex) of
           (Some i, Some j) \<Rightarrow>
             let s1 = s\<lparr>students := (students s)[i := (students s ! i)\<lparr>safe := True\<rparr>],
                       score := score s + 100\<rparr>
             in if of_nat (length (filter safe (students s1))) \<ge> (of_nat eq_totalStudents :: rat) * (3 / 4)
                then call (AchievementMessage ''Drop, Cover, and Hold completed!'')
                       (set_objective ''dropCoverHold'' s1)
                else s1
         | _ \<Rightarrow> s)"

definition onIncorrectDrop :: "string \<Rightarrow> string \<Rightarrow> EarthquakeSimulation \<Rightarrow> EarthquakeSimulation" where
  "onIncorrectDrop studentId deskId s =
     (let s1 = s\<lparr>mistakes := mistakes s + 1\<rparr>;
          s2 = s1\<lparr>accuracy := max 0 (accuracy s1 - 10)\<rparr>
      in if mistakes s2 \<ge> eq_maxMistakes
         then call (ErrorMessage ''Too many mistakes! Remember: Drop, Cover, and Hold under sturdy furniture.'') s2
         else s2)"

definition eq_evacuateStudent :: "env \<Rightarrow> nat \<Rightarrow> EarthquakeSimulation \<Rightarrow> EarthquakeSimulation" where
  "eq_evacuateStudent e i s = setTimeout e (StudentExited i) 3000 s"

text \<open>\<open>initiateEvacuation\<close>: one staggered timer per student.\<close>

definition eq_initiateEvacuation :: "env \<Rightarrow> EarthquakeSimulation \<Rightarrow> EarthquakeSimulation" where
  "eq_initiateEvacuation e s =
     fold (\<lambda>index. setTimeout e (EvacuateIfNeeded index) (of_nat index * 2000))
       [0 ..< length (students s)] s"

definition eq_startEvacuationPhase :: "env \<Rightarrow> EarthquakeSimulation \<Rightarrow> EarthquakeSimulation" where
  "eq_startEvacuationPhase e s = eq_initiateEvacuation e (call HideInstructionsCall s)"

text \<open>The bodies of the other timers. A timer holds its student object, here the
  student's position in the list, which no operation of a running session changes.\<close>

definition evacuateIfNeeded :: "env \<Rightarrow> nat \<Rightarrow> EarthquakeSimulation \<Rightarrow> EarthquakeSimulation" where
  "evacuateIfNeeded e i s =
     (if i < length (students s) \<and> \<not> evacuated (students s ! i) then eq_evacuateStudent e i s else s)"

definition studentExited :: "env \<Rightarrow> nat \<Rightarrow> EarthquakeSimulation \<Rightarrow> EarthquakeSimulation" where
  "studentExited e i s =
     (let s1 = s\<lparr>students := (if i < length (students s)
                                then (students s)[i := (students s ! i)\<lparr>evacuated := True\<rparr>]
                                else students s),
                 evacuatedStudents := evacuatedStudents s + 1,
                 score := score s + 50\<rparr>
      in if evacuatedStudents s1 \<ge> eq_totalStudents
         then setTimeout e CompleteEarly 2000
                (call (AchievementMessage ''All students evacuated safely!'')
                   (set_objective ''assembleAtSafePoint'' (set_objective ''evacuateSafely'' s1)))
         else s1)"

definition onDeskClick :: "EarthquakeSimulation \<Rightarrow> EarthquakeSimulation" where
  "onDeskClick s =
     (let s1 = (if currentPhase s = 0 then eq_showEducationalInfo ''Desk Safety'' s else s)
      in s1\<lparr>score := score s1 + 10\<rparr>)"

definition onStudentClick :: "env \<Rightarrow> nat \<Rightarrow> EarthquakeSimulation \<Rightarrow> EarthquakeSimulation" where
  "onStudentClick e i s =
     (if i < length (students s) then
        (if isEarthquakeActive s \<and> \<not> safe (students s ! i)
         then call (HintMessage ''Help the student get to safety under a desk!'') s
         else if currentPhase s = 3 \<and> \<not> evacuated (students s ! i) then eq_evacuateStudent e i s
         else s)
      else s)"

definition onExitClick :: "EarthquakeSimulation \<Rightarrow> EarthquakeSimulation" where
  "onExitClick s =
     (let s1 = (if currentPhase s = 0 then eq_showEducationalInfo ''Emergency Exit'' s
                else if currentPhase s = 3
                then call (HintMessage ''Guide students to this exit for safe evacuation.'') s
                else s)
      in s1\<lparr>score := score s1 + 10\<rparr>)"

definition eq_onEmergencyKitInteract :: "EarthquakeSimulation \<Rightarrow> EarthquakeSimulation" where
  "eq_onEmergencyKitInteract s =
     (let s1 = set_objective ''checkInjuries'' (eq_showEducationalInfo ''Emergency Kit'' s)
      in s1\<lparr>score := score s1 + 50\<rparr>)"

definition eq_reset :: "env \<Rightarrow> EarthquakeSimulation \<Rightarrow> EarthquakeSimulation" where
  "eq_reset e s =
     (let s1 = s\<lparr>currentPhase := 0, score := 0, accuracy := 100, mistakes := 0,
                 evacuatedStudents := 0, isEarthquakeActive := False\<rparr>;
          s2 = clear_objectives s1;
          s3 = s2\<lparr>students := map (\<lambda>st. st\<lparr>safe := False, evacuated := False\<rparr>) (students s2)\<rparr>;
          s4 = s3\<lparr>startTime := now e\<rparr>
      in eq_startPhase e 0 s4)"

text \<open>What can happen to a running earthquake session: the host's calls, the clicks
  that the engine and the instruction buttons pass on, and a pending callback firing
  (any of them, by its position in the list: an order of firing is not imposed).\<close>

datatype eq_event =
    EqStart
  | EqReset
  | EqFire nat
  | EqButton action
  | EqCorrectDrop string string
  | EqIncorrectDrop string string
  | EqDeskClick
  | EqStudentClick nat
  | EqTeacherClick
  | EqExitClick
  | EqKitClick
  | EqBuildingClick

definition eq_run_callback :: "env \<Rightarrow> callback \<Rightarrow> EarthquakeSimulation \<Rightarrow> EarthquakeSimulation" where
  "eq_run_callback e cb s =
     (case cb of
        PhaseTimer i \<Rightarrow> eq_phaseTimer e i s
      | EvacuateIfNeeded i \<Rightarrow> evacuateIfNeeded e i s
      | StudentExited i \<Rightarrow> studentExited e i s
      | CompleteEarly \<Rightarrow> eq_completeSimulation e s
      | _ \<Rightarrow> s)"

definition eq_button :: "env \<Rightarrow> action \<Rightarrow> EarthquakeSimulation \<Rightarrow> EarthquakeSimulation" where
  "eq_button e a s =
     (case a of
        HideInstructions \<Rightarrow> call HideInstructionsCall s
      | StartEarthquakePhase \<Rightarrow> startEarthquakePhase s
      | StartEvacuationPhase \<Rightarrow> eq_startEvacuationPhase e s
      | ReportResults res \<Rightarrow> call HideInstructionsCall s
      | _ \<Rightarrow> s)"

definition eq_step :: "env \<Rightarrow> eq_event \<Rightarrow> EarthquakeSimulation \<Rightarrow> EarthquakeSimulation" where
  "eq_step e ev s =
     (case ev of
        EqStart \<Rightarrow> eq_start e s
      | EqReset \<Rightarrow> eq_reset e s
      | EqFire k \<Rightarrow> (if k < length (timers s)
                      then eq_run_callback e (snd (timers s ! k)) (take_timer k s) else s)
      | EqButton a \<Rightarrow> eq_button e a s
      | EqCorrectDrop studentId deskId \<Rightarrow> onCorrectDrop studentId deskId s
      | EqIncorrectDrop studentId deskId \<Rightarrow> onIncorrectDrop studentId deskId s
      | EqDeskClick \<Rightarrow> onDeskClick s
      | EqStudentClick i \<Rightarrow> onStudentClick e i s
      | EqTeacherClick \<Rightarrow> eq_showEducationalInfo ''Teacher Role'' s
      | EqExitClick \<Rightarrow> onExitClick s
      | EqKitClick \<Rightarrow> eq_onEmergencyKitInteract s
      | EqBuildingClick \<Rightarrow> eq_showEducationalInfo ''Building Safety'' s)"

section \<open>Landslide session\<close>

text \<open>Of a resident the flag \<open>evacuated\<close> is kept, of a safe zone its count of evacuees,
  of a warning sign (a ground crack, a tilting tree or a loose rock of the scene) its
  type and the flag \<open>identified\<close>.\<close>

record hill_resident =
  hr_evacuated :: bool

record warning_sign =
  sign_type :: string
  identified :: bool

record LandslideSimulation = session +
  ls_houses :: nat
  hill_residents :: "hill_resident list"
  safeZones :: "nat list"
  evacuationRoutes :: nat
  warningSigns :: "warning_sign list"
  evacuatedResidents :: nat
  warningSystemActivated :: bool
  warningSignsFound :: nat

definition ls_totalResidents :: nat where
  "ls_totalResidents = 6"

definition ls_totalWarningSigns :: nat where
  "ls_totalWarningSigns = 13"

definition ls_phases :: "phase list" where
  "ls_phases =
     [\<lparr>phase_name = ''warning_signs'', duration = 45000\<rparr>,
      \<lparr>phase_name = ''early_warning'', duration = 60000\<rparr>,
      \<lparr>phase_name = ''evacuation'', duration = 90000\<rparr>,
      \<lparr>phase_name = ''landslide_event'', duration = 30000\<rparr>]"

definition LandslideSimulation_new :: LandslideSimulation where
  "LandslideSimulation_new =
     \<lparr>currentPhase = 0, score = 0, startTime = 0, accuracy = 100, mistakes = 0,
      objectives = [(''identifyWarningSigns'', False), (''activateWarningSystem'', False),
                    (''evacuateResidents'', False), (''reachSafeZone'', False),
                    (''avoidDangerZone'', False)],
      timers = [], ui = [],
      ls_houses = 0, hill_residents = [], safeZones = [], evacuationRoutes = 0,
      warningSigns = [], evacuatedResidents = 0, warningSystemActivated = False,
      warningSignsFound = 0\<rparr>"

text \<open>\<open>createHillsideScene\<close>: six houses, a resident for every house of the list, two
  safe zones, and the thirteen warning signs.\<close>

definition createHillsideScene :: "LandslideSimulation \<Rightarrow> LandslideSimulation" where
  "createHillsideScene s =
     (let s1 = s\<lparr>ls_houses := ls_houses s + 6\<rparr>;
          s2 = s1\<lparr>hill_residents := hill_residents s1
                      @ replicate (ls_houses s1) \<lparr>hr_evacuated = False\<rparr>\<rparr>;
          s3 = s2\<lparr>safeZones := safeZones s2 @ [0, 0]\<rparr>
      in s3\<lparr>warningSigns := warningSigns s3
              @ replicate 3 \<lparr>sign_type = ''ground_crack'', identified = False\<rparr>
              @ replicate 4 \<lparr>sign_type = ''tilting_tree'', identified = False\<rparr>
              @ replicate 6 \<lparr>sign_type = ''loose_rock'', identified = False\<rparr>\<rparr>)"

record ls_score =
  ls_finalScore :: int
  ls_accuracy :: int
  ls_timeElapsed :: int
  ls_rating :: string

definition ls_results :: "env \<Rightarrow> LandslideSimulation \<Rightarrow> ls_score" where
  "ls_results e s =
     (let timeElapsed = js_round (double_div (double_sub (now e) (startTime s)) 1000);
          objectiveBonus = fold (\<lambda>completed bonus. if completed then bonus + 100 else bonus)
                             (map snd (objectives s)) 0;
          finalScore = score s + objectiveBonus;
          rating = (if finalScore \<ge> 800 then ''Excellent''
                    else if finalScore \<ge> 600 then ''Good''
                    else if finalScore \<ge> 400 then ''Fair''
                    else ''Needs Improvement'')
      in \<lparr>ls_finalScore = finalScore, ls_accuracy = accuracy s, ls_timeElapsed = timeElapsed,
          ls_rating = rating\<rparr>)"

text \<open>\<open>completeSimulation\<close> and \<open>showCompletionScreen\<close>: the screen offers a restart and
  the main menu.\<close>

definition ls_completeSimulation :: "env \<Rightarrow> LandslideSimulation \<Rightarrow> LandslideSimulation" where
  "ls_completeSimulation e s =
     call (ShowInstructions (''Landslide Simulation Complete - '' @ ls_rating (ls_results e s))
             [(''Restart Simulation'', Restart), (''Main Menu'', ReturnToMenu)]) s"

definition startWarningSignsPhase :: "LandslideSimulation \<Rightarrow> LandslideSimulation" where
  "startWarningSignsPhase s =
     call (ShowInstructions ''Phase 1: Identify Warning Signs''
             [(''Start Investigation'', HideInstructions)]) s"

definition startEarlyWarningPhase :: "LandslideSimulation \<Rightarrow> LandslideSimulation" where
  "startEarlyWarningPhase s =
     call (ShowInstructions ''Phase 2: Early Warning System''
             [(''Activate Warning'', ShowWarningInterface)]) s"

definition ls_startEvacuationPhase :: "LandslideSimulation \<Rightarrow> LandslideSimulation" where
  "ls_startEvacuationPhase s =
     (let s1 = call (ShowInstructions ''Phase 3: Evacuation'' [(''Begin Evacuation'', HideInstructions)])
                 (call HideDragDropPanel s)
      in s1\<lparr>evacuationRoutes := evacuationRoutes s1 + length (safeZones s1)\<rparr>)"

definition startLandslideEvent :: "LandslideSimulation \<Rightarrow> LandslideSimulation" where
  "startLandslideEvent s =
     call (ShowInstructions ''LANDSLIDE IN PROGRESS!'' [(''Take Cover!'', SimulateLandslide)]) s"

definition ls_startPhase :: "env \<Rightarrow> nat \<Rightarrow> LandslideSimulation \<Rightarrow> LandslideSimulation" where
  "ls_startPhase e phaseIndex s =
     (if phaseIndex \<ge> length ls_phases then ls_completeSimulation e s
      else
        let s1 = s\<lparr>currentPhase := phaseIndex\<rparr>;
            ph = ls_phases ! phaseIndex;
            s2 = call (UpdateProgress (of_nat phaseIndex / of_nat (length ls_phases) * 100)) s1;
            s3 = (if phase_name ph = ''warning_signs'' then startWarningSignsPhase s2
                  else if phase_name ph = ''early_warning'' then startEarlyWarningPhase s2
                  else if phase_name ph = ''evacuation'' then ls_startEvacuationPhase s2
                  else if phase_name ph = ''landslide_event'' then startLandslideEvent s2
                  else s2)
        in setTimeout e (PhaseTimer phaseIndex) (duration ph) s3)"

definition ls_phaseTimer :: "env \<Rightarrow> nat \<Rightarrow> LandslideSimulation \<Rightarrow> LandslideSimulation" where
  "ls_phaseTimer e phaseIndex s =
     (if currentPhase s = phaseIndex then ls_startPhase e (phaseIndex + 1) s else s)"

definition ls_showWelcomeInstructions :: "LandslideSimulation \<Rightarrow> LandslideSimulation" where
  "ls_showWelcomeInstructions s =
     call (ShowInstructions ''Welcome to Landslide Safety Training''
             [(''Start Training'', HideInstructions)]) s"

definition ls_start :: "env \<Rightarrow> LandslideSimulation \<Rightarrow> LandslideSimulation" where
  "ls_start e s =
     ls_showWelcomeInstructions (ls_startPhase e 0 (createHillsideScene (s\<lparr>startTime := now e\<rparr>)))"

definition showWarningInterface :: "LandslideSimulation \<Rightarrow> LandslideSimulation" where
  "showWarningInterface s =
     call (ShowDragDropPanel
             [\<lparr>item_id = ''siren'', item_label = ''Emergency Siren'', item_type = ''warning''\<rparr>,
              \<lparr>item_id = ''radio'', item_label = ''Radio Alert'', item_type = ''warning''\<rparr>,
              \<lparr>item_id = ''phone'', item_label = ''Mobile Alert'', item_type = ''warning''\<rparr>]
             [\<lparr>zone_id = ''community'', zone_label = ''Alert Community'', accepts = [''warning'']\<rparr>,
              \<lparr>zone_id = ''authorities'', zone_label = ''Notify Authorities'',
               accepts = [''warning'']\<rparr>]) s"

definition onWarningSignClick :: "env \<Rightarrow> nat \<Rightarrow> LandslideSimulation \<Rightarrow> LandslideSimulation outcome" where
  "onWarningSignClick e i s =
     (if i < length (warningSigns s) then
        (if \<not> identified (warningSigns s ! i) then
           and_then
             (showFeedback e ''Warning Sign Identified!''
                (s\<lparr>warningSigns := (warningSigns s)[i := (warningSigns s ! i)\<lparr>identified := True\<rparr>],
                   warningSignsFound := warningSignsFound s + 1,
                   score := score s + 10\<rparr>))
             (\<lambda>s1. if warningSignsFound s1 \<ge> 5
                   then let s2 = set_objective ''identifyWarningSigns'' s1
                        in showFeedback e ''Excellent! You've identified critical warning signs.''
                             (s2\<lparr>score := score s2 + 50\<rparr>)
                   else Done s1)
         else showFeedback e ''Already Identified'' s)
      else Done s)"

definition activateWarningSystem :: "env \<Rightarrow> LandslideSimulation \<Rightarrow> LandslideSimulation outcome" where
  "activateWarningSystem e s =
     (if \<not> warningSystemActivated s then
        let s1 = set_objective ''activateWarningSystem'' (s\<lparr>warningSystemActivated := True\<rparr>)
        in showFeedback e ''Warning System Activated!'' (s1\<lparr>score := score s1 + 100\<rparr>)
      else Done s)"

definition ls_evacuateResident :: "env \<Rightarrow> nat \<Rightarrow> LandslideSimulation \<Rightarrow> LandslideSimulation outcome" where
  "ls_evacuateResident e i s =
     (if i < length (hill_residents s) \<and> \<not> hr_evacuated (hill_residents s ! i) then
        let s1 = s\<lparr>hill_residents := (hill_residents s)[i := (hill_residents s ! i)\<lparr>hr_evacuated := True\<rparr>],
                  evacuatedResidents := evacuatedResidents s + 1\<rparr>;
            s2 = (case nearest (\<lambda>z. True) (distances e) (length (safeZones s1)) of
                    None \<Rightarrow> s1
                  | Some z \<Rightarrow> s1\<lparr>safeZones := (safeZones s1)[z := safeZones s1 ! z + 1]\<rparr>);
            s3 = s2\<lparr>score := score s2 + 50\<rparr>
        in and_then (showFeedback e ''Resident Evacuated'' s3)
             (\<lambda>s4. if evacuatedResidents s4 \<ge> ls_totalResidents
                   then let s5 = set_objective ''evacuateResidents'' s4
                        in showFeedback e ''All Residents Safe!'' (s5\<lparr>score := score s5 + 200\<rparr>)
                   else Done s4)
      else Done s)"

text \<open>\<open>checkResidentSafety\<close>: the loop body for one resident, carrying the count of
  residents in danger; then the loop and the test of the count. For a resident who is not
  evacuated the body counts the resident and calls \<open>flashDanger\<close>, whose first statement
  reads \<open>object.material.color\<close>. A resident is the \<open>THREE.Group\<close> that the engine's
  \<open>createPerson\<close> returns, and a group has no \<open>material\<close>: the read throws a \<open>TypeError\<close>,
  which leaves \<open>forEach\<close>, \<open>checkResidentSafety\<close> and \<open>simulateLandslide\<close>. The statements
  after the call, \<open>this.mistakes++\<close> and
  \<open>this.accuracy = Math.max(0, 100 - (this.mistakes * 10))\<close>, are never reached.\<close>

definition residentSafety ::
    "hill_resident \<Rightarrow> nat \<times> LandslideSimulation \<Rightarrow> (nat \<times> LandslideSimulation) outcome" where
  "residentSafety resident acc =
     (let residentsInDanger = fst acc; s = snd acc
      in if \<not> hr_evacuated resident then Thrown (residentsInDanger + 1, s)
         else Done (residentsInDanger, s))"

definition checkResidentSafety :: "LandslideSimulation \<Rightarrow> LandslideSimulation outcome" where
  "checkResidentSafety s =
     (case fold (\<lambda>resident acc. and_then acc (residentSafety resident)) (hill_residents s)
             (Done (0, s)) of
        Thrown result \<Rightarrow> Thrown (snd result)
      | Done result \<Rightarrow>
          if fst result = 0
          then let s2 = set_objective ''avoidDangerZone'' (snd result)
               in Done (s2\<lparr>score := score s2 + 300\<rparr>)
          else Done (snd result))"

definition simulateLandslide :: "LandslideSimulation \<Rightarrow> LandslideSimulation outcome" where
  "simulateLandslide s = checkResidentSafety s"

definition onDragDropComplete ::
    "env \<Rightarrow> drag_item \<Rightarrow> drop_zone \<Rightarrow> LandslideSimulation \<Rightarrow> LandslideSimulation outcome" where
  "onDragDropComplete e item zone s =
     (if zone_id zone = ''community'' \<or> zone_id zone = ''authorities'' then
        (if item_type item = ''warning'' then
           and_then (showFeedback e ''Alert Sent!'' (s\<lparr>score := score s + 25\<rparr>))
             (\<lambda>s1. Done (setTimeout e AutoActivateWarning 1000 s1))
         else Done s)
      else Done s)"

text \<open>\<open>restart\<close>: the counters and objectives are reset, then \<open>engine.clearScene()\<close> is
  called; when the engine has it, the lists are emptied and the session starts again.\<close>

definition restart :: "env \<Rightarrow> LandslideSimulation \<Rightarrow> LandslideSimulation outcome" where
  "restart e s =
     (let s1 = clear_objectives
                 (s\<lparr>currentPhase := 0, score := 0, accuracy := 100, mistakes := 0,
                    evacuatedResidents := 0, warningSystemActivated := False,
                    warningSignsFound := 0\<rparr>)
      in if has_clearScene e
         then Done (ls_start e (s1\<lparr>warningSigns := [], ls_houses := 0, hill_residents := [],
                                    safeZones := [], evacuationRoutes := 0\<rparr>))
         else Thrown s1)"

datatype ls_event =
    LsStart
  | LsResetButton
  | LsFire nat
  | LsButton action
  | LsWarningSignClick nat
  | LsWarningSystemClick
  | LsResidentClick nat
  | LsDragDropComplete drag_item drop_zone

definition ls_run_callback :: "env \<Rightarrow> callback \<Rightarrow> LandslideSimulation \<Rightarrow> LandslideSimulation outcome" where
  "ls_run_callback e cb s =
     (case cb of
        PhaseTimer i \<Rightarrow> Done (ls_phaseTimer e i s)
      | AutoActivateWarning \<Rightarrow> activateWarningSystem e s
      | _ \<Rightarrow> Done s)"

definition ls_button :: "env \<Rightarrow> action \<Rightarrow> LandslideSimulation \<Rightarrow> LandslideSimulation outcome" where
  "ls_button e a s =
     (case a of
        HideInstructions \<Rightarrow> Done (call HideInstructionsCall s)
      | ShowWarningInterface \<Rightarrow> Done (showWarningInterface (call HideInstructionsCall s))
      | SimulateLandslide \<Rightarrow> simulateLandslide (call HideInstructionsCall s)
      | Restart \<Rightarrow> restart e s
      | ReturnToMenu \<Rightarrow> (if has_returnToMenu e then Done s else Thrown s)
      | _ \<Rightarrow> Done s)"

text \<open>The host's reset button calls \<open>simulationModule.reset()\<close>, which a landslide
  session does not define: the call throws and nothing changes.\<close>

definition ls_handle :: "env \<Rightarrow> ls_event \<Rightarrow> LandslideSimulation \<Rightarrow> LandslideSimulation outcome" where
  "ls_handle e ev s =
     (case ev of
        LsStart \<Rightarrow> Done (ls_start e s)
      | LsResetButton \<Rightarrow> Thrown s
      | LsFire k \<Rightarrow> (if k < length (timers s)
                      then ls_run_callback e (snd (timers s ! k)) (take_timer k s) else Done s)
      | LsButton a \<Rightarrow> ls_button e a s
      | LsWarningSignClick i \<Rightarrow> onWarningSignClick e i s
      | LsWarningSystemClick \<Rightarrow> activateWarningSystem e s
      | LsResidentClick i \<Rightarrow> ls_evacuateResident e i s
      | LsDragDropComplete item zone \<Rightarrow> onDragDropComplete e item zone s)"

definition ls_step :: "env \<Rightarrow> ls_event \<Rightarrow> LandslideSimulation \<Rightarrow> LandslideSimulation" where
  "ls_step e ev s = state_of (ls_handle e ev s)"

section \<open>Flood session\<close>

text \<open>Of a resident: the elevation \<open>position.y\<close> (which the engine's animations change),
  the status flags, whether the resident can swim, and the flood risk of the resident's
  house. Of a supply its points and the flag \<open>collected\<close>; of an evacuation centre and
  of a boat the counters.\<close>

record flood_resident =
  posY :: rat
  rescued :: bool
  inShelter :: bool
  needsRescue :: bool
  stranded :: bool
  canSwim :: bool
  houseRisk :: string

record supply_kit =
  supplyType :: string
  points :: int
  collected :: bool

record center =
  capacity :: nat
  occupants :: nat
  supplies :: nat

record boat =
  boat_capacity :: nat
  passengers :: nat
  available :: bool

record house =
  elevation :: rat
  floodRisk :: string
  atRisk :: bool

record FloodSimulation = session +
  waterLevel :: rat
  isFlooding :: bool
  fl_houses :: "house list"
  residents :: "flood_resident list"
  emergencySupplies :: "supply_kit list"
  evacuationCenters :: "center list"
  boats :: "boat list"
  rescuedResidents :: nat
  suppliesDistributed :: nat
  barriersBuilt :: nat

definition maxWaterLevel :: rat where
  "maxWaterLevel = 8"

definition floodSpeed :: rat where
  "floodSpeed = 2 / 100"

definition fl_totalResidents :: nat where
  "fl_totalResidents = 10"

definition fl_phases :: "phase list" where
  "fl_phases =
     [\<lparr>phase_name = ''preparation'', duration = 60000\<rparr>,
      \<lparr>phase_name = ''early_flood'', duration = 90000\<rparr>,
      \<lparr>phase_name = ''rescue_ops'', duration = 120000\<rparr>,
      \<lparr>phase_name = ''recovery'', duration = 90000\<rparr>]"

definition FloodSimulation_new :: FloodSimulation where
  "FloodSimulation_new =
     \<lparr>currentPhase = 0, score = 0, startTime = 0, accuracy = 100, mistakes = 0,
      objectives = [(''prepareSupplies'', False), (''buildBarriers'', False),
                    (''evacuateResidents'', False), (''rescueStranded'', False),
                    (''establishShelter'', False)],
      timers = [], ui = [],
      waterLevel = - 5, isFlooding = False, fl_houses = [], residents = [],
      emergencySupplies = [], evacuationCenters = [], boats = [],
      rescuedResidents = 0, suppliesDistributed = 0, barriersBuilt = 0\<rparr>"

text \<open>\<open>createCommunityScene\<close>. A low house of height 5 stands at \<open>2.5 + elevation\<close>, a
  high one of height 6 at \<open>3 + elevation\<close>, and a resident is put 2.5 below the house's
  position. \<open>swims\<close> are the outcomes of \<open>Math.random() > 0.3\<close>, one per resident.\<close>

definition createCommunityBuildings :: "FloodSimulation \<Rightarrow> FloodSimulation" where
  "createCommunityBuildings s =
     s\<lparr>fl_houses := fl_houses s
          @ map (\<lambda>el. \<lparr>elevation = el, floodRisk = ''high'', atRisk = False\<rparr>)
              [- 1, - 1 / 2, - 3 / 2, - 8 / 10, - 12 / 10, - 6 / 10]
          @ map (\<lambda>el. \<lparr>elevation = el, floodRisk = ''low'', atRisk = False\<rparr>)
              [6, 7, 13 / 2, 15 / 2]\<rparr>"

definition housePositionY :: "house \<Rightarrow> rat" where
  "housePositionY h = (if floodRisk h = ''high'' then 5 / 2 else 3) + elevation h"

definition createResidents :: "bool list \<Rightarrow> FloodSimulation \<Rightarrow> FloodSimulation" where
  "createResidents swims s =
     s\<lparr>residents := residents s
          @ map (\<lambda>index. \<lparr>posY = housePositionY (fl_houses s ! index) - 5 / 2, rescued = False,
                          inShelter = False, needsRescue = False, stranded = False,
                          canSwim = (index < length swims \<and> swims ! index),
                          houseRisk = floodRisk (fl_houses s ! index)\<rparr>)
              [0 ..< min (length (fl_houses s)) fl_totalResidents]\<rparr>"

definition createEmergencySupplies :: "FloodSimulation \<Rightarrow> FloodSimulation" where
  "createEmergencySupplies s =
     s\<lparr>emergencySupplies := emergencySupplies s
          @ map (\<lambda>i. [\<lparr>supplyType = ''water'', points = 30, collected = False\<rparr>,
                       \<lparr>supplyType = ''food'', points = 25, collected = False\<rparr>,
                       \<lparr>supplyType = ''medical'', points = 40, collected = False\<rparr>,
                       \<lparr>supplyType = ''blankets'', points = 20, collected = False\<rparr>] ! (i mod 4))
              [0 ..< 8]\<rparr>"

definition createEvacuationCenters :: "FloodSimulation \<Rightarrow> FloodSimulation" where
  "createEvacuationCenters s =
     s\<lparr>evacuationCenters := evacuationCenters s
          @ [\<lparr>capacity = 6, occupants = 0, supplies = 0\<rparr>,
             \<lparr>capacity = 8, occupants = 0, supplies = 0\<rparr>]\<rparr>"

definition createRescueBoats :: "FloodSimulation \<Rightarrow> FloodSimulation" where
  "createRescueBoats s =
     s\<lparr>boats := boats s @ replicate 3 \<lparr>boat_capacity = 4, passengers = 0, available = True\<rparr>\<rparr>"

definition createCommunityScene :: "bool list \<Rightarrow> FloodSimulation \<Rightarrow> FloodSimulation" where
  "createCommunityScene swims s =
     createRescueBoats (createEvacuationCenters (createEmergencySupplies
       (createResidents swims (createCommunityBuildings s))))"

record fl_score =
  fl_baseScore :: int
  fl_timeBonus :: int
  fl_accuracyBonus :: int
  fl_objectiveBonus :: int
  fl_rescueBonus :: int
  fl_supplyBonus :: int
  fl_total :: int
  fl_timeElapsed :: int
  fl_accuracy :: int
  fl_objectives :: "(string \<times> bool) list"
  fl_rescued :: nat
  fl_supplies :: nat

definition fl_calculateFinalScore :: "env \<Rightarrow> FloodSimulation \<Rightarrow> fl_score" where
  "fl_calculateFinalScore e s =
     (let timeElapsed = double_div (double_sub (now e) (startTime s)) 1000;
          baseScore = score s;
          maxTime = 450;
          timeBonus = max 0 \<lfloor>double_mul (double_div (double_sub maxTime timeElapsed) maxTime) 200\<rfloor>;
          accuracyBonus = \<lfloor>(of_int (accuracy s) :: rat) * 2\<rfloor>;
          objectiveCount = int (objectiveCount s);
          objectiveBonus = objectiveCount * 100;
          rescueBonus = int (rescuedResidents s) * 25;
          supplyBonus = int (suppliesDistributed s) * 15
      in \<lparr>fl_baseScore = baseScore, fl_timeBonus = timeBonus, fl_accuracyBonus = accuracyBonus,
          fl_objectiveBonus = objectiveBonus, fl_rescueBonus = rescueBonus,
          fl_supplyBonus = supplyBonus,
          fl_total = baseScore + timeBonus + accuracyBonus + objectiveBonus + rescueBonus
                       + supplyBonus,
          fl_timeElapsed = \<lfloor>timeElapsed\<rfloor>, fl_accuracy = accuracy s,
          fl_objectives = objectives s, fl_rescued = rescuedResidents s,
          fl_supplies = suppliesDistributed s\<rparr>)"

definition fl_completeSimulation :: "env \<Rightarrow> FloodSimulation \<Rightarrow> FloodSimulation" where
  "fl_completeSimulation e s =
     (let res = fl_calculateFinalScore e s
      in call (ShowInstructions ''Flood Response Training Complete!''
                 [(''View Results'',
                   ReportResults \<lparr>r_disaster = ''flood'', r_score = fl_total res,
                                  r_timeBonus = fl_timeBonus res, r_accuracy = fl_accuracy res\<rparr>)])
           (call (UpdateProgress 100) s))"

definition fl_showEducationalInfo :: "string \<Rightarrow> FloodSimulation \<Rightarrow> FloodSimulation" where
  "fl_showEducationalInfo title s = call (ShowInstructions title [(''Understood'', HideInstructions)]) s"

definition requestAnimationFrame :: "env \<Rightarrow> callback \<Rightarrow> FloodSimulation \<Rightarrow> FloodSimulation" where
  "requestAnimationFrame e cb s = setTimeout e cb 0 s"

definition showPreparationInterface :: "FloodSimulation \<Rightarrow> FloodSimulation" where
  "showPreparationInterface s =
     call (ShowDragDropPanel
             [\<lparr>item_id = ''water_supply'', item_label = ''Water Bottles'', item_type = ''supply''\<rparr>,
              \<lparr>item_id = ''food_kit'', item_label = ''Emergency Food'', item_type = ''supply''\<rparr>,
              \<lparr>item_id = ''first_aid'', item_label = ''First Aid Kit'', item_type = ''supply''\<rparr>,
              \<lparr>item_id = ''sandbags'', item_label = ''Sandbags'', item_type = ''barrier''\<rparr>,
              \<lparr>item_id = ''plastic_sheeting'', item_label = ''Plastic Sheeting'',
               item_type = ''barrier''\<rparr>]
             [\<lparr>zone_id = ''house_prep'', zone_label = ''Prepare Houses'', accepts = [''supply'']\<rparr>,
              \<lparr>zone_id = ''barrier_build'', zone_label = ''Build Barriers'',
               accepts = [''barrier'']\<rparr>]) s"

definition fl_startPreparationPhase :: "FloodSimulation \<Rightarrow> FloodSimulation" where
  "fl_startPreparationPhase s =
     showPreparationInterface
       (call (ShowInstructions ''Phase 1: Flood Preparation'' [(''Begin Preparation'', HideInstructions)]) s)"

definition showEarlyFloodInstructions :: "FloodSimulation \<Rightarrow> FloodSimulation" where
  "showEarlyFloodInstructions s =
     call (ShowInstructions ''Phase 2: Early Flooding'' [(''Start Evacuation'', StartFloodPhase)]) s"

definition showRescueInstructions :: "FloodSimulation \<Rightarrow> FloodSimulation" where
  "showRescueInstructions s =
     call (ShowInstructions ''Phase 3: Rescue Operations'' [(''Deploy Rescue Teams'', StartRescuePhase)]) s"

text \<open>\<open>distributeSuppliesToShelters\<close>: a staggered timer for every supply not yet
  collected.\<close>

definition distributeSuppliesToShelters :: "env \<Rightarrow> FloodSimulation \<Rightarrow> FloodSimulation" where
  "distributeSuppliesToShelters e s =
     fold (\<lambda>index st. if \<not> collected (emergencySupplies s ! index)
                       then setTimeout e (SupplyDispatch index) (of_nat index * 1000) st else st)
       [0 ..< length (emergencySupplies s)] s"

definition setupShelterOperations :: "env \<Rightarrow> FloodSimulation \<Rightarrow> FloodSimulation" where
  "setupShelterOperations e s =
     (let s1 = set_objective ''establishShelter'' (distributeSuppliesToShelters e s)
      in s1\<lparr>score := score s1 + 100\<rparr>)"

text \<open>One run of \<open>recedeWater\<close>, the loop body of \<open>startWaterReceding\<close>.\<close>

definition recedeWater :: "env \<Rightarrow> FloodSimulation \<Rightarrow> FloodSimulation" where
  "recedeWater e s =
     (if waterLevel s > - 5
      then requestAnimationFrame e RecedeWater (s\<lparr>waterLevel := waterLevel s - 1 / 100\<rparr>)
      else s\<lparr>isFlooding := False\<rparr>)"

definition startRecoveryPhase :: "env \<Rightarrow> FloodSimulation \<Rightarrow> FloodSimulation" where
  "startRecoveryPhase e s =
     recedeWater e (setupShelterOperations e
       (call (ShowInstructions ''Phase 4: Recovery and Shelter'' [(''Begin Recovery'', HideInstructions)]) s))"

definition fl_startPhase :: "env \<Rightarrow> nat \<Rightarrow> FloodSimulation \<Rightarrow> FloodSimulation" where
  "fl_startPhase e phaseIndex s =
     (if phaseIndex \<ge> length fl_phases then fl_completeSimulation e s
      else
        let s1 = s\<lparr>currentPhase := phaseIndex\<rparr>;
            ph = fl_phases ! phaseIndex;
            s2 = call (UpdateProgress (of_nat phaseIndex / of_nat (length fl_phases) * 100)) s1;
            s3 = (if phase_name ph = ''preparation'' then fl_startPreparationPhase s2
                  else if phase_name ph = ''early_flood'' then showEarlyFloodInstructions s2
                  else if phase_name ph = ''rescue_ops'' then showRescueInstructions s2
                  else if phase_name ph = ''recovery'' then startRecoveryPhase e s2
                  else s2)
        in setTimeout e (PhaseTimer phaseIndex) (duration ph) s3)"

definition fl_phaseTimer :: "env \<Rightarrow> nat \<Rightarrow> FloodSimulation \<Rightarrow> FloodSimulation" where
  "fl_phaseTimer e phaseIndex s =
     (if currentPhase s = phaseIndex then fl_startPhase e (phaseIndex + 1) s else s)"

definition fl_showWelcomeInstructions :: "FloodSimulation \<Rightarrow> FloodSimulation" where
  "fl_showWelcomeInstructions s =
     call (ShowInstructions ''Welcome to Flood Response Training''
             [(''Start Training'', HideInstructions)]) s"

definition fl_start :: "env \<Rightarrow> bool list \<Rightarrow> FloodSimulation \<Rightarrow> FloodSimulation" where
  "fl_start e swims s =
     fl_showWelcomeInstructions
       (fl_startPhase e 0 (createCommunityScene swims (s\<lparr>startTime := now e\<rparr>)))"

text \<open>\<open>checkResidentsInDanger\<close> for one resident, and over the list. For a resident
  who is below the water line and not rescued the first statement is
  \<open>resident.material.children[0].material.emissive.setHex(0xFF0000)\<close>. A resident is the
  \<open>THREE.Group\<close> that the engine's \<open>createPerson\<close> returns, and a group has no \<open>material\<close>:
  the statement throws a \<open>TypeError\<close>, which leaves \<open>forEach\<close>, \<open>checkResidentsInDanger\<close>
  and \<open>raiseWater\<close>. The statements after it, which set \<open>needsRescue\<close> and for a resident
  who cannot swim take 20 from the score and 5 from the accuracy, are never reached.\<close>

definition residentInDanger :: "nat \<Rightarrow> FloodSimulation \<Rightarrow> FloodSimulation outcome" where
  "residentInDanger i s =
     (let resident = residents s ! i
      in if posY resident < waterLevel s + 1 \<and> \<not> rescued resident then Thrown s else Done s)"

definition checkResidentsInDanger :: "FloodSimulation \<Rightarrow> FloodSimulation outcome" where
  "checkResidentsInDanger s =
     fold (\<lambda>i acc. and_then acc (residentInDanger i)) [0 ..< length (residents s)] (Done s)"

text \<open>One run of \<open>raiseWater\<close>, the loop body of \<open>startFloodAnimation\<close>: the next frame
  is requested after the check, so not when the check has thrown.\<close>

definition raiseWater :: "env \<Rightarrow> FloodSimulation \<Rightarrow> FloodSimulation outcome" where
  "raiseWater e s =
     (if isFlooding s \<and> waterLevel s < maxWaterLevel
      then and_then (checkResidentsInDanger (s\<lparr>waterLevel := waterLevel s + floodSpeed\<rparr>))
             (\<lambda>s1. Done (requestAnimationFrame e RaiseWater s1))
      else Done s)"

definition identifyFloodRisks :: "FloodSimulation \<Rightarrow> FloodSimulation" where
  "identifyFloodRisks s =
     s\<lparr>fl_houses := map (\<lambda>h. if elevation h < 2 then h\<lparr>atRisk := True\<rparr> else h) (fl_houses s)\<rparr>"

definition fl_initiateEvacuation :: "env \<Rightarrow> FloodSimulation \<Rightarrow> FloodSimulation" where
  "fl_initiateEvacuation e s =
     fold (\<lambda>index st. if houseRisk (residents s ! index) = ''high''
                       then setTimeout e (StaggeredEvacuation index) (of_nat index * 2000) st else st)
       [0 ..< length (residents s)] s"

text \<open>\<open>startFloodPhase\<close> runs \<open>raiseWater\<close> once itself, before it marks the houses
  and sets the evacuation timers.\<close>

definition startFloodPhase :: "env \<Rightarrow> FloodSimulation \<Rightarrow> FloodSimulation outcome" where
  "startFloodPhase e s =
     and_then (raiseWater e ((call HideDragDropPanel s)\<lparr>isFlooding := True\<rparr>))
       (\<lambda>s1. Done (fl_initiateEvacuation e (identifyFloodRisks s1)))"

definition findNearestEvacuationCenter :: "env \<Rightarrow> FloodSimulation \<Rightarrow> nat option" where
  "findNearestEvacuationCenter e s =
     nearest (\<lambda>c. occupants (evacuationCenters s ! c) < capacity (evacuationCenters s ! c))
       (distances e) (length (evacuationCenters s))"

definition fl_evacuateResident :: "env \<Rightarrow> nat \<Rightarrow> FloodSimulation \<Rightarrow> FloodSimulation" where
  "fl_evacuateResident e i s =
     (case findNearestEvacuationCenter e s of
        None \<Rightarrow> s
      | Some c \<Rightarrow>
          if occupants (evacuationCenters s ! c) < capacity (evacuationCenters s ! c)
          then setTimeout e (ResidentSheltered i c) 3000 s else s)"

text \<open>The timer of \<open>evacuateResident\<close>, with the resident and the centre it holds.\<close>

definition residentSheltered :: "nat \<Rightarrow> nat \<Rightarrow> FloodSimulation \<Rightarrow> FloodSimulation" where
  "residentSheltered i c s =
     (let s1 = s\<lparr>residents := (if i < length (residents s)
                                 then (residents s)[i := (residents s ! i)\<lparr>rescued := True, inShelter := True\<rparr>]
                                 else residents s),
                 evacuationCenters := (if c < length (evacuationCenters s)
                                       then (evacuationCenters s)[c := (evacuationCenters s ! c)
                                               \<lparr>occupants := occupants (evacuationCenters s ! c) + 1\<rparr>]
                                       else evacuationCenters s),
                 rescuedResidents := rescuedResidents s + 1,
                 score := score s + 50\<rparr>
      in if (of_nat (rescuedResidents s1) :: rat) \<ge> of_nat fl_totalResidents * (7 / 10)
         then call (AchievementMessage ''Most residents evacuated to safety!'')
                (set_objective ''evacuateResidents'' s1)
         else s1)"

definition showBoatInterface :: "FloodSimulation \<Rightarrow> FloodSimulation" where
  "showBoatInterface s =
     (let rescueItems =
            map (\<lambda>index. \<lparr>item_id = ''resident_'' @ show_nat index,
                            item_label = ''Rescue Person '' @ show_nat (index + 1),
                            item_type = ''rescue''\<rparr>)
              (filter (\<lambda>index. needsRescue (residents s ! index) \<and> \<not> rescued (residents s ! index))
                 [0 ..< length (residents s)]);
          boatZones =
            map (\<lambda>index. \<lparr>zone_id = ''boat_'' @ show_nat index,
                            zone_label = ''Rescue Boat '' @ show_nat (index + 1),
                            accepts = [''rescue'']\<rparr>) [0 ..< length (boats s)]
      in if rescueItems \<noteq> [] then call (ShowDragDropPanel rescueItems boatZones) s else s)"

definition enableBoatRescue :: "FloodSimulation \<Rightarrow> FloodSimulation" where
  "enableBoatRescue s = showBoatInterface (s\<lparr>boats := map (\<lambda>b. b\<lparr>available := True\<rparr>) (boats s)\<rparr>)"

definition identifyStrandedResidents :: "FloodSimulation \<Rightarrow> FloodSimulation" where
  "identifyStrandedResidents s =
     s\<lparr>residents := map (\<lambda>r. if \<not> rescued r \<and> posY r < waterLevel s + 2
                              then r\<lparr>stranded := True, needsRescue := True\<rparr> else r) (residents s)\<rparr>"

definition startRescuePhase :: "FloodSimulation \<Rightarrow> FloodSimulation" where
  "startRescuePhase s = identifyStrandedResidents (enableBoatRescue (call HideInstructionsCall s))"

definition performRescue :: "env \<Rightarrow> nat \<Rightarrow> nat \<Rightarrow> FloodSimulation \<Rightarrow> FloodSimulation" where
  "performRescue e r b s = setTimeout e (BoatLoaded r b) 2000 s"

definition onBoatRescue :: "env \<Rightarrow> string \<Rightarrow> string \<Rightarrow> FloodSimulation \<Rightarrow> FloodSimulation" where
  "onBoatRescue e residentId boatId s =
     (case (element_at (residents s) (index_of_id residentId),
            element_at (boats s) (index_of_id boatId)) of
        (Some r, Some b) \<Rightarrow>
          if passengers (boats s ! b) < boat_capacity (boats s ! b) then performRescue e r b s else s
      | _ \<Rightarrow> s)"

text \<open>The two nested timers of \<open>performRescue\<close>.\<close>

definition boatLoaded :: "env \<Rightarrow> nat \<Rightarrow> nat \<Rightarrow> FloodSimulation \<Rightarrow> FloodSimulation" where
  "boatLoaded e r b s =
     (case findNearestEvacuationCenter e s of
        None \<Rightarrow> s
      | Some c \<Rightarrow> setTimeout e (BoatArrived r b) 4000 s)"

definition boatArrived :: "nat \<Rightarrow> nat \<Rightarrow> FloodSimulation \<Rightarrow> FloodSimulation" where
  "boatArrived r b s =
     (let s1 = s\<lparr>residents := (if r < length (residents s)
                                 then (residents s)[r := (residents s ! r)\<lparr>rescued := True, inShelter := True\<rparr>]
                                 else residents s),
                 rescuedResidents := rescuedResidents s + 1,
                 score := score s + 75\<rparr>
      in if rescuedResidents s1 \<ge> fl_totalResidents
         then call (AchievementMessage ''All residents rescued from flood waters!'')
                (set_objective ''rescueStranded'' s1)
         else s1)"

text \<open>The two nested timers of \<open>distributeSuppliesToShelters\<close>. With no evacuation
  centre left in the list the first one throws before it changes anything.\<close>

definition supplyDispatch :: "env \<Rightarrow> nat \<Rightarrow> FloodSimulation \<Rightarrow> FloodSimulation" where
  "supplyDispatch e index s =
     (if evacuationCenters s = [] then s
      else setTimeout e (SupplyDelivered index (index mod length (evacuationCenters s))) 2000 s)"

definition supplyDelivered :: "nat \<Rightarrow> nat \<Rightarrow> FloodSimulation \<Rightarrow> FloodSimulation" where
  "supplyDelivered index c s =
     (let s1 = s\<lparr>emergencySupplies :=
                   (if index < length (emergencySupplies s)
                    then (emergencySupplies s)[index := (emergencySupplies s ! index)\<lparr>collected := True\<rparr>]
                    else emergencySupplies s),
                 evacuationCenters :=
                   (if c < length (evacuationCenters s)
                    then (evacuationCenters s)[c := (evacuationCenters s ! c)
                            \<lparr>supplies := supplies (evacuationCenters s ! c) + 1\<rparr>]
                    else evacuationCenters s),
                 suppliesDistributed := suppliesDistributed s + 1\<rparr>;
          s2 = s1\<lparr>score := score s1 + (if index < length (emergencySupplies s)
                                          then points (emergencySupplies s ! index) else 0)\<rparr>
      in if (of_nat (suppliesDistributed s2) :: rat) \<ge> of_nat (length (emergencySupplies s2)) * (3 / 4)
         then call (AchievementMessage ''Emergency supplies distributed to shelters!'')
                (set_objective ''prepareSupplies'' s2)
         else s2)"

definition onResidentClick :: "env \<Rightarrow> nat \<Rightarrow> FloodSimulation \<Rightarrow> FloodSimulation" where
  "onResidentClick e i s =
     (if i < length (residents s) then
        (if needsRescue (residents s ! i) \<and> \<not> rescued (residents s ! i)
         then call (HintMessage ''This person needs immediate rescue! Use a boat to reach them safely.'') s
         else if inShelter (residents s ! i) then fl_showEducationalInfo ''Shelter Resident'' s
         else fl_evacuateResident e i s)
      else s)"

definition onSupplyClick :: "env \<Rightarrow> nat \<Rightarrow> FloodSimulation \<Rightarrow> FloodSimulation" where
  "onSupplyClick e i s =
     (if i < length (emergencySupplies s) \<and> \<not> collected (emergencySupplies s ! i) then
        let s1 = s\<lparr>emergencySupplies := (emergencySupplies s)[i := (emergencySupplies s ! i)\<lparr>collected := True\<rparr>],
                  suppliesDistributed := suppliesDistributed s + 1,
                  score := score s + points (emergencySupplies s ! i)\<rparr>;
            s2 = fl_showEducationalInfo ''Emergency Supply'' s1
        in case findNearestEvacuationCenter e s2 of
             None \<Rightarrow> s2
           | Some c \<Rightarrow> s2\<lparr>evacuationCenters := (evacuationCenters s2)[c := (evacuationCenters s2 ! c)
                              \<lparr>supplies := supplies (evacuationCenters s2 ! c) + 1\<rparr>]\<rparr>
      else s)"

definition onBoatClick :: "nat \<Rightarrow> FloodSimulation \<Rightarrow> FloodSimulation" where
  "onBoatClick b s =
     (if b < length (boats s) \<and> available (boats s ! b) then fl_showEducationalInfo ''Rescue Boat'' s
      else s)"

definition fl_reset :: "env \<Rightarrow> FloodSimulation \<Rightarrow> FloodSimulation" where
  "fl_reset e s =
     (let s1 = s\<lparr>currentPhase := 0, score := 0, accuracy := 100, mistakes := 0,
                 rescuedResidents := 0, suppliesDistributed := 0, barriersBuilt := 0,
                 isFlooding := False, waterLevel := - 5\<rparr>;
          s2 = clear_objectives s1;
          s3 = s2\<lparr>residents := map (\<lambda>r. r\<lparr>rescued := False, inShelter := False,
                                            needsRescue := False, stranded := False\<rparr>) (residents s2),
                  emergencySupplies := map (\<lambda>x. x\<lparr>collected := False\<rparr>) (emergencySupplies s2),
                  evacuationCenters := map (\<lambda>c. c\<lparr>occupants := 0, supplies := 0\<rparr>) (evacuationCenters s2),
                  boats := map (\<lambda>b. b\<lparr>passengers := 0, available := True\<rparr>) (boats s2)\<rparr>;
          s4 = s3\<lparr>startTime := now e\<rparr>
      in fl_startPhase e 0 s4)"

text \<open>What can happen to a running flood session. \<open>FlResidentMoved\<close> is a frame of an
  engine animation putting a resident at a new elevation. An error thrown in a callback
  or a button's handler ends it; the session stays as it was when the error was thrown.\<close>

datatype fl_event =
    FlStart "bool list"
  | FlReset
  | FlFire nat
  | FlButton action
  | FlResidentClick nat
  | FlSupplyClick nat
  | FlCenterClick nat
  | FlBoatClick nat
  | FlBuildingClick
  | FlBoatRescue string string
  | FlResidentMoved nat rat

definition fl_run_callback :: "env \<Rightarrow> callback \<Rightarrow> FloodSimulation \<Rightarrow> FloodSimulation" where
  "fl_run_callback e cb s =
     (case cb of
        PhaseTimer i \<Rightarrow> fl_phaseTimer e i s
      | StaggeredEvacuation i \<Rightarrow> fl_evacuateResident e i s
      | ResidentSheltered i c \<Rightarrow> residentSheltered i c s
      | BoatLoaded r b \<Rightarrow> boatLoaded e r b s
      | BoatArrived r b \<Rightarrow> boatArrived r b s
      | SupplyDispatch i \<Rightarrow> supplyDispatch e i s
      | SupplyDelivered i c \<Rightarrow> supplyDelivered i c s
      | RaiseWater \<Rightarrow> state_of (raiseWater e s)
      | RecedeWater \<Rightarrow> recedeWater e s
      | _ \<Rightarrow> s)"

definition fl_button :: "env \<Rightarrow> action \<Rightarrow> FloodSimulation \<Rightarrow> FloodSimulation" where
  "fl_button e a s =
     (case a of
        HideInstructions \<Rightarrow> call HideInstructionsCall s
      | StartFloodPhase \<Rightarrow> state_of (startFloodPhase e s)
      | StartRescuePhase \<Rightarrow> startRescuePhase s
      | ReportResults res \<Rightarrow> call HideInstructionsCall s
      | _ \<Rightarrow> s)"

definition fl_step :: "env \<Rightarrow> fl_event \<Rightarrow> FloodSimulation \<Rightarrow> FloodSimulation" where
  "fl_step e ev s =
     (case ev of
        FlStart swims \<Rightarrow> fl_start e swims s
      | FlReset \<Rightarrow> fl_reset e s
      | FlFire k \<Rightarrow> (if k < length (timers s)
                      then fl_run_callback e (snd (timers s ! k)) (take_timer k s) else s)
      | FlButton a \<Rightarrow> fl_button e a s
      | FlResidentClick i \<Rightarrow> onResidentClick e i s
      | FlSupplyClick i \<Rightarrow> onSupplyClick e i s
      | FlCenterClick c \<Rightarrow> fl_showEducationalInfo ''Evacuation Center'' s
      | FlBoatClick b \<Rightarrow> onBoatClick b s
      | FlBuildingClick \<Rightarrow> fl_showEducationalInfo ''Building'' s
      | FlBoatRescue residentId boatId \<Rightarrow> onBoatRescue e residentId boatId s
      | FlResidentMoved i y \<Rightarrow>
          (if i < length (residents s)
           then s\<lparr>residents := (residents s)[i := (residents s ! i)\<lparr>posY := y\<rparr>]\<rparr> else s))"

section \<open>The session held by the controller\<close>

text \<open>\<open>simulationModule\<close> of the controller is one of the three sessions; a method call
  on it goes to the class of the session it holds.\<close>

datatype module =
    Earthquake EarthquakeSimulation
  | Landslide LandslideSimulation
  | Flood FloodSimulation

fun phasesOf :: "module \<Rightarrow> phase list" where
  "phasesOf (Earthquake s) = eq_phases"
| "phasesOf (Landslide s) = ls_phases"
| "phasesOf (Flood s) = fl_phases"

fun currentPhaseOf :: "module \<Rightarrow> nat" where
  "currentPhaseOf (Earthquake s) = currentPhase s"
| "currentPhaseOf (Landslide s) = currentPhase s"
| "currentPhaseOf (Flood s) = currentPhase s"

fun phaseTimersOf :: "module \<Rightarrow> (rat \<times> nat) list" where
  "phaseTimersOf (Earthquake s) = phaseTimers s"
| "phaseTimersOf (Landslide s) = phaseTimers s"
| "phaseTimersOf (Flood s) = phaseTimers s"


fun uiOf :: "module \<Rightarrow> ui_call list" where
  "uiOf (Earthquake s) = ui s"
| "uiOf (Landslide s) = ui s"
| "uiOf (Flood s) = ui s"

fun startPhase :: "env \<Rightarrow> nat \<Rightarrow> module \<Rightarrow> module" where
  "startPhase e n (Earthquake s) = Earthquake (eq_startPhase e n s)"
| "startPhase e n (Landslide s) = Landslide (ls_startPhase e n s)"
| "startPhase e n (Flood s) = Flood (fl_startPhase e n s)"

fun phaseTimer :: "env \<Rightarrow> nat \<Rightarrow> module \<Rightarrow> module" where
  "phaseTimer e n (Earthquake s) = Earthquake (eq_phaseTimer e n s)"
| "phaseTimer e n (Landslide s) = Landslide (ls_phaseTimer e n s)"
| "phaseTimer e n (Flood s) = Flood (fl_phaseTimer e n s)"

fun completeSimulationOf :: "env \<Rightarrow> module \<Rightarrow> module" where
  "completeSimulationOf e (Earthquake s) = Earthquake (eq_completeSimulation e s)"
| "completeSimulationOf e (Landslide s) = Landslide (ls_completeSimulation e s)"
| "completeSimulationOf e (Flood s) = Flood (fl_completeSimulation e s)"

datatype event =
    EqEvent eq_event
  | LsEvent ls_event
  | FlEvent fl_event

text \<open>An event meant for another kind of session does not reach this one.\<close>

fun step :: "env \<Rightarrow> event \<Rightarrow> module \<Rightarrow> module" where
  "step e (EqEvent ev) (Earthquake s) = Earthquake (eq_step e ev s)"
| "step e (LsEvent ev) (Landslide s) = Landslide (ls_step e ev s)"
| "step e (FlEvent ev) (Flood s) = Flood (fl_step e ev s)"
| "step e ev m = m"

text \<open>The pending callbacks of a session, the event of the \<open>k\<close>-th of them firing, and
  the session with that callback taken off the list.\<close>

fun timersOf :: "module \<Rightarrow> (rat \<times> callback) list" where
  "timersOf (Earthquake s) = timers s"
| "timersOf (Landslide s) = timers s"
| "timersOf (Flood s) = timers s"

fun fired :: "nat \<Rightarrow> module \<Rightarrow> event" where
  "fired k (Earthquake s) = EqEvent (EqFire k)"
| "fired k (Landslide s) = LsEvent (LsFire k)"
| "fired k (Flood s) = FlEvent (FlFire k)"

fun without_timer :: "nat \<Rightarrow> module \<Rightarrow> module" where
  "without_timer k (Earthquake s) = Earthquake (take_timer k s)"
| "without_timer k (Landslide s) = Landslide (take_timer k s)"
| "without_timer k (Flood s) = Flood (take_timer k s)"

text \<open>The explicit resets: \<open>reset\<close> of the earthquake and the flood session, \<open>restart\<close>
  of the landslide session.\<close>

fun is_reset :: "event \<Rightarrow> bool" where
  "is_reset (EqEvent EqReset) = True"
| "is_reset (FlEvent FlReset) = True"
| "is_reset (LsEvent (LsButton Restart)) = True"
| "is_reset ev = False"

fun is_start :: "event \<Rightarrow> bool" where
  "is_start (EqEvent EqStart) = True"
| "is_start (FlEvent (FlStart swims)) = True"
| "is_start (LsEvent LsStart) = True"
| "is_start ev = False"

text \<open>A session as constructed, and the sessions reached from it by \<open>start\<close> followed
  by events other than a reset or another start.\<close>

fun constructed :: "module \<Rightarrow> bool" where
  "constructed (Earthquake s) = (s = EarthquakeSimulation_new)"
| "constructed (Landslide s) = (s = LandslideSimulation_new)"
| "constructed (Flood s) = (s = FloodSimulation_new)"

inductive running :: "module \<Rightarrow> bool" where
  started: "constructed m \<Longrightarrow> is_start ev \<Longrightarrow> running (step e ev m)"
| stepped: "running m \<Longrightarrow> \<not> is_reset ev \<Longrightarrow> \<not> is_start ev \<Longrightarrow> running (step e ev m)"

fun one_advance_pending :: "module \<Rightarrow> bool" where
  "one_advance_pending (Earthquake s) = one_timer_pending s"
| "one_advance_pending (Landslide s) = one_timer_pending s"
| "one_advance_pending (Flood s) = one_timer_pending s"

text \<open>A run: events with the environment each one meets.\<close>

fun run :: "(env \<times> event) list \<Rightarrow> module \<Rightarrow> module" where
  "run [] m = m"
| "run ((e, ev) # rest) m = run rest (step e ev m)"

text \<open>Flags that stay: a flag that is true in \<open>xs\<close> is there and true at the same
  position of \<open>ys\<close>; an objective that is true in \<open>os\<close> is true in \<open>os'\<close>.\<close>

definition flags_stay :: "bool list \<Rightarrow> bool list \<Rightarrow> bool" where
  "flags_stay xs ys = list_all (\<lambda>i. xs ! i \<longrightarrow> (i < length ys \<and> ys ! i)) [0 ..< length xs]"

definition objectives_stay :: "(string \<times> bool) list \<Rightarrow> (string \<times> bool) list \<Rightarrow> bool" where
  "objectives_stay os os' =
     list_all (\<lambda>k. map_of os k = Some True \<longrightarrow> map_of os' k = Some True) (map fst os)"

fun status_stays :: "module \<Rightarrow> module \<Rightarrow> bool" where
  "status_stays (Earthquake s) (Earthquake s') =
     (objectives_stay (objectives s) (objectives s')
      \<and> flags_stay (map safe (students s)) (map safe (students s'))
      \<and> flags_stay (map evacuated (students s)) (map evacuated (students s')))"
| "status_stays (Landslide s) (Landslide s') =
     (objectives_stay (objectives s) (objectives s')
      \<and> flags_stay (map hr_evacuated (hill_residents s)) (map hr_evacuated (hill_residents s'))
      \<and> flags_stay (map identified (warningSigns s)) (map identified (warningSigns s')))"
| "status_stays (Flood s) (Flood s') =
     (objectives_stay (objectives s) (objectives s')
      \<and> flags_stay (map rescued (residents s)) (map rescued (residents s'))
      \<and> flags_stay (map inShelter (residents s)) (map inShelter (residents s'))
      \<and> flags_stay (map needsRescue (residents s)) (map needsRescue (residents s'))
      \<and> flags_stay (map stranded (residents s)) (map stranded (residents s'))
      \<and> flags_stay (map collected (emergencySupplies s)) (map collected (emergencySupplies s')))"
| "status_stays m m' = False"

section \<open>The drag-and-drop panel of the controller\<close>

text \<open>The elements of the page that carry a \<open>data-id\<close>, in document order: the items
  of the panel (with their \<open>data-type\<close>) and then its drop zones (which have none).\<close>

record dom_element =
  data_id :: string
  data_type :: "string option"

record game =
  playerData :: playerData
  simulationModule :: "module option"
  elements :: "dom_element list"








text \<open>The buttons of the instruction panel that the session last showed.\<close>

definition offered :: "ui_call list \<Rightarrow> (string \<times> action) list" where
  "offered calls =
     (case filter (\<lambda>c. case c of ShowInstructions title actions \<Rightarrow> True | _ \<Rightarrow> False) (rev calls) of
        ShowInstructions title actions # _ \<Rightarrow> actions
      | _ \<Rightarrow> [])"

text \<open>A click on a button of the instruction panel: the callback runs in the session,
  and \<open>View Results\<close> also reports the results to the controller.\<close>

definition click :: "env \<Rightarrow> string \<Rightarrow> action \<Rightarrow> game \<Rightarrow> game" where
  "click e completedAt a g =
     (let g1 = g\<lparr>simulationModule :=
                  map_option (\<lambda>m. case m of
                                   Earthquake s \<Rightarrow> Earthquake (eq_button e a s)
                                 | Landslide s \<Rightarrow> Landslide (state_of (ls_button e a s))
                                 | Flood s \<Rightarrow> Flood (fl_button e a s))
                    (simulationModule g)\<rparr>
      in case a of
           ReportResults res \<Rightarrow>
             g1\<lparr>playerData := state_of (completeSimulation completedAt res (playerData g1))\<rparr>
         | _ \<Rightarrow> g1)"

section \<open>Concrete sessions\<close>

text \<open>Clock readings in the repository's environment; no distance is needed where no
  evacuation centre is searched, so all are 0.\<close>

definition at_ms :: "rat \<Rightarrow> env" where
  "at_ms t = repository_env t (\<lambda>c. 0)"

text \<open>An earthquake session started at time 0.\<close>

definition started_earthquake :: module where
  "started_earthquake = step (at_ms 0) (EqEvent EqStart) (Earthquake EarthquakeSimulation_new)"

text \<open>A flood session started at time 0 with ten non-swimmers, and the same session
  reset by the player ten seconds later.\<close>

definition started_flood :: FloodSimulation where
  "started_flood = fl_step (at_ms 0) (FlStart (replicate 10 False)) FloodSimulation_new"

definition reset_flood :: FloodSimulation where
  "reset_flood = fl_step (at_ms 10000) FlReset started_flood"

text \<open>The same started flood session with the player clicking the ten residents during
  the preparation phase, five a second, the first six nearest to the first evacuation
  centre and the others to the second; and the session after the ten evacuation timers
  have fired, three seconds after each click.\<close>

definition near :: "rat \<Rightarrow> nat \<Rightarrow> env" where
  "near t c = repository_env t (\<lambda>x. if x = c then 1 else 2)"

definition clicked_all :: FloodSimulation where
  "clicked_all =
     fold (\<lambda>i. fl_step (near (5000 + 200 * of_nat i) (if i < 6 then 0 else 1)) (FlResidentClick i))
       [0 ..< 10] started_flood"

definition all_sheltered :: FloodSimulation where
  "all_sheltered =
     fold (\<lambda>i. fl_step (at_ms (8000 + 200 * of_nat i)) (FlFire 1)) [0 ..< 10] clicked_all"

text \<open>An earthquake session started at time 0 whose first phase timer has fired at 30
  seconds and whose player has pressed \<open>Take Action!\<close>: the session has shown its panel
  of eight students and eight desks. Then the page with that panel, as the controller's
  \<open>showDragDropPanel\<close> builds it; one of the panel's zones; and the zone \<open>Prepare Houses\<close>
  of the flood's panel, which accepts no person.\<close>

definition shaking :: EarthquakeSimulation where
  "shaking =
     eq_step (at_ms 30500) (EqButton StartEarthquakePhase)
       (eq_step (at_ms 30000) (EqFire 0) (eq_start (at_ms 0) EarthquakeSimulation_new))"




text \<open>The same session after the first student has been dropped under the first desk
  and the emergency kit clicked; and what happens next: a drop the controller rejects,
  the timer of the earthquake phase, a click on a desk.\<close>

definition drilled :: module where
  "drilled =
     run [(at_ms 32000, EqEvent (EqCorrectDrop ''student_0'' ''desk_0'')),
          (at_ms 33000, EqEvent EqKitClick)]
       (Earthquake shaking)"

definition after_drill :: "(env \<times> event) list" where
  "after_drill =
     [(at_ms 34000, EqEvent (EqIncorrectDrop ''student_1'' ''desk_1'')),
      (at_ms 75000, EqEvent (EqFire 0)),
      (at_ms 76000, EqEvent EqDeskClick)]"

text \<open>The flood session that was reset at 10 seconds, after the timer of the first start
  has fired at 60 seconds: the session is in phase 1 and the timer of the reset, which
  holds phase 0, is still pending.\<close>

definition stale_advanced :: module where
  "stale_advanced = Flood (fl_step (at_ms 60000) (FlFire 0) reset_flood)"



text \<open>The earthquake session as \<open>start\<close> leaves it at time 0.\<close>

definition fresh_earthquake :: EarthquakeSimulation where
  "fresh_earthquake = eq_start (at_ms 0) EarthquakeSimulation_new"


section \<open>Facts about the controller used by several results\<close>

lemma completedSimulations_completeSimulation:
  "completedSimulations (state_of (completeSimulation ts res pd)) =
     AList.update (r_disaster res)
       \<lparr>sim_completed = True, sim_score = Some (r_score res),
        sim_timeBonus = Some (r_timeBonus res), sim_accuracy = Some (r_accuracy res),
        sim_completedAt = Some ts, sim_timeElapsed = None\<rparr>
       (completedSimulations pd)"
  by (simp add: completeSimulation_def Let_def split: option.split)


section \<open>The final score\<close>

lemma objectiveCount_flags: "objectiveCount s = length (filter snd (objectives s))"
  by (simp add: objectiveCount_def filter_map comp_def)

lemma floor_double: "\<lfloor>(of_int a :: rat) * 2\<rfloor> = 2 * a"
proof -
  have "(of_int a :: rat) * 2 = of_int (2 * a)" by simp
  then show ?thesis by (simp only: floor_of_int)
qed

text \<open>Rounding to a double keeps the sign, so the time bonus is 0 from the ceiling on.\<close>

lemma pow2_pos: "0 < pow2 k"
  by (simp add: pow2_def)

lemma round_half_even_nonpos:
  assumes "x \<le> 0"
  shows "round_half_even x \<le> 0"
proof -
  have f: "\<lfloor>x\<rfloor> \<le> 0" using assms by (simp add: floor_le_iff)
  have "\<lfloor>x\<rfloor> + 1 \<le> 0" if "x - of_int \<lfloor>x\<rfloor> \<noteq> 0"
  proof -
    have "of_int \<lfloor>x\<rfloor> < x" using that of_int_floor_le [of x] by linarith
    then have "of_int \<lfloor>x\<rfloor> < (0 :: rat)" using assms by linarith
    then have "\<lfloor>x\<rfloor> < 0" by (simp only: of_int_less_0_iff)
    then show ?thesis by arith
  qed
  then show ?thesis using f by (auto simp: round_half_even_def Let_def)
qed

lemma to_double_nonpos:
  assumes "x \<le> 0"
  shows "to_double x \<le> 0"
proof (cases "x = 0")
  case True
  then show ?thesis by (simp add: to_double_def)
next
  case False
  let ?e = "max (binade \<bar>x\<bar>) (- 1022) - 52"
  have "x / pow2 ?e \<le> 0" using assms pow2_pos [of ?e] by (simp add: divide_le_0_iff)
  then have "round_half_even (x / pow2 ?e) \<le> 0" by (rule round_half_even_nonpos)
  then have "(of_int (round_half_even (x / pow2 ?e)) :: rat) * pow2 ?e \<le> 0"
    using pow2_pos [of ?e] by (simp add: mult_le_0_iff)
  then show ?thesis using False by (simp add: to_double_def Let_def)
qed

lemma timeBonus_past_ceiling:
  assumes "limit \<le> elapsed" and "0 < limit"
  shows "max 0 \<lfloor>double_mul (double_div (double_sub limit elapsed) limit) 200\<rfloor> = 0"
proof -
  have a: "double_sub limit elapsed \<le> 0"
    using assms unfolding double_sub_def by (intro to_double_nonpos) simp
  have b: "double_div (double_sub limit elapsed) limit \<le> 0"
    using a assms unfolding double_div_def by (intro to_double_nonpos) (simp add: divide_le_0_iff)
  have "double_mul (double_div (double_sub limit elapsed) limit) 200 \<le> 0"
    using b unfolding double_mul_def by (intro to_double_nonpos) (simp add: mult_le_0_iff)
  then have "\<lfloor>double_mul (double_div (double_sub limit elapsed) limit) 200\<rfloor> \<le> 0"
    by (simp add: floor_le_iff)
  then show ?thesis by simp
qed

text \<open>
  Claim C1. Take a session and a clock reading whose numbers are in the range where the
  code's arithmetic is as modelled: the clock is less than \<open>2^1000\<close> milliseconds from the
  start time, the score and the accuracy are integers of at most 50 bits and the counts
  are below \<open>2^40\<close>. Then \<open>calculateFinalScore\<close> of the earthquake and of the flood session
  returns the base score; the time bonus \<open>max(0, floor((ceiling - elapsed) / ceiling * 200))\<close>
  with ceiling 300 seconds for the earthquake and 450 for the flood, \<open>elapsed\<close> being
  \<open>(now - startTime) / 1000\<close>, every operation in it the code's operation on doubles, and
  the bonus 0 once \<open>elapsed\<close> has reached the ceiling; the accuracy bonus
  \<open>floor(accuracy * 2)\<close>, which is twice the accuracy; the objective bonus, 100 for every
  objective flag that is true; for the flood 25 per rescued resident and 15 per
  distributed supply; and as total the sum of the base score and these components.
\<close>

theorem calculateFinalScore_components:
  assumes "\<bar>now e - startTime s\<bar> \<le> 2 ^ 1000" and "\<bar>now e - startTime f\<bar> \<le> 2 ^ 1000"
    and "\<bar>score s\<bar> \<le> 2 ^ 50" and "\<bar>accuracy s\<bar> \<le> 2 ^ 50"
    and "length (objectives s) \<le> 2 ^ 40"
    and "\<bar>score f\<bar> \<le> 2 ^ 50" and "\<bar>accuracy f\<bar> \<le> 2 ^ 50"
    and "length (objectives f) \<le> 2 ^ 40"
    and "rescuedResidents f \<le> 2 ^ 40" and "suppliesDistributed f \<le> 2 ^ 40"
  shows "eq_baseScore (eq_calculateFinalScore e s) = score s
   \<and> eq_timeBonus (eq_calculateFinalScore e s)
       = max 0 \<lfloor>double_mul (double_div (double_sub 300
                    (double_div (double_sub (now e) (startTime s)) 1000)) 300) 200\<rfloor>
   \<and> (300 \<le> double_div (double_sub (now e) (startTime s)) 1000
        \<longrightarrow> eq_timeBonus (eq_calculateFinalScore e s) = 0)
   \<and> eq_accuracyBonus (eq_calculateFinalScore e s) = \<lfloor>(of_int (accuracy s) :: rat) * 2\<rfloor>
   \<and> eq_accuracyBonus (eq_calculateFinalScore e s) = 2 * accuracy s
   \<and> eq_objectiveBonus (eq_calculateFinalScore e s) = 100 * int (length (filter snd (objectives s)))
   \<and> eq_total (eq_calculateFinalScore e s)
       = score s + eq_timeBonus (eq_calculateFinalScore e s)
           + eq_accuracyBonus (eq_calculateFinalScore e s)
           + eq_objectiveBonus (eq_calculateFinalScore e s)
   \<and> fl_baseScore (fl_calculateFinalScore e f) = score f
   \<and> fl_timeBonus (fl_calculateFinalScore e f)
       = max 0 \<lfloor>double_mul (double_div (double_sub 450
                    (double_div (double_sub (now e) (startTime f)) 1000)) 450) 200\<rfloor>
   \<and> (450 \<le> double_div (double_sub (now e) (startTime f)) 1000
        \<longrightarrow> fl_timeBonus (fl_calculateFinalScore e f) = 0)
   \<and> fl_accuracyBonus (fl_calculateFinalScore e f) = \<lfloor>(of_int (accuracy f) :: rat) * 2\<rfloor>
   \<and> fl_accuracyBonus (fl_calculateFinalScore e f) = 2 * accuracy f
   \<and> fl_objectiveBonus (fl_calculateFinalScore e f) = 100 * int (length (filter snd (objectives f)))
   \<and> fl_rescueBonus (fl_calculateFinalScore e f) = int (rescuedResidents f) * 25
   \<and> fl_supplyBonus (fl_calculateFinalScore e f) = int (suppliesDistributed f) * 15
   \<and> fl_total (fl_calculateFinalScore e f)
       = score f + fl_timeBonus (fl_calculateFinalScore e f)
           + fl_accuracyBonus (fl_calculateFinalScore e f)
           + fl_objectiveBonus (fl_calculateFinalScore e f)
           + fl_rescueBonus (fl_calculateFinalScore e f)
           + fl_supplyBonus (fl_calculateFinalScore e f)"
  using timeBonus_past_ceiling [of 300 "double_div (double_sub (now e) (startTime s)) 1000"]
    timeBonus_past_ceiling [of 450 "double_div (double_sub (now e) (startTime f)) 1000"]
  by (simp add: eq_calculateFinalScore_def fl_calculateFinalScore_def Let_def
      objectiveCount_flags floor_double)

text \<open>Witness for C1: the earthquake session 126 seconds after its start and the flood
  session 189 seconds after its start, both with nothing scored. In exact arithmetic
  \<open>(300 - 126) / 300 * 200\<close> and \<open>(450 - 189) / 450 * 200\<close> are 116; the quotient \<open>0.58\<close> is
  not a double, the nearest one is below it, and the code's bonus is 115.\<close>

lemma floor_numeral_div: "\<lfloor>(numeral a :: rat) / numeral b\<rfloor> = numeral a div numeral b"
  using floor_divide_of_int_eq [of "numeral a" "numeral b", where ?'a = rat] by simp

lemma ceiling_numeral_div:
  "\<lceil>(numeral a :: rat) / numeral b\<rceil> = - (- numeral a div numeral b)"
  using floor_divide_of_int_eq [of "- numeral a" "numeral b", where ?'a = rat]
  by (simp add: ceiling_def)

lemmas double_eval = double_sub_def double_div_def double_mul_def to_double_def binade_def
  pow2_def round_half_even_def Let_def bit_length.simps floor_numeral_div ceiling_numeral_div

lemma time_bonus_examples:
  "max 0 \<lfloor>double_mul (double_div (double_sub 300 (double_div (double_sub 126000 0) 1000)) 300) 200\<rfloor>
     = (115 :: int)"
  "max 0 \<lfloor>double_mul (double_div (double_sub 450 (double_div (double_sub 189000 0) 1000)) 450) 200\<rfloor>
     = (115 :: int)"
  by (simp_all add: double_eval)

lemma fresh_sessions:
  "startTime fresh_earthquake = 0" "score fresh_earthquake = 0" "accuracy fresh_earthquake = 100"
  "objectives fresh_earthquake
     = [(''dropCoverHold'', False), (''stayCalm'', False), (''checkInjuries'', False),
        (''evacuateSafely'', False), (''assembleAtSafePoint'', False)]"
  "startTime started_flood = 0" "score started_flood = 0" "accuracy started_flood = 100"
  "objectives started_flood
     = [(''prepareSupplies'', False), (''buildBarriers'', False), (''evacuateResidents'', False),
        (''rescueStranded'', False), (''establishShelter'', False)]"
  "rescuedResidents started_flood = 0" "suppliesDistributed started_flood = 0"
  by (simp_all add: fresh_earthquake_def eq_start_def eq_showWelcomeInstructions_def
      eq_startPhase_def eq_phases_def Let_def startPreparationPhase_def createClassroomScene_def
      EarthquakeSimulation_new_def started_flood_def fl_step_def fl_start_def
      fl_showWelcomeInstructions_def fl_startPhase_def fl_phases_def fl_startPreparationPhase_def
      showPreparationInterface_def createCommunityScene_def createRescueBoats_def
      createEvacuationCenters_def createEmergencySupplies_def createResidents_def
      createCommunityBuildings_def FloodSimulation_new_def call_def setTimeout_def at_ms_def
      repository_env_def)

theorem calculateFinalScore_components_witness:
  "eq_timeBonus (eq_calculateFinalScore (at_ms 126000) fresh_earthquake) = 115
   \<and> eq_accuracyBonus (eq_calculateFinalScore (at_ms 126000) fresh_earthquake) = 200
   \<and> eq_objectiveBonus (eq_calculateFinalScore (at_ms 126000) fresh_earthquake) = 0
   \<and> eq_total (eq_calculateFinalScore (at_ms 126000) fresh_earthquake) = 315
   \<and> fl_timeBonus (fl_calculateFinalScore (at_ms 189000) started_flood) = 115
   \<and> fl_total (fl_calculateFinalScore (at_ms 189000) started_flood) = 315"
proof -
  have n: "now (at_ms 126000) = 126000" "now (at_ms 189000) = 189000"
    by (simp_all add: at_ms_def repository_env_def)
  note f = fresh_sessions
  have "eq_timeBonus (eq_calculateFinalScore (at_ms 126000) fresh_earthquake) = 115
   \<and> eq_accuracyBonus (eq_calculateFinalScore (at_ms 126000) fresh_earthquake) = 200
   \<and> eq_objectiveBonus (eq_calculateFinalScore (at_ms 126000) fresh_earthquake) = 0
   \<and> eq_total (eq_calculateFinalScore (at_ms 126000) fresh_earthquake) = 315"
    using calculateFinalScore_components [of "at_ms 126000" fresh_earthquake started_flood]
      time_bonus_examples(1)
    by (simp add: n f)
  moreover have "fl_timeBonus (fl_calculateFinalScore (at_ms 189000) started_flood) = 115
   \<and> fl_total (fl_calculateFinalScore (at_ms 189000) started_flood) = 315"
    using calculateFinalScore_components [of "at_ms 189000" fresh_earthquake started_flood]
      time_bonus_examples(2)
    by (simp add: n f)
  ultimately show ?thesis by simp
qed

section \<open>Where the danger checks throw\<close>

lemma fold_and_then_Thrown: "fold (\<lambda>x acc. and_then acc (f x)) xs (Thrown s) = Thrown s"
  by (induction xs) simp_all

text \<open>The landslide's safety check throws at the first resident who is not evacuated
  and has changed nothing by then; with every resident evacuated it sets the objective
  and adds 300 to the score.\<close>

lemma residentSafety_fold:
  "fold (\<lambda>resident acc. and_then acc (residentSafety resident)) rs (Done (n, s))
   = (if list_all hr_evacuated rs then Done (n, s) else Thrown (n + 1, s))"
  by (induction rs) (simp_all add: residentSafety_def fold_and_then_Thrown)

lemma checkResidentSafety_cases:
  "checkResidentSafety s
   = (if list_all hr_evacuated (hill_residents s)
      then Done ((set_objective ''avoidDangerZone'' s)\<lparr>score := score s + 300\<rparr>)
      else Thrown s)"
  by (simp add: checkResidentSafety_def residentSafety_fold Let_def set_objective_def)

text \<open>The flood's danger check throws at the first resident below the water line who
  is not rescued, and changes nothing either way.\<close>

lemma residentInDanger_fold:
  "fold (\<lambda>i acc. and_then acc (residentInDanger i)) xs (Done s)
   = (if list_ex (\<lambda>i. posY (residents s ! i) < waterLevel s + 1 \<and> \<not> rescued (residents s ! i)) xs
      then Thrown s else Done s)"
  by (induction xs) (simp_all add: residentInDanger_def Let_def fold_and_then_Thrown)

lemma checkResidentsInDanger_cases:
  "checkResidentsInDanger s
   = (if list_ex (\<lambda>i. posY (residents s ! i) < waterLevel s + 1 \<and> \<not> rescued (residents s ! i))
           [0 ..< length (residents s)]
      then Thrown s else Done s)"
  by (simp add: checkResidentsInDanger_def residentInDanger_fold)

lemma state_of_checks [simp]:
  "state_of (checkResidentsInDanger s) = s"
  "state_of (checkResidentSafety l)
   = (if list_all hr_evacuated (hill_residents l)
      then (set_objective ''avoidDangerZone'' l)\<lparr>score := score l + 300\<rparr> else l)"
  by (simp_all add: checkResidentsInDanger_cases checkResidentSafety_cases)

text \<open>A frame of the flood: the water rises, and the next frame is requested unless the
  check has thrown.\<close>

lemma raiseWater_cases:
  "raiseWater e s
   = (if isFlooding s \<and> waterLevel s < maxWaterLevel then
        (if list_ex (\<lambda>i. posY (residents s ! i) < waterLevel s + floodSpeed + 1
                          \<and> \<not> rescued (residents s ! i)) [0 ..< length (residents s)]
         then Thrown (s\<lparr>waterLevel := waterLevel s + floodSpeed\<rparr>)
         else Done (requestAnimationFrame e RaiseWater (s\<lparr>waterLevel := waterLevel s + floodSpeed\<rparr>)))
      else Done s)"
  by (simp add: raiseWater_def checkResidentsInDanger_cases)

lemma startFloodPhase_cases:
  "startFloodPhase e s
   = (case raiseWater e ((call HideDragDropPanel s)\<lparr>isFlooding := True\<rparr>) of
        Thrown s1 \<Rightarrow> Thrown s1
      | Done s1 \<Rightarrow> Done (fl_initiateEvacuation e (identifyFloodRisks s1)))"
  by (cases "raiseWater e ((call HideDragDropPanel s)\<lparr>isFlooding := True\<rparr>)")
     (simp_all add: startFloodPhase_def)

section \<open>The phase driver\<close>

lemma phase_entries_Nil [simp]: "phase_entries [] = []"
  by (simp add: phase_entries_def)

lemma phase_entries_append [simp]: "phase_entries (xs @ ys) = phase_entries xs @ phase_entries ys"
  by (simp add: phase_entries_def)

lemma phase_entries_Cons [simp]:
  "phase_entries ((d, cb) # ts)
     = (case cb of PhaseTimer i \<Rightarrow> [(d, i)] | _ \<Rightarrow> []) @ phase_entries ts"
  by (simp add: phase_entries_def)

lemma less4: "n < 4 \<Longrightarrow> n = 0 \<or> n = Suc 0 \<or> n = 2 \<or> n = (3::nat)"
  by arith

lemma eq_startPhase_in_range:
  assumes "n < length eq_phases"
  shows "currentPhase (eq_startPhase e n s) = n
       \<and> phaseTimers (eq_startPhase e n s) = phaseTimers s @ [(now e + duration (eq_phases ! n), n)]"
proof -
  have "n = 0 \<or> n = Suc 0 \<or> n = 2 \<or> n = 3" using assms by (simp add: eq_phases_def less4)
  then show ?thesis
    by (elim disjE)
       (simp_all add: eq_startPhase_def eq_phases_def Let_def call_def setTimeout_def set_objective_def phaseTimers_def
          startPreparationPhase_def showEarthquakeInstructions_def startAftermathPhase_def
          showEvacuationInstructions_def)
qed

lemma ls_startPhase_in_range:
  assumes "n < length ls_phases"
  shows "currentPhase (ls_startPhase e n s) = n
       \<and> phaseTimers (ls_startPhase e n s) = phaseTimers s @ [(now e + duration (ls_phases ! n), n)]"
proof -
  have "n = 0 \<or> n = Suc 0 \<or> n = 2 \<or> n = 3" using assms by (simp add: ls_phases_def less4)
  then show ?thesis
    by (elim disjE)
       (simp_all add: ls_startPhase_def ls_phases_def Let_def call_def setTimeout_def set_objective_def phaseTimers_def
          startWarningSignsPhase_def startEarlyWarningPhase_def ls_startEvacuationPhase_def
          startLandslideEvent_def)
qed

lemma fold_setTimeout_keeps:
  assumes "\<And>i. \<forall>n. cb i \<noteq> PhaseTimer n"
  shows "currentPhase (fold (\<lambda>i st. if P i then setTimeout e (cb i) (d i) st else st) xs s) = currentPhase s
       \<and> phase_entries (timers (fold (\<lambda>i st. if P i then setTimeout e (cb i) (d i) st else st) xs s))
           = phase_entries (timers s)"
proof (induction xs arbitrary: s)
  case Nil
  show ?case by simp
next
  case (Cons x xs)
  have "phase_entries (timers (setTimeout e (cb x) (d x) s)) = phase_entries (timers s)"
    and "currentPhase (setTimeout e (cb x) (d x) s) = currentPhase s"
    using assms [of x] by (cases "cb x"; simp add: setTimeout_def)+
  then show ?case using Cons.IH by simp
qed

lemma distributeSupplies_keeps:
  "currentPhase (distributeSuppliesToShelters e s) = currentPhase s
   \<and> phase_entries (timers (distributeSuppliesToShelters e s)) = phase_entries (timers s)"
  unfolding distributeSuppliesToShelters_def
  by (rule fold_setTimeout_keeps) simp

lemma recedeWater_keeps:
  "currentPhase (recedeWater e s) = currentPhase s
   \<and> phase_entries (timers (recedeWater e s)) = phase_entries (timers s)"
  by (simp add: recedeWater_def requestAnimationFrame_def setTimeout_def)

lemma startRecoveryPhase_keeps:
  "currentPhase (startRecoveryPhase e s) = currentPhase s
   \<and> phase_entries (timers (startRecoveryPhase e s)) = phase_entries (timers s)"
proof -
  have "phase_entries (timers (setupShelterOperations e s')) = phase_entries (timers s')
      \<and> currentPhase (setupShelterOperations e s') = currentPhase s'" for s'
    using distributeSupplies_keeps [of e s']
    by (simp add: setupShelterOperations_def Let_def set_objective_def)
  then show ?thesis
    by (simp add: startRecoveryPhase_def recedeWater_keeps call_def)
qed

lemma fl_startPhase_in_range:
  assumes "n < length fl_phases"
  shows "currentPhase (fl_startPhase e n s) = n
       \<and> phaseTimers (fl_startPhase e n s) = phaseTimers s @ [(now e + duration (fl_phases ! n), n)]"
proof -
  have "n = 0 \<or> n = Suc 0 \<or> n = 2 \<or> n = 3" using assms by (simp add: fl_phases_def less4)
  then show ?thesis
    by (elim disjE)
       (simp_all add: fl_startPhase_def fl_phases_def Let_def call_def setTimeout_def set_objective_def phaseTimers_def
          fl_startPreparationPhase_def showPreparationInterface_def showEarlyFloodInstructions_def
          showRescueInstructions_def startRecoveryPhase_keeps)
qed

lemma startPhase_in_range:
  assumes "n < length (phasesOf m)"
  shows "currentPhaseOf (startPhase e n m) = n
       \<and> phaseTimersOf (startPhase e n m) = phaseTimersOf m @ [(now e + duration (phasesOf m ! n), n)]"
  using assms eq_startPhase_in_range ls_startPhase_in_range fl_startPhase_in_range
  by (cases m) simp_all

lemma startPhase_past_end:
  assumes "n \<ge> length (phasesOf m)"
  shows "startPhase e n m = completeSimulationOf e m
       \<and> currentPhaseOf (startPhase e n m) = currentPhaseOf m
       \<and> phaseTimersOf (startPhase e n m) = phaseTimersOf m"
  using assms
  by (cases m)
     (simp_all add: eq_startPhase_def ls_startPhase_def fl_startPhase_def
        eq_completeSimulation_def ls_completeSimulation_def fl_completeSimulation_def Let_def
        call_def phaseTimers_def)

lemma phaseTimer_cases:
  "phaseTimer e n m = (if currentPhaseOf m = n then startPhase e (n + 1) m else m)"
  by (cases m) (simp_all add: eq_phaseTimer_def ls_phaseTimer_def fl_phaseTimer_def)


subsection \<open>Events that leave the phase driver alone, and the one that advances it\<close>

lemma take_timer_split:
  assumes "k < length ts"
  shows "phase_entries ts
           = phase_entries (take k ts)
               @ (case snd (ts ! k) of PhaseTimer i \<Rightarrow> [(fst (ts ! k), i)] | _ \<Rightarrow> [])
               @ phase_entries (drop (Suc k) ts)"
proof -
  have "ts = take k ts @ (fst (ts ! k), snd (ts ! k)) # drop (Suc k) ts"
    using assms by (simp add: id_take_nth_drop)
  then have "phase_entries ts
      = phase_entries (take k ts @ (fst (ts ! k), snd (ts ! k)) # drop (Suc k) ts)"
    by simp
  then show ?thesis by (simp only: phase_entries_append phase_entries_Cons append_assoc)
qed

lemma take_timer_other:
  assumes "k < length (timers s)" and "\<And>i. snd (timers s ! k) \<noteq> PhaseTimer i"
  shows "phase_entries (timers (take_timer k s)) = phase_entries (timers s)"
        "currentPhase (take_timer k s) = currentPhase s"
  using assms take_timer_split [OF assms(1)]
  by (cases "snd (timers s ! k)"; simp add: take_timer_def)+

lemma take_timer_phase:
  assumes "k < length (timers s)" and "snd (timers s ! k) = PhaseTimer i"
    and "one_timer_pending s"
  shows "phase_entries (timers (take_timer k s)) = []" and "i = currentPhase s"
        "currentPhase (take_timer k s) = currentPhase s"
proof -
  have sp: "phaseTimers s = phase_entries (take k (timers s)) @ [(fst (timers s ! k), i)]
      @ phase_entries (drop (Suc k) (timers s))"
    using take_timer_split [OF assms(1)] assms(2) by (simp add: phaseTimers_def)
  have "phase_entries (take k (timers s)) = [] \<and> phase_entries (drop (Suc k) (timers s)) = []
      \<and> i = currentPhase s"
  proof (cases "phaseTimers s")
    case Nil
    then show ?thesis using sp by simp
  next
    case (Cons p ps)
    then have ps: "ps = []" and p: "snd p = currentPhase s"
      using assms(3) by (cases ps; cases p; simp add: one_timer_pending_def)+
    have "length (phaseTimers s) = 1" using Cons ps by simp
    then have l: "length (phase_entries (take k (timers s))) + 1
          + length (phase_entries (drop (Suc k) (timers s))) = 1"
      using sp by simp
    then have e: "phase_entries (take k (timers s)) = []" "phase_entries (drop (Suc k) (timers s)) = []"
      by simp_all
    then have "phaseTimers s = [(fst (timers s ! k), i)]" using sp by simp
    then have "p = (fst (timers s ! k), i)" using Cons by simp
    then show ?thesis using e p by simp
  qed
  then show "phase_entries (timers (take_timer k s)) = []" and "i = currentPhase s"
    by (simp_all add: take_timer_def)
  show "currentPhase (take_timer k s) = currentPhase s" by (simp add: take_timer_def)
qed

lemma one_timer_pending_cong:
  assumes "currentPhase s' = currentPhase s" and "phase_entries (timers s') = phase_entries (timers s)"
  shows "one_timer_pending s' = one_timer_pending s"
  using assms by (simp add: one_timer_pending_def phaseTimers_def split: list.split prod.split)

lemma fold_setTimeout_all_keeps:
  assumes "\<And>i. \<forall>n. cb i \<noteq> PhaseTimer n"
  shows "currentPhase (fold (\<lambda>i. setTimeout e (cb i) (d i)) xs s) = currentPhase s
       \<and> phase_entries (timers (fold (\<lambda>i. setTimeout e (cb i) (d i)) xs s)) = phase_entries (timers s)"
proof (induction xs arbitrary: s)
  case Nil
  show ?case by simp
next
  case (Cons x xs)
  have "phase_entries (timers (setTimeout e (cb x) (d x) s)) = phase_entries (timers s)"
    and "currentPhase (setTimeout e (cb x) (d x) s) = currentPhase s"
    using assms [of x] by (cases "cb x"; simp add: setTimeout_def)+
  then show ?case using Cons.IH by simp
qed

lemmas eq_handlers = eq_button_def startEarthquakePhase_def showDropCoverHoldInterface_def
  eq_startEvacuationPhase_def onCorrectDrop_def onIncorrectDrop_def onDeskClick_def
  onStudentClick_def onExitClick_def eq_onEmergencyKitInteract_def eq_showEducationalInfo_def
  eq_evacuateStudent_def evacuateIfNeeded_def studentExited_def eq_completeSimulation_def
  call_def setTimeout_def set_objective_def Let_def

lemma eq_initiateEvacuation_keeps:
  "currentPhase (eq_initiateEvacuation e s) = currentPhase s
   \<and> phase_entries (timers (eq_initiateEvacuation e s)) = phase_entries (timers s)"
  unfolding eq_initiateEvacuation_def by (rule fold_setTimeout_all_keeps) simp

lemma eq_button_keeps:
  "currentPhase (eq_button e a s) = currentPhase s
   \<and> phase_entries (timers (eq_button e a s)) = phase_entries (timers s)"
  using eq_initiateEvacuation_keeps [of e "call HideInstructionsCall s"]
  by (cases a) (simp_all add: eq_handlers)

lemma eq_callback_keeps:
  assumes "\<And>i. cb \<noteq> PhaseTimer i"
  shows "currentPhase (eq_run_callback e cb s) = currentPhase s
   \<and> phase_entries (timers (eq_run_callback e cb s)) = phase_entries (timers s)"
proof (cases cb)
  case (PhaseTimer i)
  then show ?thesis using assms by blast
qed (simp_all add: eq_run_callback_def eq_handlers)

lemma eq_step_keeps:
  assumes "ev \<noteq> EqReset" and "ev \<noteq> EqStart"
    and "\<And>k i. ev = EqFire k \<Longrightarrow> k < length (timers s) \<Longrightarrow> snd (timers s ! k) \<noteq> PhaseTimer i"
  shows "currentPhase (eq_step e ev s) = currentPhase s
   \<and> phase_entries (timers (eq_step e ev s)) = phase_entries (timers s)"
proof (cases ev)
  case (EqFire k)
  show ?thesis
  proof (cases "k < length (timers s)")
    case True
    then have n: "\<And>i. snd (timers s ! k) \<noteq> PhaseTimer i" using assms(3) EqFire by blast
    show ?thesis
      using eq_callback_keeps [OF n, of e "take_timer k s"] take_timer_other [OF True n] True EqFire
      by (simp add: eq_step_def)
  next
    case False
    then show ?thesis using EqFire by (simp add: eq_step_def)
  qed
next
  case (EqButton a)
  then show ?thesis using eq_button_keeps by (simp add: eq_step_def)
qed (use assms in \<open>simp_all add: eq_step_def eq_handlers split: option.splits prod.splits\<close>)

lemma eq_step_inv:
  assumes "one_timer_pending s" and "ev \<noteq> EqReset" and "ev \<noteq> EqStart"
  shows "one_timer_pending (eq_step e ev s)"
proof (cases "\<exists>k i. ev = EqFire k \<and> k < length (timers s) \<and> snd (timers s ! k) = PhaseTimer i")
  case True
  then obtain k i where ev: "ev = EqFire k" and k: "k < length (timers s)"
    and cb: "snd (timers s ! k) = PhaseTimer i" by blast
  note t = take_timer_phase [OF k cb assms(1)]
  have st: "eq_step e ev s = eq_startPhase e (i + 1) (take_timer k s)"
    using ev k cb t by (simp add: eq_step_def eq_run_callback_def eq_phaseTimer_def)
  show ?thesis
  proof (cases "i + 1 < length eq_phases")
    case True
    then show ?thesis
      using eq_startPhase_in_range [OF True, of e "take_timer k s"] t
      by (simp add: st one_timer_pending_def phaseTimers_def)
  next
    case False
    then have "eq_step e ev s = eq_completeSimulation e (take_timer k s)"
      by (simp add: st eq_startPhase_def)
    then show ?thesis using t
      by (simp add: one_timer_pending_def phaseTimers_def eq_completeSimulation_def call_def Let_def)
  qed
next
  case False
  then have "\<And>k i. ev = EqFire k \<Longrightarrow> k < length (timers s) \<Longrightarrow> snd (timers s ! k) \<noteq> PhaseTimer i"
    by blast
  from eq_step_keeps [OF assms(2,3) this] show ?thesis
    using assms(1) one_timer_pending_cong by blast
qed



lemma showFeedback_keeps:
  "currentPhase (state_of (showFeedback e t s)) = currentPhase s
   \<and> timers (state_of (showFeedback e t s)) = timers s"
  by (simp add: showFeedback_def call_def)

lemma checkResidentSafety_keeps:
  "currentPhase (state_of (checkResidentSafety s)) = currentPhase s
   \<and> timers (state_of (checkResidentSafety s)) = timers s"
  by (simp add: set_objective_def)

lemmas ls_handlers = ls_button_def showWarningInterface_def simulateLandslide_def
  onWarningSignClick_def activateWarningSystem_def ls_evacuateResident_def
  onDragDropComplete_def showFeedback_def call_def setTimeout_def set_objective_def Let_def

lemma ls_button_keeps:
  assumes "a \<noteq> Restart"
  shows "currentPhase (state_of (ls_button e a s)) = currentPhase s
   \<and> phase_entries (timers (state_of (ls_button e a s))) = phase_entries (timers s)"
  using assms checkResidentSafety_keeps [of "call HideInstructionsCall s"]
  by (cases a) (simp_all add: ls_handlers)

lemma ls_callback_keeps:
  assumes "\<And>i. cb \<noteq> PhaseTimer i"
  shows "currentPhase (state_of (ls_run_callback e cb s)) = currentPhase s
   \<and> phase_entries (timers (state_of (ls_run_callback e cb s))) = phase_entries (timers s)"
proof (cases cb)
  case (PhaseTimer i)
  then show ?thesis using assms by blast
qed (simp_all add: ls_run_callback_def ls_handlers)

lemma ls_step_keeps:
  assumes "ev \<noteq> LsButton Restart" and "ev \<noteq> LsStart"
    and "\<And>k i. ev = LsFire k \<Longrightarrow> k < length (timers s) \<Longrightarrow> snd (timers s ! k) \<noteq> PhaseTimer i"
  shows "currentPhase (ls_step e ev s) = currentPhase s
   \<and> phase_entries (timers (ls_step e ev s)) = phase_entries (timers s)"
proof (cases ev)
  case (LsFire k)
  show ?thesis
  proof (cases "k < length (timers s)")
    case True
    then have n: "\<And>i. snd (timers s ! k) \<noteq> PhaseTimer i" using assms(3) LsFire by blast
    show ?thesis
      using ls_callback_keeps [OF n, of e "take_timer k s"] take_timer_other [OF True n] True LsFire
      by (simp add: ls_step_def ls_handle_def)
  next
    case False
    then show ?thesis using LsFire by (simp add: ls_step_def ls_handle_def)
  qed
next
  case (LsButton a)
  then show ?thesis using ls_button_keeps [of a e s] assms(1) by (simp add: ls_step_def ls_handle_def)
qed (use assms in \<open>simp_all add: ls_step_def ls_handle_def ls_handlers split: option.splits\<close>)

lemma ls_step_inv:
  assumes "one_timer_pending s" and "ev \<noteq> LsButton Restart" and "ev \<noteq> LsStart"
  shows "one_timer_pending (ls_step e ev s)"
proof (cases "\<exists>k i. ev = LsFire k \<and> k < length (timers s) \<and> snd (timers s ! k) = PhaseTimer i")
  case True
  then obtain k i where ev: "ev = LsFire k" and k: "k < length (timers s)"
    and cb: "snd (timers s ! k) = PhaseTimer i" by blast
  note t = take_timer_phase [OF k cb assms(1)]
  have st: "ls_step e ev s = ls_startPhase e (i + 1) (take_timer k s)"
    using ev k cb t by (simp add: ls_step_def ls_handle_def ls_run_callback_def ls_phaseTimer_def)
  show ?thesis
  proof (cases "i + 1 < length ls_phases")
    case True
    then show ?thesis
      using ls_startPhase_in_range [OF True, of e "take_timer k s"] t
      by (simp add: st one_timer_pending_def phaseTimers_def)
  next
    case False
    then have "ls_step e ev s = ls_completeSimulation e (take_timer k s)"
      by (simp add: st ls_startPhase_def)
    then show ?thesis using t
      by (simp add: one_timer_pending_def phaseTimers_def ls_completeSimulation_def call_def Let_def)
  qed
next
  case False
  then have "\<And>k i. ev = LsFire k \<Longrightarrow> k < length (timers s) \<Longrightarrow> snd (timers s ! k) \<noteq> PhaseTimer i"
    by blast
  from ls_step_keeps [OF assms(2,3) this] show ?thesis
    using assms(1) one_timer_pending_cong by blast
qed


lemma raiseWater_keeps:
  "currentPhase (state_of (raiseWater e s)) = currentPhase s
   \<and> phase_entries (timers (state_of (raiseWater e s))) = phase_entries (timers s)"
  by (simp add: raiseWater_cases requestAnimationFrame_def setTimeout_def)

lemma fl_initiateEvacuation_keeps:
  "currentPhase (fl_initiateEvacuation e s) = currentPhase s
   \<and> phase_entries (timers (fl_initiateEvacuation e s)) = phase_entries (timers s)"
  unfolding fl_initiateEvacuation_def by (rule fold_setTimeout_keeps) simp

lemma startFloodPhase_keeps:
  "currentPhase (state_of (startFloodPhase e s)) = currentPhase s
   \<and> phase_entries (timers (state_of (startFloodPhase e s))) = phase_entries (timers s)"
proof (cases "raiseWater e ((call HideDragDropPanel s)\<lparr>isFlooding := True\<rparr>)")
  case (Done s1)
  then show ?thesis
    using raiseWater_keeps [of e "(call HideDragDropPanel s)\<lparr>isFlooding := True\<rparr>"]
    by (simp add: startFloodPhase_cases fl_initiateEvacuation_keeps identifyFloodRisks_def call_def)
next
  case (Thrown s1)
  then show ?thesis
    using raiseWater_keeps [of e "(call HideDragDropPanel s)\<lparr>isFlooding := True\<rparr>"]
    by (simp add: startFloodPhase_cases call_def)
qed

lemmas fl_handlers = fl_button_def startRescuePhase_def identifyStrandedResidents_def
  enableBoatRescue_def showBoatInterface_def fl_evacuateResident_def residentSheltered_def
  performRescue_def onBoatRescue_def boatLoaded_def boatArrived_def supplyDispatch_def
  supplyDelivered_def onResidentClick_def onSupplyClick_def onBoatClick_def
  fl_showEducationalInfo_def call_def setTimeout_def set_objective_def Let_def

lemma fl_button_keeps:
  "currentPhase (fl_button e a s) = currentPhase s
   \<and> phase_entries (timers (fl_button e a s)) = phase_entries (timers s)"
  using startFloodPhase_keeps [of e s]
  by (cases a) (simp_all add: fl_handlers)

lemma fl_callback_keeps:
  assumes "\<And>i. cb \<noteq> PhaseTimer i"
  shows "currentPhase (fl_run_callback e cb s) = currentPhase s
   \<and> phase_entries (timers (fl_run_callback e cb s)) = phase_entries (timers s)"
proof (cases cb)
  case (PhaseTimer i)
  then show ?thesis using assms by blast
qed (simp_all add: fl_run_callback_def fl_handlers raiseWater_keeps recedeWater_keeps
       split: option.splits)

lemma fl_step_keeps:
  assumes "ev \<noteq> FlReset" and "\<And>swims. ev \<noteq> FlStart swims"
    and "\<And>k i. ev = FlFire k \<Longrightarrow> k < length (timers s) \<Longrightarrow> snd (timers s ! k) \<noteq> PhaseTimer i"
  shows "currentPhase (fl_step e ev s) = currentPhase s
   \<and> phase_entries (timers (fl_step e ev s)) = phase_entries (timers s)"
proof (cases ev)
  case (FlFire k)
  show ?thesis
  proof (cases "k < length (timers s)")
    case True
    then have n: "\<And>i. snd (timers s ! k) \<noteq> PhaseTimer i" using assms(3) FlFire by blast
    show ?thesis
      using fl_callback_keeps [OF n, of e "take_timer k s"] take_timer_other [OF True n] True FlFire
      by (simp add: fl_step_def)
  next
    case False
    then show ?thesis using FlFire by (simp add: fl_step_def)
  qed
next
  case (FlButton a)
  then show ?thesis using fl_button_keeps by (simp add: fl_step_def)
qed (use assms in \<open>simp_all add: fl_step_def fl_handlers split: option.splits prod.splits\<close>)

lemma fl_step_inv:
  assumes "one_timer_pending s" and "ev \<noteq> FlReset" and "\<And>swims. ev \<noteq> FlStart swims"
  shows "one_timer_pending (fl_step e ev s)"
proof (cases "\<exists>k i. ev = FlFire k \<and> k < length (timers s) \<and> snd (timers s ! k) = PhaseTimer i")
  case True
  then obtain k i where ev: "ev = FlFire k" and k: "k < length (timers s)"
    and cb: "snd (timers s ! k) = PhaseTimer i" by blast
  note t = take_timer_phase [OF k cb assms(1)]
  have st: "fl_step e ev s = fl_startPhase e (i + 1) (take_timer k s)"
    using ev k cb t by (simp add: fl_step_def fl_run_callback_def fl_phaseTimer_def)
  show ?thesis
  proof (cases "i + 1 < length fl_phases")
    case True
    then show ?thesis
      using fl_startPhase_in_range [OF True, of e "take_timer k s"] t
      by (simp add: st one_timer_pending_def phaseTimers_def)
  next
    case False
    then have "fl_step e ev s = fl_completeSimulation e (take_timer k s)"
      by (simp add: st fl_startPhase_def)
    then show ?thesis using t
      by (simp add: one_timer_pending_def phaseTimers_def fl_completeSimulation_def call_def Let_def)
  qed
next
  case False
  then have "\<And>k i. ev = FlFire k \<Longrightarrow> k < length (timers s) \<Longrightarrow> snd (timers s ! k) \<noteq> PhaseTimer i"
    by blast
  from fl_step_keeps [OF assms(2,3) this] show ?thesis
    using assms(1) one_timer_pending_cong by blast
qed


subsection \<open>Runs without a reset\<close>

lemma eq_step_phase:
  assumes "one_timer_pending s" and "ev \<noteq> EqReset" and "ev \<noteq> EqStart"
  shows "currentPhase (eq_step e ev s) = currentPhase s
       \<or> currentPhase (eq_step e ev s) = currentPhase s + 1"
proof (cases "\<exists>k i. ev = EqFire k \<and> k < length (timers s) \<and> snd (timers s ! k) = PhaseTimer i")
  case True
  then obtain k i where ev: "ev = EqFire k" and k: "k < length (timers s)"
    and cb: "snd (timers s ! k) = PhaseTimer i" by blast
  note t = take_timer_phase [OF k cb assms(1)]
  have st: "eq_step e ev s = eq_startPhase e (i + 1) (take_timer k s)"
    using ev k cb t by (simp add: eq_step_def eq_run_callback_def eq_phaseTimer_def)
  show ?thesis
  proof (cases "i + 1 < length eq_phases")
    case True
    then show ?thesis
      using eq_startPhase_in_range [OF True, of e "take_timer k s"] t by (simp add: st)
  next
    case False
    then have "eq_step e ev s = eq_completeSimulation e (take_timer k s)"
      by (simp add: st eq_startPhase_def)
    then show ?thesis using t by (simp add: eq_completeSimulation_def call_def Let_def)
  qed
next
  case False
  then have "\<And>k i. ev = EqFire k \<Longrightarrow> k < length (timers s) \<Longrightarrow> snd (timers s ! k) \<noteq> PhaseTimer i"
    by blast
  from eq_step_keeps [OF assms(2,3) this] show ?thesis by simp
qed

lemma ls_step_phase:
  assumes "one_timer_pending s" and "ev \<noteq> LsButton Restart" and "ev \<noteq> LsStart"
  shows "currentPhase (ls_step e ev s) = currentPhase s
       \<or> currentPhase (ls_step e ev s) = currentPhase s + 1"
proof (cases "\<exists>k i. ev = LsFire k \<and> k < length (timers s) \<and> snd (timers s ! k) = PhaseTimer i")
  case True
  then obtain k i where ev: "ev = LsFire k" and k: "k < length (timers s)"
    and cb: "snd (timers s ! k) = PhaseTimer i" by blast
  note t = take_timer_phase [OF k cb assms(1)]
  have st: "ls_step e ev s = ls_startPhase e (i + 1) (take_timer k s)"
    using ev k cb t by (simp add: ls_step_def ls_handle_def ls_run_callback_def ls_phaseTimer_def)
  show ?thesis
  proof (cases "i + 1 < length ls_phases")
    case True
    then show ?thesis
      using ls_startPhase_in_range [OF True, of e "take_timer k s"] t by (simp add: st)
  next
    case False
    then have "ls_step e ev s = ls_completeSimulation e (take_timer k s)"
      by (simp add: st ls_startPhase_def)
    then show ?thesis using t by (simp add: ls_completeSimulation_def call_def Let_def)
  qed
next
  case False
  then have "\<And>k i. ev = LsFire k \<Longrightarrow> k < length (timers s) \<Longrightarrow> snd (timers s ! k) \<noteq> PhaseTimer i"
    by blast
  from ls_step_keeps [OF assms(2,3) this] show ?thesis by simp
qed

lemma fl_step_phase:
  assumes "one_timer_pending s" and "ev \<noteq> FlReset" and "\<And>swims. ev \<noteq> FlStart swims"
  shows "currentPhase (fl_step e ev s) = currentPhase s
       \<or> currentPhase (fl_step e ev s) = currentPhase s + 1"
proof (cases "\<exists>k i. ev = FlFire k \<and> k < length (timers s) \<and> snd (timers s ! k) = PhaseTimer i")
  case True
  then obtain k i where ev: "ev = FlFire k" and k: "k < length (timers s)"
    and cb: "snd (timers s ! k) = PhaseTimer i" by blast
  note t = take_timer_phase [OF k cb assms(1)]
  have st: "fl_step e ev s = fl_startPhase e (i + 1) (take_timer k s)"
    using ev k cb t by (simp add: fl_step_def fl_run_callback_def fl_phaseTimer_def)
  show ?thesis
  proof (cases "i + 1 < length fl_phases")
    case True
    then show ?thesis
      using fl_startPhase_in_range [OF True, of e "take_timer k s"] t by (simp add: st)
  next
    case False
    then have "fl_step e ev s = fl_completeSimulation e (take_timer k s)"
      by (simp add: st fl_startPhase_def)
    then show ?thesis using t by (simp add: fl_completeSimulation_def call_def Let_def)
  qed
next
  case False
  then have "\<And>k i. ev = FlFire k \<Longrightarrow> k < length (timers s) \<Longrightarrow> snd (timers s ! k) \<noteq> PhaseTimer i"
    by blast
  from fl_step_keeps [OF assms(2,3) this] show ?thesis by simp
qed

lemma not_reset_start_eq:
  "\<not> is_reset (EqEvent ev) \<Longrightarrow> \<not> is_start (EqEvent ev) \<Longrightarrow> ev \<noteq> EqReset \<and> ev \<noteq> EqStart"
  by (cases ev) simp_all

lemma not_reset_start_ls:
  "\<not> is_reset (LsEvent ev) \<Longrightarrow> \<not> is_start (LsEvent ev) \<Longrightarrow> ev \<noteq> LsButton Restart \<and> ev \<noteq> LsStart"
  by (cases ev) auto

lemma not_reset_start_fl:
  "\<not> is_reset (FlEvent ev) \<Longrightarrow> \<not> is_start (FlEvent ev) \<Longrightarrow> ev \<noteq> FlReset \<and> (\<forall>swims. ev \<noteq> FlStart swims)"
  by (cases ev) simp_all

lemma step_inv:
  assumes "one_advance_pending m" and "\<not> is_reset ev" and "\<not> is_start ev"
  shows "one_advance_pending (step e ev m)
       \<and> (currentPhaseOf (step e ev m) = currentPhaseOf m
          \<or> currentPhaseOf (step e ev m) = currentPhaseOf m + 1)"
proof (cases m)
  case (Earthquake s)
  show ?thesis
  proof (cases ev)
    case (EqEvent x)
    then show ?thesis
      using assms Earthquake not_reset_start_eq [of x] eq_step_inv [of s x e] eq_step_phase [of s x e]
      by simp
  qed (use assms Earthquake in simp_all)
next
  case (Landslide s)
  show ?thesis
  proof (cases ev)
    case (LsEvent x)
    then show ?thesis
      using assms Landslide not_reset_start_ls [of x] ls_step_inv [of s x e] ls_step_phase [of s x e]
      by simp
  qed (use assms Landslide in simp_all)
next
  case (Flood s)
  show ?thesis
  proof (cases ev)
    case (FlEvent x)
    then show ?thesis
      using assms Flood not_reset_start_fl [of x] fl_step_inv [of s x e] fl_step_phase [of s x e]
      by simp
  qed (use assms Flood in simp_all)
qed

lemma start_inv:
  assumes "constructed m" and "is_start ev"
  shows "one_advance_pending (step e ev m)"
proof (cases m)
  case (Earthquake s)
  have "one_timer_pending (eq_start e EarthquakeSimulation_new)"
    using eq_startPhase_in_range [of 0 e "createClassroomScene (EarthquakeSimulation_new\<lparr>startTime := now e\<rparr>)"]
    by (simp add: eq_start_def eq_showWelcomeInstructions_def one_timer_pending_def phaseTimers_def
        call_def createClassroomScene_def EarthquakeSimulation_new_def eq_phases_def)
  moreover have "one_timer_pending EarthquakeSimulation_new"
    by (simp add: one_timer_pending_def phaseTimers_def EarthquakeSimulation_new_def)
  ultimately show ?thesis using assms Earthquake
    by (cases ev rule: is_start.cases) (simp_all add: eq_step_def)
next
  case (Landslide s)
  have "one_timer_pending (ls_start e LandslideSimulation_new)"
    using ls_startPhase_in_range [of 0 e "createHillsideScene (LandslideSimulation_new\<lparr>startTime := now e\<rparr>)"]
    by (simp add: ls_start_def ls_showWelcomeInstructions_def one_timer_pending_def phaseTimers_def
        call_def createHillsideScene_def LandslideSimulation_new_def ls_phases_def Let_def)
  moreover have "one_timer_pending LandslideSimulation_new"
    by (simp add: one_timer_pending_def phaseTimers_def LandslideSimulation_new_def)
  ultimately show ?thesis using assms Landslide
    by (cases ev rule: is_start.cases) (simp_all add: ls_step_def ls_handle_def)
next
  case (Flood s)
  have "one_timer_pending (fl_start e swims FloodSimulation_new)" for swims
    using fl_startPhase_in_range [of 0 e "createCommunityScene swims (FloodSimulation_new\<lparr>startTime := now e\<rparr>)"]
    by (simp add: fl_start_def fl_showWelcomeInstructions_def one_timer_pending_def phaseTimers_def
        call_def createCommunityScene_def createRescueBoats_def createEvacuationCenters_def
        createEmergencySupplies_def createResidents_def createCommunityBuildings_def
        FloodSimulation_new_def fl_phases_def)
  moreover have "one_timer_pending FloodSimulation_new"
    by (simp add: one_timer_pending_def phaseTimers_def FloodSimulation_new_def)
  ultimately show ?thesis using assms Flood
    by (cases ev rule: is_start.cases) (simp_all add: fl_step_def)
qed

lemma running_inv: "running m \<Longrightarrow> one_advance_pending m"
proof (induction rule: running.induct)
  case (started m ev e)
  then show ?case by (rule start_inv)
next
  case (stepped m ev e)
  then show ?case using step_inv by blast
qed


section \<open>Evaluating the concrete sessions\<close>

lemma upt8: "[0 ..< 8] = [0, 1, 2, 3, 4, 5, 6, 7 :: nat]"
  by (simp add: upt_rec)

lemma upt10: "[0 ..< 10] = [0, 1, 2, 3, 4, 5, 6, 7, 8, 9 :: nat]"
  by (simp add: upt_rec)

lemma replicate8: "replicate 8 x = [x, x, x, x, x, x, x, x]"
  by (simp add: numeral_eq_Suc)

lemma replicate10: "replicate 10 x = [x, x, x, x, x, x, x, x, x, x]"
  by (simp add: numeral_eq_Suc)

lemma show_digit:
  "show_nat 0 = ''0''" "show_nat (Suc 0) = ''1''" "show_nat 2 = ''2''" "show_nat 3 = ''3''"
  "show_nat 4 = ''4''" "show_nat 5 = ''5''" "show_nat 6 = ''6''" "show_nat 7 = ''7''"
  by (simp_all add: show_nat.simps char_of_def bit_0)

lemmas eq_eval = shaking_def eq_step_def eq_start_def eq_showWelcomeInstructions_def
  eq_startPhase_def eq_phases_def Let_def startPreparationPhase_def createClassroomScene_def
  EarthquakeSimulation_new_def call_def setTimeout_def at_ms_def repository_env_def
  take_timer_def eq_run_callback_def eq_phaseTimer_def showEarthquakeInstructions_def
  eq_button_def startEarthquakePhase_def showDropCoverHoldInterface_def eq_totalStudents_def
  upt8 show_digit

lemmas fl_eval = started_flood_def reset_flood_def fl_step_def fl_start_def fl_reset_def
  fl_showWelcomeInstructions_def fl_startPhase_def fl_phases_def Let_def
  fl_startPreparationPhase_def showPreparationInterface_def showEarlyFloodInstructions_def
  createCommunityScene_def createRescueBoats_def createEvacuationCenters_def
  createEmergencySupplies_def createResidents_def createCommunityBuildings_def housePositionY_def
  FloodSimulation_new_def call_def setTimeout_def clear_objectives_def at_ms_def repository_env_def
  take_timer_def fl_run_callback_def fl_phaseTimer_def


lemma startPhase_last_timer:
  assumes "n < length (phasesOf m)"
  shows "timersOf (startPhase e n m) \<noteq> []
       \<and> last (timersOf (startPhase e n m)) = (now e + duration (phasesOf m ! n), PhaseTimer n)"
  using assms
  by (cases m)
     (simp_all add: eq_startPhase_def ls_startPhase_def fl_startPhase_def Let_def setTimeout_def)

lemma fired_phase_timer:
  assumes "k < length (timersOf m)" and "snd (timersOf m ! k) = PhaseTimer n"
  shows "step e (fired k m) m = phaseTimer e n (without_timer k m)"
  using assms
  by (cases m)
     (simp_all add: eq_step_def eq_run_callback_def ls_step_def ls_handle_def ls_run_callback_def
        fl_step_def fl_run_callback_def take_timer_def)

text \<open>
  Claim C3, for each of the three sessions. (1) For a phase index \<open>n\<close> in range,
  \<open>startPhase(n)\<close> sets the current phase to \<open>n\<close> and adds exactly one phase timer,
  due the configured duration of phase \<open>n\<close> after the call and holding \<open>n\<close>; it is the
  last of the pending callbacks. (2) When
  a pending phase timer that holds \<open>n\<close> fires, the session runs the timer's body on
  itself with that timer taken off the list; (3) the body changes nothing when the
  current phase is no longer \<open>n\<close>, and (4) calls \<open>startPhase(n + 1)\<close> when it still is
  \<open>n\<close>. (5) For \<open>n\<close> at or past the length of the phase list, \<open>startPhase(n)\<close> is
  \<open>completeSimulation\<close>: no phase is set and no timer added. (6) In a session run from
  \<open>start\<close> by any events other than a reset or another start, at most one phase timer is
  pending at any moment and it holds the current phase index, and (7) an event leaves the
  phase where it is or moves it up by one: the timer that advances phase \<open>n\<close> is used up
  by firing, no other timer holds \<open>n\<close>, and the phase never returns to \<open>n\<close>, so no phase
  is advanced twice.
\<close>

theorem startPhase_auto_advance:
  "(n < length (phasesOf m) \<longrightarrow>
      currentPhaseOf (startPhase e n m) = n
      \<and> phaseTimersOf (startPhase e n m)
          = phaseTimersOf m @ [(now e + duration (phasesOf m ! n), n)]
      \<and> timersOf (startPhase e n m) \<noteq> []
      \<and> last (timersOf (startPhase e n m)) = (now e + duration (phasesOf m ! n), PhaseTimer n))
   \<and> (k < length (timersOf m) \<and> snd (timersOf m ! k) = PhaseTimer n \<longrightarrow>
        step e (fired k m) m = phaseTimer e n (without_timer k m))
   \<and> (currentPhaseOf m \<noteq> n \<longrightarrow> phaseTimer e n m = m)
   \<and> (currentPhaseOf m = n \<longrightarrow> phaseTimer e n m = startPhase e (n + 1) m)
   \<and> (length (phasesOf m) \<le> n \<longrightarrow>
        startPhase e n m = completeSimulationOf e m
        \<and> currentPhaseOf (startPhase e n m) = currentPhaseOf m
        \<and> phaseTimersOf (startPhase e n m) = phaseTimersOf m)
   \<and> (running m \<longrightarrow> one_advance_pending m)
   \<and> (running m \<and> \<not> is_reset ev \<and> \<not> is_start ev \<longrightarrow>
        currentPhaseOf (step e ev m) = currentPhaseOf m
        \<or> currentPhaseOf (step e ev m) = currentPhaseOf m + 1)"
  using startPhase_in_range [of n m e] startPhase_past_end [of m n e] phaseTimer_cases [of e n m]
    running_inv [of m] step_inv [of m ev e] fired_phase_timer [of k m n e]
    startPhase_last_timer [of n m e]
  by auto


text \<open>Witness for C3: an earthquake session started at time 0, its first phase timer
  firing at 30 seconds; and the flood session that was reset in phase 0 and advanced
  to phase 1 at 60 seconds, when the timer of the reset, which holds 0, fires at 70
  seconds.\<close>

lemma started_earthquake_running: "running started_earthquake"
  unfolding started_earthquake_def by (rule running.started) simp_all

lemma started_earthquake_facts:
  "currentPhaseOf started_earthquake = 0" 
  "phaseTimersOf started_earthquake = [(30000, 0)]"
  "phasesOf started_earthquake = eq_phases"
  "timersOf started_earthquake = [(30000, PhaseTimer 0)]"
  "currentPhaseOf (without_timer 0 started_earthquake) = 0"
  by (simp_all add: started_earthquake_def eq_step_def eq_start_def eq_showWelcomeInstructions_def
      eq_startPhase_def eq_phases_def Let_def startPreparationPhase_def createClassroomScene_def
      EarthquakeSimulation_new_def call_def setTimeout_def phaseTimers_def at_ms_def repository_env_def
      take_timer_def)

lemma stale_advanced_facts:
  "timersOf stale_advanced = [(70000, PhaseTimer 0), (150000, PhaseTimer 1)]"
  "currentPhaseOf (without_timer 0 stale_advanced) = 1"
  by (simp_all add: stale_advanced_def fl_eval)

theorem startPhase_auto_advance_witness:
  "running started_earthquake
   \<and> one_advance_pending started_earthquake
   \<and> currentPhaseOf started_earthquake = 0
   \<and> phaseTimersOf started_earthquake = [(30000, 0)]
   \<and> currentPhaseOf (startPhase (at_ms 30000) 1 started_earthquake) = 1
   \<and> phaseTimersOf (startPhase (at_ms 30000) 1 started_earthquake) = [(30000, 0), (75000, 1)]
   \<and> phaseTimer (at_ms 30000) 1 started_earthquake = started_earthquake
   \<and> phaseTimer (at_ms 30000) 0 started_earthquake = startPhase (at_ms 30000) 1 started_earthquake
   \<and> startPhase (at_ms 225000) 4 started_earthquake = completeSimulationOf (at_ms 225000) started_earthquake
   \<and> currentPhaseOf (step (at_ms 30000) (EqEvent (EqFire 0)) started_earthquake) = 1
   \<and> step (at_ms 30000) (fired 0 started_earthquake) started_earthquake
       = startPhase (at_ms 30000) 1 (without_timer 0 started_earthquake)
   \<and> step (at_ms 70000) (fired 0 stale_advanced) stale_advanced = without_timer 0 stale_advanced"
proof -
  note r = started_earthquake_running
  note f = started_earthquake_facts
  note g = stale_advanced_facts
  have l: "length (phasesOf started_earthquake) = 4" by (simp add: f eq_phases_def)
  have d: "duration (phasesOf started_earthquake ! 1) = 45000" by (simp add: f eq_phases_def)
  have n: "now (at_ms 30000) = 30000" by (simp add: at_ms_def repository_env_def)
  have ev: "\<not> is_reset (EqEvent (EqFire 0))" "\<not> is_start (EqEvent (EqFire 0))" by simp_all
  have s1: "currentPhaseOf (step (at_ms 30000) (EqEvent (EqFire 0)) started_earthquake) = 1"
    by (simp add: started_earthquake_def eq_step_def eq_start_def eq_showWelcomeInstructions_def
      eq_startPhase_def eq_phases_def Let_def startPreparationPhase_def createClassroomScene_def
      EarthquakeSimulation_new_def call_def setTimeout_def at_ms_def repository_env_def
      take_timer_def eq_run_callback_def eq_phaseTimer_def showEarthquakeInstructions_def)
  have a: "running started_earthquake
   \<and> one_advance_pending started_earthquake
   \<and> currentPhaseOf started_earthquake = 0
   \<and> phaseTimersOf started_earthquake = [(30000, 0)]
   \<and> currentPhaseOf (startPhase (at_ms 30000) 1 started_earthquake) = 1
   \<and> phaseTimersOf (startPhase (at_ms 30000) 1 started_earthquake) = [(30000, 0), (75000, 1)]
   \<and> phaseTimer (at_ms 30000) 1 started_earthquake = started_earthquake
   \<and> phaseTimer (at_ms 30000) 0 started_earthquake = startPhase (at_ms 30000) 1 started_earthquake
   \<and> startPhase (at_ms 225000) 4 started_earthquake = completeSimulationOf (at_ms 225000) started_earthquake
   \<and> currentPhaseOf (step (at_ms 30000) (EqEvent (EqFire 0)) started_earthquake) = 1"
    using r f l d n ev s1
      startPhase_auto_advance [of 1 started_earthquake "at_ms 30000" 0 "EqEvent (EqFire 0)"]
      startPhase_auto_advance [of 0 started_earthquake "at_ms 30000" 0 "EqEvent (EqFire 0)"]
      startPhase_auto_advance [of 4 started_earthquake "at_ms 225000" 0 "EqEvent (EqFire 0)"]
    by simp
  have "step (at_ms 30000) (fired 0 started_earthquake) started_earthquake
          = phaseTimer (at_ms 30000) 0 (without_timer 0 started_earthquake)"
    using startPhase_auto_advance [of 0 started_earthquake "at_ms 30000" 0 "EqEvent (EqFire 0)"]
    by (simp add: f)
  moreover have "phaseTimer (at_ms 30000) 0 (without_timer 0 started_earthquake)
          = startPhase (at_ms 30000) 1 (without_timer 0 started_earthquake)"
    using startPhase_auto_advance [of 0 "without_timer 0 started_earthquake" "at_ms 30000" 0
        "EqEvent (EqFire 0)"]
    by (simp add: f)
  ultimately have b: "step (at_ms 30000) (fired 0 started_earthquake) started_earthquake
       = startPhase (at_ms 30000) 1 (without_timer 0 started_earthquake)"
    by simp
  have "step (at_ms 70000) (fired 0 stale_advanced) stale_advanced
          = phaseTimer (at_ms 70000) 0 (without_timer 0 stale_advanced)"
    using startPhase_auto_advance [of 0 stale_advanced "at_ms 70000" 0 "EqEvent (EqFire 0)"]
    by (simp add: g)
  moreover have "phaseTimer (at_ms 70000) 0 (without_timer 0 stale_advanced)
          = without_timer 0 stale_advanced"
    using startPhase_auto_advance [of 0 "without_timer 0 stale_advanced" "at_ms 70000" 0
        "EqEvent (EqFire 0)"]
    by (simp add: g)
  ultimately have c: "step (at_ms 70000) (fired 0 stale_advanced) stale_advanced
       = without_timer 0 stale_advanced"
    by simp
  show ?thesis using a b c by simp
qed

section \<open>Accuracy under mistakes\<close>

text \<open>What touches the accuracy: the constructors and the resets set it to 100, the
  earthquake's \<open>onIncorrectDrop\<close> takes 10 from it and stops at 0. The landslide's
  \<open>checkResidentSafety\<close> and the flood's \<open>checkResidentsInDanger\<close> throw before the
  statements that would change it.\<close>

lemma accuracy_session_ops [simp]:
  "accuracy (setTimeout e cb d s) = accuracy s"
  "accuracy (call c s) = accuracy s"
  "accuracy (set_objective k s) = accuracy s"
  "accuracy (take_timer n s) = accuracy s"
  "accuracy (clear_objectives s) = accuracy s"
  by (simp_all add: setTimeout_def call_def set_objective_def take_timer_def clear_objectives_def)

lemma accuracy_fold_setTimeout:
  "accuracy (fold (\<lambda>i st. if P i then setTimeout e (cb i) (d i) st else st) xs s) = accuracy s"
  by (induction xs arbitrary: s) simp_all


lemma accuracy_showFeedback [simp]: "accuracy (state_of (showFeedback e t s)) = accuracy s"
  by (simp add: showFeedback_def)

subsection \<open>Earthquake\<close>

lemma accuracy_eq_startPhase [simp]: "accuracy (eq_startPhase e n s) = accuracy s"
proof (cases "n < length eq_phases")
  case True
  then have "n = 0 \<or> n = Suc 0 \<or> n = 2 \<or> n = 3" by (simp add: eq_phases_def less4)
  then show ?thesis
    by (elim disjE)
       (simp_all add: eq_startPhase_def eq_phases_def Let_def startPreparationPhase_def
          showEarthquakeInstructions_def startAftermathPhase_def showEvacuationInstructions_def)
next
  case False
  then show ?thesis by (simp add: eq_startPhase_def eq_completeSimulation_def Let_def)
qed



subsection \<open>Landslide\<close>

lemma accuracy_ls_startPhase [simp]: "accuracy (ls_startPhase e n s) = accuracy s"
proof (cases "n < length ls_phases")
  case True
  then have "n = 0 \<or> n = Suc 0 \<or> n = 2 \<or> n = 3" by (simp add: ls_phases_def less4)
  then show ?thesis
    by (elim disjE)
       (simp_all add: ls_startPhase_def ls_phases_def Let_def startWarningSignsPhase_def
          startEarlyWarningPhase_def ls_startEvacuationPhase_def startLandslideEvent_def)
next
  case False
  then show ?thesis by (simp add: ls_startPhase_def ls_completeSimulation_def Let_def)
qed



subsection \<open>Flood\<close>



lemma accuracy_recedeWater [simp]: "accuracy (recedeWater e s) = accuracy s"
  by (simp add: recedeWater_def requestAnimationFrame_def)

lemma accuracy_fl_startPhase [simp]: "accuracy (fl_startPhase e n s) = accuracy s"
proof (cases "n < length fl_phases")
  case True
  then have "n = 0 \<or> n = Suc 0 \<or> n = 2 \<or> n = 3" by (simp add: fl_phases_def less4)
  then show ?thesis
    by (elim disjE)
       (simp_all add: fl_startPhase_def fl_phases_def Let_def fl_startPreparationPhase_def
          showPreparationInterface_def showEarlyFloodInstructions_def showRescueInstructions_def
          startRecoveryPhase_def setupShelterOperations_def distributeSuppliesToShelters_def
          accuracy_fold_setTimeout)
next
  case False
  then show ?thesis by (simp add: fl_startPhase_def fl_completeSimulation_def Let_def)
qed


subsection \<open>All sessions\<close>







section \<open>Drops on the panel\<close>



lemma of_char_digit_char: "d < 10 \<Longrightarrow> (of_char (digit_char d) :: nat) = 48 + d"
  by simp



















section \<open>Flags that are set stay set\<close>




lemma flags_stay_iff:
  "flags_stay xs ys \<longleftrightarrow> (\<forall>i < length xs. xs ! i \<longrightarrow> i < length ys \<and> ys ! i)"
  by (auto simp: flags_stay_def list_all_iff)

lemma objectives_stay_iff:
  "objectives_stay os os' \<longleftrightarrow> (\<forall>k. map_of os k = Some True \<longrightarrow> map_of os' k = Some True)"
proof -
  have "k \<in> fst ` set os" if "map_of os k = Some True" for k
    using that by (metis domI dom_map_of_conv_image_fst)
  then show ?thesis by (auto simp: objectives_stay_def list_all_iff)
qed

lemma flags_stay_refl [simp]: "flags_stay xs xs"
  by (simp add: flags_stay_iff)

lemma flags_stay_trans: "flags_stay xs ys \<Longrightarrow> flags_stay ys zs \<Longrightarrow> flags_stay xs zs"
  by (auto simp: flags_stay_iff)

lemma objectives_stay_refl [simp]: "objectives_stay os os"
  by (simp add: objectives_stay_iff)

lemma objectives_stay_trans:
  "objectives_stay os os' \<Longrightarrow> objectives_stay os' os'' \<Longrightarrow> objectives_stay os os''"
  by (simp add: objectives_stay_iff)

lemma objectives_stay_update [simp]: "objectives_stay os (AList.update k True os)"
  by (simp add: objectives_stay_iff AList.update_conv')

lemma flags_stay_append [simp]: "flags_stay xs (xs @ ys)"
  by (simp add: flags_stay_iff nth_append)

lemma flags_stay_update:
  assumes "f (xs ! i) \<longrightarrow> f y"
  shows "flags_stay (map f xs) (map f (xs[i := y]))"
proof (cases "i < length xs")
  case True
  then show ?thesis using assms by (auto simp: flags_stay_iff nth_list_update)
next
  case False
  then have "xs[i := y] = xs" by (intro list_update_beyond) simp
  then show ?thesis by simp
qed

lemma flags_stay_map:
  assumes "\<And>x. f x \<Longrightarrow> f (g x)"
  shows "flags_stay (map f xs) (map (f \<circ> g) xs)"
  using assms by (auto simp: flags_stay_iff)

lemma status_stays_refl [simp]: "status_stays m m"
  by (cases m) simp_all

lemma status_stays_trans: "status_stays m m' \<Longrightarrow> status_stays m' m'' \<Longrightarrow> status_stays m m''"
  by (cases m; cases m'; cases m'')
     (auto intro: flags_stay_trans objectives_stay_trans)

subsection \<open>Earthquake\<close>

lemma eq_fold_setTimeout_same:
  "objectives (fold (\<lambda>i. setTimeout e (cb i) (d i)) xs s) = objectives s
   \<and> students (fold (\<lambda>i. setTimeout e (cb i) (d i)) xs (s :: EarthquakeSimulation)) = students s"
  by (induction xs arbitrary: s) (simp_all add: setTimeout_def)


lemmas stay_simps = flags_stay_update flags_stay_map objectives_stay_trans [OF objectives_stay_update objectives_stay_update]

lemma eq_startPhase_stays:
  "status_stays (Earthquake s) (Earthquake (eq_startPhase e n s))"
proof (cases "n < length eq_phases")
  case True
  then have "n = 0 \<or> n = Suc 0 \<or> n = 2 \<or> n = 3" by (simp add: eq_phases_def less4)
  then show ?thesis
    by (elim disjE)
       (simp_all add: eq_startPhase_def eq_phases_def Let_def startPreparationPhase_def
          showEarthquakeInstructions_def startAftermathPhase_def showEvacuationInstructions_def
          call_def setTimeout_def)
next
  case False
  then show ?thesis by (simp add: eq_startPhase_def eq_completeSimulation_def call_def Let_def)
qed

lemma eq_callback_stays:
  "status_stays (Earthquake s) (Earthquake (eq_run_callback e cb s))"
proof (cases cb)
  case (PhaseTimer i)
  then show ?thesis using eq_startPhase_stays [of s e "i + 1"]
    by (simp add: eq_run_callback_def eq_phaseTimer_def)
qed (simp_all add: eq_run_callback_def eq_handlers stay_simps)

lemma eq_button_stays:
  "status_stays (Earthquake s) (Earthquake (eq_button e a s))"
  using eq_fold_setTimeout_same [of e EvacuateIfNeeded "\<lambda>index. of_nat index * 2000" _ "call HideInstructionsCall s"]
  by (cases a) (simp_all add: eq_handlers eq_initiateEvacuation_def)

lemma take_timer_stays_eq: "status_stays (Earthquake s) (Earthquake (take_timer k s))"
  by (simp add: take_timer_def)

lemma eq_start_stays: "status_stays (Earthquake s) (Earthquake (eq_start e s))"
proof -
  have "status_stays (Earthquake s) (Earthquake (createClassroomScene (s\<lparr>startTime := now e\<rparr>)))"
    by (simp add: createClassroomScene_def)
  from status_stays_trans [OF this eq_startPhase_stays]
  show ?thesis by (simp add: eq_start_def eq_showWelcomeInstructions_def call_def)
qed

lemma eq_step_stays:
  assumes "ev \<noteq> EqReset"
  shows "status_stays (Earthquake s) (Earthquake (eq_step e ev s))"
proof (cases ev)
  case EqStart
  then show ?thesis using eq_start_stays by (simp add: eq_step_def)
next
  case (EqFire k)
  then show ?thesis
    using status_stays_trans [OF take_timer_stays_eq eq_callback_stays]
    by (simp add: eq_step_def)
next
  case (EqButton a)
  then show ?thesis using eq_button_stays by (simp add: eq_step_def)
qed (use assms in \<open>simp_all add: eq_step_def eq_handlers stay_simps split: option.splits prod.splits\<close>)


subsection \<open>Landslide\<close>

lemma ls_startPhase_stays:
  "status_stays (Landslide s) (Landslide (ls_startPhase e n s))"
proof (cases "n < length ls_phases")
  case True
  then have "n = 0 \<or> n = Suc 0 \<or> n = 2 \<or> n = 3" by (simp add: ls_phases_def less4)
  then show ?thesis
    by (elim disjE)
       (simp_all add: ls_startPhase_def ls_phases_def Let_def startWarningSignsPhase_def
          startEarlyWarningPhase_def ls_startEvacuationPhase_def startLandslideEvent_def
          call_def setTimeout_def)
next
  case False
  then show ?thesis by (simp add: ls_startPhase_def ls_completeSimulation_def call_def Let_def)
qed

lemma checkResidentSafety_stays:
  "status_stays (Landslide s) (Landslide (state_of (checkResidentSafety s)))"
  by (simp add: set_objective_def)

lemma activateWarningSystem_stays:
  "status_stays (Landslide s) (Landslide (state_of (activateWarningSystem e s)))"
  by (simp add: ls_handlers)

lemma ls_callback_stays:
  "status_stays (Landslide s) (Landslide (state_of (ls_run_callback e cb s)))"
proof (cases cb)
  case (PhaseTimer i)
  then show ?thesis using ls_startPhase_stays [of s e "i + 1"]
    by (simp add: ls_run_callback_def ls_phaseTimer_def)
next
  case AutoActivateWarning
  then show ?thesis using activateWarningSystem_stays by (simp add: ls_run_callback_def)
qed (simp_all add: ls_run_callback_def)

lemma ls_button_stays:
  assumes "a \<noteq> Restart"
  shows "status_stays (Landslide s) (Landslide (state_of (ls_button e a s)))"
  using assms checkResidentSafety_stays [of "call HideInstructionsCall s"]
  by (cases a) (simp_all add: ls_handlers)

lemma take_timer_stays_ls: "status_stays (Landslide s) (Landslide (take_timer k s))"
  by (simp add: take_timer_def)

lemma ls_start_stays: "status_stays (Landslide s) (Landslide (ls_start e s))"
proof -
  have "status_stays (Landslide s) (Landslide (createHillsideScene (s\<lparr>startTime := now e\<rparr>)))"
    by (simp add: createHillsideScene_def)
  from status_stays_trans [OF this ls_startPhase_stays]
  show ?thesis by (simp add: ls_start_def ls_showWelcomeInstructions_def call_def)
qed

lemma onWarningSignClick_stays:
  "status_stays (Landslide s) (Landslide (state_of (onWarningSignClick e i s)))"
  by (simp add: ls_handlers stay_simps)

lemma ls_evacuateResident_stays:
  "status_stays (Landslide s) (Landslide (state_of (ls_evacuateResident e i s)))"
  by (simp add: ls_handlers stay_simps split: option.split)

lemma ls_step_stays:
  assumes "ev \<noteq> LsButton Restart"
  shows "status_stays (Landslide s) (Landslide (ls_step e ev s))"
proof (cases ev)
  case LsStart
  then show ?thesis using ls_start_stays by (simp add: ls_step_def ls_handle_def)
next
  case (LsFire k)
  then show ?thesis
    using status_stays_trans [OF take_timer_stays_ls ls_callback_stays]
    by (simp add: ls_step_def ls_handle_def)
next
  case (LsButton a)
  then show ?thesis using assms ls_button_stays by (simp add: ls_step_def ls_handle_def)
next
  case (LsWarningSignClick i)
  then show ?thesis using onWarningSignClick_stays by (simp add: ls_step_def ls_handle_def)
next
  case LsWarningSystemClick
  then show ?thesis using activateWarningSystem_stays by (simp add: ls_step_def ls_handle_def)
next
  case (LsResidentClick i)
  then show ?thesis using ls_evacuateResident_stays by (simp add: ls_step_def ls_handle_def)
qed (simp_all add: ls_step_def ls_handle_def ls_handlers)


subsection \<open>Flood\<close>

lemma fl_fold_timers_same:
  fixes s :: FloodSimulation
  shows "objectives (fold (\<lambda>i st. if P i then setTimeout e (cb i) (d i) st else st) xs s) = objectives s
   \<and> residents (fold (\<lambda>i st. if P i then setTimeout e (cb i) (d i) st else st) xs s) = residents s
   \<and> emergencySupplies (fold (\<lambda>i st. if P i then setTimeout e (cb i) (d i) st else st) xs s)
       = emergencySupplies s"
  by (induction xs arbitrary: s) (simp_all add: setTimeout_def)

lemma distributeSuppliesToShelters_stays:
  "status_stays (Flood s) (Flood (distributeSuppliesToShelters e s))"
  unfolding distributeSuppliesToShelters_def
  using fl_fold_timers_same [of "\<lambda>index. \<not> collected (emergencySupplies s ! index)" e
      SupplyDispatch "\<lambda>index. of_nat index * 1000" _ s]
  by simp

lemma fl_initiateEvacuation_stays:
  "status_stays (Flood s) (Flood (fl_initiateEvacuation e s))"
  unfolding fl_initiateEvacuation_def
  using fl_fold_timers_same [of "\<lambda>index. houseRisk (residents s ! index) = ''high''" e
      StaggeredEvacuation "\<lambda>index. of_nat index * 2000" _ s]
  by simp

lemma recedeWater_stays: "status_stays (Flood s) (Flood (recedeWater e s))"
  by (simp add: recedeWater_def requestAnimationFrame_def setTimeout_def)

lemma startRecoveryPhase_stays: "status_stays (Flood s) (Flood (startRecoveryPhase e s))"
proof -
  let ?s1 = "call (ShowInstructions ''Phase 4: Recovery and Shelter'' [(''Begin Recovery'', HideInstructions)]) s"
  have a: "status_stays (Flood s) (Flood ?s1)" by (simp add: call_def)
  have b: "status_stays (Flood (distributeSuppliesToShelters e ?s1)) (Flood (setupShelterOperations e ?s1))"
    by (simp add: setupShelterOperations_def set_objective_def Let_def)
  show ?thesis unfolding startRecoveryPhase_def
    by (rule status_stays_trans [OF a status_stays_trans [OF distributeSuppliesToShelters_stays
          status_stays_trans [OF b recedeWater_stays]]])
qed

lemma fl_startPhase_stays:
  "status_stays (Flood s) (Flood (fl_startPhase e n s))"
proof (cases "n < length fl_phases")
  case True
  then have "n = 0 \<or> n = Suc 0 \<or> n = 2 \<or> n = 3" by (simp add: fl_phases_def less4)
  moreover have "status_stays (Flood s) (Flood (fl_startPhase e 3 s))"
  proof -
    let ?s2 = "call (UpdateProgress (3 / 4 * 100)) (s\<lparr>currentPhase := 3\<rparr>)"
    have a: "status_stays (Flood s) (Flood ?s2)" by (simp add: call_def)
    have b: "status_stays (Flood (startRecoveryPhase e ?s2))
               (Flood (setTimeout e (PhaseTimer 3) 90000 (startRecoveryPhase e ?s2)))"
      by (simp add: setTimeout_def)
    have "fl_startPhase e 3 s = setTimeout e (PhaseTimer 3) 90000 (startRecoveryPhase e ?s2)"
      by (simp add: fl_startPhase_def fl_phases_def Let_def)
    then show ?thesis
      using status_stays_trans [OF a status_stays_trans [OF startRecoveryPhase_stays b]] by simp
  qed
  ultimately show ?thesis
    by (elim disjE)
       (simp_all add: fl_startPhase_def fl_phases_def Let_def fl_startPreparationPhase_def
          showPreparationInterface_def showEarlyFloodInstructions_def showRescueInstructions_def
          call_def setTimeout_def)
next
  case False
  then show ?thesis by (simp add: fl_startPhase_def fl_completeSimulation_def call_def Let_def)
qed

lemma raiseWater_stays: "status_stays (Flood s) (Flood (state_of (raiseWater e s)))"
  by (simp add: raiseWater_cases requestAnimationFrame_def setTimeout_def)

lemma startFloodPhase_stays: "status_stays (Flood s) (Flood (state_of (startFloodPhase e s)))"
proof -
  let ?s0 = "(call HideDragDropPanel s)\<lparr>isFlooding := True\<rparr>"
  have a: "status_stays (Flood s) (Flood ?s0)" by (simp add: call_def)
  have b: "status_stays (Flood ?s0) (Flood (state_of (raiseWater e ?s0)))"
    by (rule raiseWater_stays)
  show ?thesis
  proof (cases "raiseWater e ?s0")
    case (Thrown s1)
    then show ?thesis using status_stays_trans [OF a b] by (simp add: startFloodPhase_cases)
  next
    case (Done s1)
    have c: "status_stays (Flood s1) (Flood (identifyFloodRisks s1))"
      by (simp add: identifyFloodRisks_def)
    have "status_stays (Flood s) (Flood s1)" using status_stays_trans [OF a b] Done by simp
    from status_stays_trans [OF this status_stays_trans [OF c fl_initiateEvacuation_stays]]
    show ?thesis using Done by (simp add: startFloodPhase_cases)
  qed
qed

lemma startRescuePhase_stays: "status_stays (Flood s) (Flood (startRescuePhase s))"
  by (simp add: startRescuePhase_def identifyStrandedResidents_def enableBoatRescue_def
      showBoatInterface_def call_def Let_def stay_simps)

lemma residentSheltered_stays: "status_stays (Flood s) (Flood (residentSheltered i c s))"
  by (simp add: residentSheltered_def call_def set_objective_def Let_def stay_simps)

lemma boatArrived_stays: "status_stays (Flood s) (Flood (boatArrived r b s))"
  by (simp add: boatArrived_def call_def set_objective_def Let_def stay_simps)

lemma supplyDelivered_stays: "status_stays (Flood s) (Flood (supplyDelivered i c s))"
  by (simp add: supplyDelivered_def call_def set_objective_def Let_def stay_simps)

lemma fl_evacuateResident_stays: "status_stays (Flood s) (Flood (fl_evacuateResident e i s))"
  by (simp add: fl_evacuateResident_def setTimeout_def split: option.split)

lemma onSupplyClick_stays: "status_stays (Flood s) (Flood (onSupplyClick e i s))"
  by (simp add: onSupplyClick_def fl_showEducationalInfo_def call_def Let_def stay_simps
      split: option.split)

lemma fl_setTimeout_stays: "status_stays (Flood s) (Flood (setTimeout e cb d s))"
  by (simp add: setTimeout_def)

lemma fl_call_stays: "status_stays (Flood s) (Flood (call c s))"
  by (simp add: call_def)

lemma fl_callback_stays: "status_stays (Flood s) (Flood (fl_run_callback e cb s))"
proof (cases cb)
  case (PhaseTimer i)
  then show ?thesis using fl_startPhase_stays [of s e "i + 1"]
    by (simp add: fl_run_callback_def fl_phaseTimer_def)
qed (simp_all add: fl_run_callback_def fl_evacuateResident_stays residentSheltered_stays
      boatArrived_stays supplyDelivered_stays raiseWater_stays recedeWater_stays
      boatLoaded_def supplyDispatch_def fl_setTimeout_stays del: status_stays.simps
      split: option.split)

lemma fl_button_stays: "status_stays (Flood s) (Flood (fl_button e a s))"
  by (cases a)
     (simp_all add: fl_button_def startFloodPhase_stays startRescuePhase_stays fl_call_stays
        del: status_stays.simps)

lemma take_timer_stays_fl: "status_stays (Flood s) (Flood (take_timer k s))"
  by (simp add: take_timer_def)

lemma fl_start_stays: "status_stays (Flood s) (Flood (fl_start e swims s))"
proof -
  have "status_stays (Flood s) (Flood (createCommunityScene swims (s\<lparr>startTime := now e\<rparr>)))"
    by (simp add: createCommunityScene_def createRescueBoats_def createEvacuationCenters_def
        createEmergencySupplies_def createResidents_def createCommunityBuildings_def)
  from status_stays_trans [OF this fl_startPhase_stays]
  show ?thesis by (simp add: fl_start_def fl_showWelcomeInstructions_def call_def)
qed

lemma fl_step_stays:
  assumes "ev \<noteq> FlReset"
  shows "status_stays (Flood s) (Flood (fl_step e ev s))"
proof (cases ev)
  case (FlStart swims)
  then show ?thesis using fl_start_stays by (simp add: fl_step_def)
next
  case (FlFire k)
  then show ?thesis
    using status_stays_trans [OF take_timer_stays_fl fl_callback_stays]
    by (simp add: fl_step_def)
next
  case (FlButton a)
  then show ?thesis using fl_button_stays by (simp add: fl_step_def)
next
  case (FlResidentClick i)
  then show ?thesis using fl_evacuateResident_stays
    by (simp add: fl_step_def onResidentClick_def fl_showEducationalInfo_def call_def)
next
  case (FlSupplyClick i)
  then show ?thesis using onSupplyClick_stays by (simp add: fl_step_def)
qed (use assms in \<open>simp_all add: fl_step_def fl_handlers stay_simps split: option.splits prod.splits\<close>)

subsection \<open>All sessions\<close>

lemma step_stays:
  assumes "\<not> is_reset ev"
  shows "status_stays m (step e ev m)"
proof (cases m)
  case (Earthquake s)
  show ?thesis
  proof (cases ev)
    case (EqEvent x)
    then show ?thesis using assms Earthquake eq_step_stays [of x s e] by (cases x) simp_all
  qed (simp_all add: Earthquake)
next
  case (Landslide s)
  show ?thesis
  proof (cases ev)
    case (LsEvent x)
    then have "x \<noteq> LsButton Restart" using assms by auto
    then show ?thesis using LsEvent Landslide ls_step_stays [of x s e] by simp
  qed (simp_all add: Landslide)
next
  case (Flood s)
  show ?thesis
  proof (cases ev)
    case (FlEvent x)
    then show ?thesis using assms Flood fl_step_stays [of x s e] by (cases x) simp_all
  qed (simp_all add: Flood)
qed

lemma run_stays:
  assumes "\<forall>x \<in> set evs. \<not> is_reset (snd x)"
  shows "status_stays m (run evs m)"
  using assms
proof (induction evs arbitrary: m)
  case Nil
  show ?case by simp
next
  case (Cons x evs)
  obtain e ev where x: "x = (e, ev)" by (cases x)
  have "status_stays m (step e ev m)" using Cons.prems x by (simp add: step_stays)
  moreover have "status_stays (step e ev m) (run evs (step e ev m))"
    using Cons.prems by (intro Cons.IH) simp
  ultimately show ?case using x status_stays_trans by simp
qed


text \<open>
  Claim C5. In a session of any of the three modules, in any state, an event other than
  an explicit reset (\<open>reset\<close> of the earthquake and the flood session, \<open>restart\<close> of the
  landslide session) leaves true every objective flag and every status flag that is
  true (\<open>safe\<close> and \<open>evacuated\<close> of a student, \<open>evacuated\<close> of a hillside resident,
  \<open>identified\<close> of a warning sign, \<open>rescued\<close>, \<open>inShelter\<close>, \<open>needsRescue\<close> and \<open>stranded\<close>
  of a flood resident, \<open>collected\<close> of a supply), and so does every run of such events.
  The events are the calls of the host, the clicks, the drops and every pending callback
  firing.
\<close>

theorem status_flags_stay_until_reset:
  "(\<not> is_reset ev \<longrightarrow> status_stays m (step e ev m))
   \<and> ((\<forall>x \<in> set evs. \<not> is_reset (snd x)) \<longrightarrow> status_stays m (run evs m))"
  using step_stays [of ev m e] run_stays [of evs m] by blast

text \<open>Witness for C5: an earthquake session in which the first student is safe and
  \<open>checkInjuries\<close> is set, run on through a rejected drop, a phase timer and a click.\<close>

theorem status_flags_stay_until_reset_witness:
  "status_stays drilled (run after_drill drilled)
   \<and> (case drilled of
         Earthquake s \<Rightarrow> safe (students s ! 0) \<and> map_of (objectives s) ''checkInjuries'' = Some True
       | _ \<Rightarrow> False)
   \<and> (case run after_drill drilled of
         Earthquake s \<Rightarrow> safe (students s ! 0) \<and> map_of (objectives s) ''checkInjuries'' = Some True
                          \<and> mistakes s = 1 \<and> currentPhase s = 2
       | _ \<Rightarrow> False)"
proof -
  have "\<forall>x \<in> set after_drill. \<not> is_reset (snd x)" by (simp add: after_drill_def)
  then have "status_stays drilled (run after_drill drilled)"
    using status_flags_stay_until_reset [of _ drilled _ after_drill] by blast
  moreover have "case drilled of
         Earthquake s \<Rightarrow> safe (students s ! 0) \<and> map_of (objectives s) ''checkInjuries'' = Some True
       | _ \<Rightarrow> False"
    by (simp add: drilled_def eq_eval replicate8 onCorrectDrop_def index_of_id_def parseInt_def
        is_whitespace_def digit_value_def element_at_def eq_onEmergencyKitInteract_def
        eq_showEducationalInfo_def set_objective_def)
  moreover have "case run after_drill drilled of
         Earthquake s \<Rightarrow> safe (students s ! 0) \<and> map_of (objectives s) ''checkInjuries'' = Some True
                          \<and> mistakes s = 1 \<and> currentPhase s = 2
       | _ \<Rightarrow> False"
    by (simp add: drilled_def after_drill_def eq_eval replicate8 onCorrectDrop_def index_of_id_def
        parseInt_def is_whitespace_def digit_value_def element_at_def eq_onEmergencyKitInteract_def
        eq_showEducationalInfo_def set_objective_def onIncorrectDrop_def eq_maxMistakes_def
        startAftermathPhase_def onDeskClick_def)
  ultimately show ?thesis by simp
qed

section \<open>Badges awarded on completion\<close>

lemma badge_id_is_key: "getBadgeForDisaster d = Some b \<Longrightarrow> badge_id b = d"
  by (auto simp: getBadgeForDisaster_def BadgeSystem_badges_def split: if_splits)

lemma completeSimulation_Done:
  assumes "getBadgeForDisaster (r_disaster res) = Some b"
  shows "completeSimulation ts res pd = Done (state_of (completeSimulation ts res pd))"
  using assms by (simp add: completeSimulation_def Let_def)

lemma badges_completeSimulation:
  assumes "getBadgeForDisaster (r_disaster res) = Some b"
  shows "badges (state_of (completeSimulation ts res pd)) =
           (let bs = (if r_disaster res \<in> set (badges pd) then badges pd
                      else badges pd @ [r_disaster res])
            in if allDisasters_completed (state_of (completeSimulation ts res pd))
                  \<and> ''master'' \<notin> set bs then bs @ [''master''] else bs)"
proof -
  have id: "badge_id b = r_disaster res" using assms by (rule badge_id_is_key)
  show ?thesis
    unfolding allDisasters_completed_def completedSimulations_completeSimulation
    using assms id by (simp add: completeSimulation_def Let_def)
qed

lemma allDisasters_completed_indep:
  "allDisasters_completed (state_of (completeSimulation ts res pd))
     = allDisasters_completed (state_of (completeSimulation ts'
          (res\<lparr>r_score := sc, r_timeBonus := tb, r_accuracy := ac\<rparr>) pd))"
  unfolding allDisasters_completed_def completedSimulations_completeSimulation
  by (simp add: AList.update_conv')

text \<open>
  Claim C6, as amended. On a completion result whose disaster has a badge, the controller
  returns normally; the earned list becomes the old list with the disaster's own badge id
  appended unless it is already there, and then \<open>master\<close> appended when all three
  disasters have a completion entry and \<open>master\<close> is not there yet. What is appended is
  new, so a list without duplicates stays without duplicates. No requirement predicate
  is consulted: the earned list does not depend on the reported score, time bonus or
  accuracy.
\<close>

theorem completeSimulation_awards_by_disaster:
  assumes "getBadgeForDisaster (r_disaster res) = Some b"
  shows "completeSimulation ts res pd = Done (state_of (completeSimulation ts res pd))
    \<and> set (badges (state_of (completeSimulation ts res pd)))
        = set (badges pd) \<union> {r_disaster res}
            \<union> (if allDisasters_completed (state_of (completeSimulation ts res pd))
               then {''master''} else {})
    \<and> (\<exists>new. badges (state_of (completeSimulation ts res pd)) = badges pd @ new
              \<and> distinct new \<and> set new \<inter> set (badges pd) = {})
    \<and> (distinct (badges pd) \<longrightarrow> distinct (badges (state_of (completeSimulation ts res pd))))
    \<and> badges (state_of (completeSimulation ts res pd))
        = badges (state_of (completeSimulation ts' (res\<lparr>r_score := sc, r_timeBonus := tb, r_accuracy := ac\<rparr>) pd))"
proof -
  note b = badges_completeSimulation [OF assms]
  have b': "getBadgeForDisaster (r_disaster (res\<lparr>r_score := sc, r_timeBonus := tb, r_accuracy := ac\<rparr>)) = Some b"
    using assms by simp
  have 1: "set (badges (state_of (completeSimulation ts res pd)))
        = set (badges pd) \<union> {r_disaster res}
            \<union> (if allDisasters_completed (state_of (completeSimulation ts res pd))
               then {''master''} else {})"
    by (subst b) (auto simp: Let_def)
  have 2: "\<exists>new. badges (state_of (completeSimulation ts res pd)) = badges pd @ new
              \<and> distinct new \<and> set new \<inter> set (badges pd) = {}"
    by (subst b) (auto simp: Let_def)
  have 3: "distinct (badges pd) \<longrightarrow> distinct (badges (state_of (completeSimulation ts res pd)))"
    by (subst b) (auto simp: Let_def)
  have 4: "badges (state_of (completeSimulation ts res pd))
        = badges (state_of (completeSimulation ts' (res\<lparr>r_score := sc, r_timeBonus := tb, r_accuracy := ac\<rparr>) pd))"
  proof -
    have e: "allDisasters_completed (state_of (completeSimulation ts res pd))
        = allDisasters_completed (state_of (completeSimulation ts' (res\<lparr>r_score := sc, r_timeBonus := tb, r_accuracy := ac\<rparr>) pd))"
      by (rule allDisasters_completed_indep)
    show ?thesis
      by (subst b, subst badges_completeSimulation [OF b'], subst e) simp
  qed
  show ?thesis using completeSimulation_Done [OF assms] 1 2 3 4 by blast
qed

text \<open>Witness for C6: the first completion of an earthquake session.\<close>

theorem completeSimulation_awards_by_disaster_witness:
  "getBadgeForDisaster (r_disaster slow_earthquake_results) \<noteq> None
   \<and> badges (state_of (completeSimulation ''2026-01-01T00:00:00.000Z'' slow_earthquake_results initialPlayerData)) = [''earthquake'']
   \<and> set (badges (state_of (completeSimulation ''2026-01-01T00:00:00.000Z'' slow_earthquake_results initialPlayerData)))
        = set (badges initialPlayerData) \<union> {''earthquake''}"
proof -
  obtain b where h: "getBadgeForDisaster (r_disaster slow_earthquake_results) = Some b"
    by (simp add: getBadgeForDisaster_def BadgeSystem_badges_def slow_earthquake_results_def)
  have r: "r_disaster slow_earthquake_results = ''earthquake''"
    by (simp add: slow_earthquake_results_def)
  have "badges (state_of (completeSimulation ''2026-01-01T00:00:00.000Z'' slow_earthquake_results initialPlayerData)) = [''earthquake'']"
    by (simp add: completeSimulation_def Let_def getBadgeForDisaster_def BadgeSystem_badges_def
        initialPlayerData_def slow_earthquake_results_def)
  then show ?thesis using h r completeSimulation_awards_by_disaster [OF h, of "''2026-01-01T00:00:00.000Z''" initialPlayerData]
    by simp
qed

text \<open>
  Counterexample to C6 as stated. After a slow earthquake session (score 250) the
  controller has awarded \<open>earthquake\<close> although \<open>checkBadgeRequirements\<close> rejects it
  (the minimum score is 500), and it has not awarded \<open>perfectionist\<close> although its
  requirement (an entry with accuracy 100) is now satisfied.
\<close>

theorem completeSimulation_badges_ignore_requirements:
  "''earthquake'' \<in> set (badges (state_of (completeSimulation ''2026-01-01T00:00:00.000Z'' slow_earthquake_results initialPlayerData)))
   \<and> \<not> checkBadgeRequirements ''earthquake'' (state_of (completeSimulation ''2026-01-01T00:00:00.000Z'' slow_earthquake_results initialPlayerData))
   \<and> checkBadgeRequirements ''perfectionist'' (state_of (completeSimulation ''2026-01-01T00:00:00.000Z'' slow_earthquake_results initialPlayerData))
   \<and> ''perfectionist'' \<notin> set (badges (state_of (completeSimulation ''2026-01-01T00:00:00.000Z'' slow_earthquake_results initialPlayerData)))"
  by (simp add: completeSimulation_def Let_def getBadgeForDisaster_def BadgeSystem_badges_def
      initialPlayerData_def slow_earthquake_results_def checkBadgeRequirements_def
      checkRequirements_def completeSimulation_fails_def completeAll_fails_def
      totalScore_fails_def completeAnyIn_fails_def perfectAccuracy_fails_def
      no_requirements_def)


section \<open>What a session reports on completion\<close>

lemma offered_last [simp]: "offered (cs @ [ShowInstructions t a]) = a"
  by (simp add: offered_def)

lemma offered_last2 [simp]: "offered (cs @ [c, ShowInstructions t a]) = a"
  using offered_last [of "cs @ [c]" t a] by simp

text \<open>
  Claim C7 fails on the code for the landslide session. Its completion screen offers two
  buttons, a restart and the main menu, and a click on either leaves the player data as
  it is: the landslide session computes no time bonus and never calls the controller's
  \<open>completeSimulation\<close>. The earthquake and the flood session offer \<open>View Results\<close>,
  which reports the disaster, the total as score, the time bonus and the accuracy, and
  the controller then updates the player data by \<open>completeSimulation\<close>.
\<close>

theorem landslide_completion_reports_nothing:
  "offered (ui (ls_completeSimulation e s))
     = [(''Restart Simulation'', Restart), (''Main Menu'', ReturnToMenu)]
   \<and> playerData (click e' ts Restart g) = playerData g
   \<and> playerData (click e' ts ReturnToMenu g) = playerData g
   \<and> offered (ui (eq_completeSimulation e q))
     = [(''View Results'',
         ReportResults \<lparr>r_disaster = ''earthquake'', r_score = eq_total (eq_calculateFinalScore e q),
                        r_timeBonus = eq_timeBonus (eq_calculateFinalScore e q),
                        r_accuracy = accuracy q\<rparr>)]
   \<and> offered (ui (fl_completeSimulation e f))
     = [(''View Results'',
         ReportResults \<lparr>r_disaster = ''flood'', r_score = fl_total (fl_calculateFinalScore e f),
                        r_timeBonus = fl_timeBonus (fl_calculateFinalScore e f),
                        r_accuracy = accuracy f\<rparr>)]
   \<and> playerData (click e' ts (ReportResults res) g)
     = state_of (completeSimulation ts res (playerData g))"
  by (simp add: ls_completeSimulation_def eq_completeSimulation_def fl_completeSimulation_def
      call_def click_def Let_def eq_calculateFinalScore_def fl_calculateFinalScore_def)


section \<open>A phase timer that fires after a reset\<close>

text \<open>
  Claim C8 fails on the code. A flood session is started at time 0, which sets the timer
  of phase 0, due at 60 seconds. The player resets the session at 10 seconds: the
  current phase is 0 again, the old timer is still pending and a second one is due at
  70 seconds. When the old timer fires at 60 seconds, the index it captured, 0, equals
  the current one, so it advances the session to phase 1, fifty seconds into a phase
  configured to last sixty.
\<close>

theorem stale_timer_advances_after_reset:
  "currentPhase started_flood = 0
   \<and> timers started_flood = [(60000, PhaseTimer 0)]
   \<and> currentPhase reset_flood = 0
   \<and> timers reset_flood = [(60000, PhaseTimer 0), (70000, PhaseTimer 0)]
   \<and> currentPhase (fl_step (at_ms 60000) (FlFire 0) reset_flood) = 1
   \<and> timers (fl_step (at_ms 60000) (FlFire 0) reset_flood)
       = [(70000, PhaseTimer 0), (150000, PhaseTimer 1)]"
  by (simp add: fl_eval)


section \<open>The two rescue objectives of the flood\<close>

lemma seven_tenths: "((of_nat n :: rat) \<ge> of_nat fl_totalResidents * (7 / 10)) = (n \<ge> 7)"
proof -
  have "(of_nat fl_totalResidents :: rat) * (7 / 10) = of_nat 7" by (simp add: fl_totalResidents_def)
  then show ?thesis by (simp only: of_nat_le_iff)
qed

text \<open>
  Claim C9, as amended. The timer of an evacuation (by a click or by the staggered
  evacuation) adds one to the count of rescued residents and sets \<open>evacuateResidents\<close>
  when the count has reached 7 of 10; it leaves \<open>rescueStranded\<close> as it is. The timer of
  a boat rescue adds one to the count and sets \<open>rescueStranded\<close> when the count has
  reached 10; it leaves \<open>evacuateResidents\<close> as it is.
\<close>

theorem rescue_objectives_by_path:
  "rescuedResidents (residentSheltered i c s) = rescuedResidents s + 1
   \<and> map_of (objectives (residentSheltered i c s)) ''evacuateResidents''
       = (if rescuedResidents s + 1 \<ge> 7 then Some True
          else map_of (objectives s) ''evacuateResidents'')
   \<and> map_of (objectives (residentSheltered i c s)) ''rescueStranded''
       = map_of (objectives s) ''rescueStranded''
   \<and> rescuedResidents (boatArrived r b s) = rescuedResidents s + 1
   \<and> map_of (objectives (boatArrived r b s)) ''rescueStranded''
       = (if rescuedResidents s + 1 \<ge> 10 then Some True
          else map_of (objectives s) ''rescueStranded'')
   \<and> map_of (objectives (boatArrived r b s)) ''evacuateResidents''
       = map_of (objectives s) ''evacuateResidents''"
  by (simp add: residentSheltered_def boatArrived_def Let_def set_objective_def call_def
      seven_tenths fl_totalResidents_def AList.update_conv')



text \<open>
  Counterexample to C9 as stated. The ten residents of a flood session are evacuated by
  clicks; when the last evacuation timer has fired the count of rescued residents is 10,
  \<open>evacuateResidents\<close> is true and \<open>rescueStranded\<close> is still false.
\<close>

theorem all_evacuated_rescueStranded_unset:
  "rescuedResidents all_sheltered = 10
   \<and> map_of (objectives all_sheltered) ''rescueStranded'' = Some False
   \<and> map_of (objectives all_sheltered) ''evacuateResidents'' = Some True"
  by (simp add: all_sheltered_def clicked_all_def near_def upt10 fl_eval onResidentClick_def
      fl_evacuateResident_def findNearestEvacuationCenter_def nearest_def residentSheltered_def
      set_objective_def fl_totalResidents_def upt_rec)


section \<open>Badge requirements on profiles written by the controller\<close>

lemma update_values:
  "e \<in> snd ` set (AList.update k v al) \<Longrightarrow> e = v \<or> e \<in> snd ` set al"
  by (induction al) (auto simp: AList.update.simps split: if_splits)

lemma written_no_timeElapsed:
  "written_by_controller pd \<Longrightarrow>
     list_all (\<lambda>e. sim_timeElapsed e = None) (map snd (completedSimulations pd))"
proof (induction rule: written_by_controller.induct)
  case initial
  show ?case by (simp add: initialPlayerData_def)
next
  case (complete pd ts res)
  have "sim_timeElapsed e = None"
    if "e \<in> snd ` set (completedSimulations (state_of (completeSimulation ts res pd)))" for e
  proof -
    from that have "e = \<lparr>sim_completed = True, sim_score = Some (r_score res),
        sim_timeBonus = Some (r_timeBonus res), sim_accuracy = Some (r_accuracy res),
        sim_completedAt = Some ts, sim_timeElapsed = None\<rparr> \<or> e \<in> snd ` set (completedSimulations pd)"
      unfolding completedSimulations_completeSimulation by (rule update_values)
    then show ?thesis
    proof
      assume "e = \<lparr>sim_completed = True, sim_score = Some (r_score res),
        sim_timeBonus = Some (r_timeBonus res), sim_accuracy = Some (r_accuracy res),
        sim_completedAt = Some ts, sim_timeElapsed = None\<rparr>"
      then show ?thesis by simp
    next
      assume "e \<in> snd ` set (completedSimulations pd)"
      then show ?thesis using complete.IH by (auto simp: list_all_iff)
    qed
  qed
  then show ?case by (simp add: list_all_iff)
qed

lemma completeAnyIn_never:
  assumes "list_all (\<lambda>e. sim_timeElapsed e = None) (map snd (completedSimulations pd))"
    and "truthy_num (req_completeAnyIn req)"
  shows "completeAnyIn_fails req pd"
proof -
  have "\<not> js_le (sim_timeElapsed e) n" if "e \<in> set (map snd (completedSimulations pd))" for e n
    using assms(1) that by (cases "sim_timeElapsed e") (auto simp: list_all_iff)
  then show ?thesis using assms(2)
    unfolding completeAnyIn_fails_def list_ex_iff by auto
qed

lemma maxTime_irrelevant:
  assumes "list_all (\<lambda>e. sim_timeElapsed e = None) (map snd (completedSimulations pd))"
  shows "checkRequirements req pd = checkRequirements (req\<lparr>req_maxTime := None\<rparr>) pd"
proof -
  have "completeSimulation_fails req pd = completeSimulation_fails (req\<lparr>req_maxTime := None\<rparr>) pd"
  proof (cases "req_completeSimulation req")
    case None
    then show ?thesis by (simp add: completeSimulation_fails_def)
  next
    case (Some d)
    show ?thesis
    proof (cases "map_of (completedSimulations pd) d")
      case None
      then show ?thesis using Some by (simp add: completeSimulation_fails_def)
    next
      case (Some e)
      then have "(d, e) \<in> set (completedSimulations pd)" by (rule map_of_SomeD)
      then have "e \<in> set (map snd (completedSimulations pd))" by force
      then have "sim_timeElapsed e = None" using assms by (auto simp: list_all_iff)
      then show ?thesis using Some \<open>req_completeSimulation req = Some d\<close>
        by (simp add: completeSimulation_fails_def)
    qed
  qed
  then show ?thesis
    by (simp add: checkRequirements_def completeAll_fails_def totalScore_fails_def
        completeAnyIn_fails_def perfectAccuracy_fails_def)
qed

text \<open>
  Claim C10. Let the player data be written by \<open>DisasterSimGame.completeSimulation\<close> only
  (starting from the constructor's data): its entries then carry no \<open>timeElapsed\<close>.
  On such a profile \<open>checkBadgeRequirements('speedRunner', ...)\<close> is false, as is the
  check of any requirement with a \<open>completeAnyIn\<close> bound; and for every badge of the
  table the check gives the same answer as the check of its requirements with
  \<open>maxTime\<close> deleted, so the \<open>maxTime\<close> comparison never disqualifies.
\<close>

theorem speedRunner_unreachable_maxTime_inert:
  assumes "written_by_controller pd"
  shows "\<not> checkBadgeRequirements ''speedRunner'' pd
       \<and> (\<forall>req. truthy_num (req_completeAnyIn req) \<longrightarrow> \<not> checkRequirements req pd)
       \<and> (\<forall>b bd. map_of BadgeSystem_badges b = Some bd \<longrightarrow>
             checkBadgeRequirements b pd
               = checkRequirements ((requirements bd)\<lparr>req_maxTime := None\<rparr>) pd)"
proof -
  note nt = written_no_timeElapsed [OF assms]
  have any: "\<not> checkRequirements req pd" if "truthy_num (req_completeAnyIn req)" for req
    using completeAnyIn_never [OF nt that] by (simp add: checkRequirements_def)
  have "\<not> checkBadgeRequirements ''speedRunner'' pd"
    using any [of "no_requirements\<lparr>req_completeAnyIn := Some 300\<rparr>"]
    by (simp add: checkBadgeRequirements_def BadgeSystem_badges_def)
  moreover have "checkBadgeRequirements b pd
               = checkRequirements ((requirements bd)\<lparr>req_maxTime := None\<rparr>) pd"
    if "map_of BadgeSystem_badges b = Some bd" for b bd
    using that maxTime_irrelevant [OF nt, of "requirements bd"]
    by (simp add: checkBadgeRequirements_def)
  ultimately show ?thesis using any by blast
qed

text \<open>Witness for C10: the profile after one earthquake completion with score 550.\<close>

theorem speedRunner_unreachable_maxTime_inert_witness:
  "written_by_controller (state_of (completeSimulation ''2026-01-01T00:00:00.000Z''
       \<lparr>r_disaster = ''earthquake'', r_score = 550, r_timeBonus = 50, r_accuracy = 100\<rparr>
       initialPlayerData))
   \<and> \<not> checkBadgeRequirements ''speedRunner'' (state_of (completeSimulation ''2026-01-01T00:00:00.000Z''
       \<lparr>r_disaster = ''earthquake'', r_score = 550, r_timeBonus = 50, r_accuracy = 100\<rparr>
       initialPlayerData))
   \<and> checkBadgeRequirements ''earthquake'' (state_of (completeSimulation ''2026-01-01T00:00:00.000Z''
       \<lparr>r_disaster = ''earthquake'', r_score = 550, r_timeBonus = 50, r_accuracy = 100\<rparr>
       initialPlayerData))"
proof -
  have h: "written_by_controller (state_of (completeSimulation ''2026-01-01T00:00:00.000Z''
       \<lparr>r_disaster = ''earthquake'', r_score = 550, r_timeBonus = 50, r_accuracy = 100\<rparr>
       initialPlayerData))"
    by (rule written_by_controller.complete [OF written_by_controller.initial])
  have e: "checkBadgeRequirements ''earthquake'' (state_of (completeSimulation ''2026-01-01T00:00:00.000Z''
       \<lparr>r_disaster = ''earthquake'', r_score = 550, r_timeBonus = 50, r_accuracy = 100\<rparr>
       initialPlayerData))"
    by (simp add: checkBadgeRequirements_def BadgeSystem_badges_def completeSimulation_def
        getBadgeForDisaster_def initialPlayerData_def Let_def checkRequirements_def
        completeSimulation_fails_def completeAll_fails_def totalScore_fails_def
        completeAnyIn_fails_def perfectAccuracy_fails_def no_requirements_def)
  show ?thesis using h e speedRunner_unreachable_maxTime_inert [OF h] by blast
qed


end
